theory Spec2Isabelle
  imports Main "HOL-Library.Word"
begin

unbundle bit_operations_syntax

section \<open>The document tab controller (gedit-tab.c)\<close>

subsection \<open>Data\<close>

text \<open>
  The tab states of \<^verbatim>\<open>GeditTabState\<close>. The enumeration is declared in gedit-tab.h; the
  constructors keep the names gedit-tab.c uses. \<^verbatim>\<open>gedit_tab_set_state\<close> checks
  \<^verbatim>\<open>0 <= state < GEDIT_TAB_NUM_OF_STATES\<close>, which every value of the datatype satisfies.
\<close>

datatype GeditTabState =
    GEDIT_TAB_STATE_NORMAL
  | GEDIT_TAB_STATE_LOADING
  | GEDIT_TAB_STATE_REVERTING
  | GEDIT_TAB_STATE_SAVING
  | GEDIT_TAB_STATE_PRINTING
  | GEDIT_TAB_STATE_PRINT_PREVIEWING
  | GEDIT_TAB_STATE_SHOWING_PRINT_PREVIEW
  | GEDIT_TAB_STATE_LOADING_ERROR
  | GEDIT_TAB_STATE_REVERTING_ERROR
  | GEDIT_TAB_STATE_SAVING_ERROR
  | GEDIT_TAB_STATE_GENERIC_ERROR
  | GEDIT_TAB_STATE_EXTERNALLY_MODIFIED_NOTIFICATION
  | GEDIT_TAB_STATE_CLOSING

text \<open>
  \<^verbatim>\<open>GtkSourceFileSaverFlags\<close> is a bit mask of the saver library:
  NONE = 0, IGNORE_INVALID_CHARS = 1 << 0, IGNORE_MODIFICATION_TIME = 1 << 1,
  CREATE_BACKUP = 1 << 2.
\<close>

type_synonym GtkSourceFileSaverFlags = "32 word"

definition GTK_SOURCE_FILE_SAVER_FLAGS_NONE :: GtkSourceFileSaverFlags where
  "GTK_SOURCE_FILE_SAVER_FLAGS_NONE = 0"

definition GTK_SOURCE_FILE_SAVER_FLAGS_IGNORE_INVALID_CHARS :: GtkSourceFileSaverFlags where
  "GTK_SOURCE_FILE_SAVER_FLAGS_IGNORE_INVALID_CHARS = push_bit 0 1"

definition GTK_SOURCE_FILE_SAVER_FLAGS_IGNORE_MODIFICATION_TIME :: GtkSourceFileSaverFlags where
  "GTK_SOURCE_FILE_SAVER_FLAGS_IGNORE_MODIFICATION_TIME = push_bit 1 1"

definition GTK_SOURCE_FILE_SAVER_FLAGS_CREATE_BACKUP :: GtkSourceFileSaverFlags where
  "GTK_SOURCE_FILE_SAVER_FLAGS_CREATE_BACKUP = push_bit 2 1"

text \<open>
  A \<^verbatim>\<open>GError\<close>: its domain and its code. The codes are those of the libraries' headers
  (\<^verbatim>\<open>GtkSourceFileSaverError\<close>, \<^verbatim>\<open>GtkSourceFileLoaderError\<close>,
  \<^verbatim>\<open>GIOErrorEnum\<close>); a code means something only
  together with its domain, which is why the source always tests both.
\<close>

datatype GQuark =
    GTK_SOURCE_FILE_SAVER_ERROR | GTK_SOURCE_FILE_LOADER_ERROR | G_IO_ERROR | G_CONVERT_ERROR
  | OTHER_ERROR_DOMAIN nat

record GError =
  err_domain :: GQuark
  err_code :: int

definition GTK_SOURCE_FILE_SAVER_ERROR_INVALID_CHARS :: int where
  "GTK_SOURCE_FILE_SAVER_ERROR_INVALID_CHARS = 0"

definition GTK_SOURCE_FILE_SAVER_ERROR_EXTERNALLY_MODIFIED :: int where
  "GTK_SOURCE_FILE_SAVER_ERROR_EXTERNALLY_MODIFIED = 1"

definition GTK_SOURCE_FILE_LOADER_ERROR_CONVERSION_FALLBACK :: int where
  "GTK_SOURCE_FILE_LOADER_ERROR_CONVERSION_FALLBACK = 2"

definition G_IO_ERROR_NOT_FOUND :: int where
  "G_IO_ERROR_NOT_FOUND = 1"

definition G_IO_ERROR_CANCELLED :: int where
  "G_IO_ERROR_CANCELLED = 19"

definition G_IO_ERROR_CANT_CREATE_BACKUP :: int where
  "G_IO_ERROR_CANT_CREATE_BACKUP = 22"

definition G_IO_ERROR_PARTIAL_INPUT :: int where
  "G_IO_ERROR_PARTIAL_INPUT = 34"

definition G_IO_ERROR_INVALID_DATA :: int where
  "G_IO_ERROR_INVALID_DATA = 35"

text \<open>An encoding of the encoding table, identified by its charset; a file location.\<close>

datatype GtkSourceEncoding = GtkSourceEncoding string

datatype GFile = GFile string

datatype GtkResponseType =
    GTK_RESPONSE_NONE | GTK_RESPONSE_OK | GTK_RESPONSE_CANCEL | GTK_RESPONSE_CLOSE
  | GTK_RESPONSE_YES | GTK_RESPONSE_NO

text \<open>
  The info bars gedit-tab.c builds, named after their constructors. Each comes with the
  response callback the source connects to it (in comments below).
\<close>

datatype InfoBarKind =
    ProgressInfoBar string
  | ExternallyModifiedSavingErrorInfoBar
  | NoBackupSavingErrorInfoBar
  | InvalidCharacterInfoBar
  | UnrecoverableSavingErrorInfoBar
  | ConversionErrorWhileSavingInfoBar
  | IoLoadingErrorInfoBar
  | UnrecoverableRevertingErrorInfoBar
  | FileAlreadyOpenWarningInfoBar

record InfoBar =
  bar_kind :: InfoBarKind
  bar_default_response :: GtkResponseType
  bar_shown :: bool

datatype GLogLevel = G_LOG_LEVEL_CRITICAL | G_LOG_LEVEL_WARNING

text \<open>
  What a function does beyond updating the tab: log messages (\<^verbatim>\<open>g_return_if_fail\<close>
  logs at the critical level and returns, \<^verbatim>\<open>g_warning\<close> logs a warning), property
  notifications, signals on the document, and calls into the loader, the saver, the print
  job, the recent-files list, the main loop and the notebook that holds the tab.
  \<open>LoadAsync\<close> is the call of \<^verbatim>\<open>gtk_source_file_loader_load_async\<close> and \<open>LoadFinish\<close>
  the call of \<^verbatim>\<open>gtk_source_file_loader_load_finish\<close>. The argument of
  \<open>TimeoutAddSeconds\<close> is the \<^verbatim>\<open>guint\<close> interval of \<^verbatim>\<open>g_timeout_add_seconds\<close>.
\<close>

datatype Effect =
    Log GLogLevel string
  | Notify string
  | DocumentSignal string
  | LoadAsync
  | LoadFinish
  | GotoLine
  | IdleAdd
  | RemoveTab
  | SaveAsync GtkSourceFileSaverFlags
  | RecentAddDocument
  | RecentRemoveIfLocal
  | TaskReturnBoolean bool
  | PrintJobNew
  | PrintJobPrint
  | TimeoutAddSeconds "32 word"
  | SourceRemove nat

text \<open>\<^verbatim>\<open>SaverData\<close>, the task data of \<^verbatim>\<open>task_saver\<close>: the saver (here its flags) and
  \<^verbatim>\<open>force_no_backup\<close>.\<close>

record SaverData =
  saver_flags :: GtkSourceFileSaverFlags
  force_no_backup :: bool

record FileLoader =
  loader_location :: "GFile option"
  candidate_encodings :: "GtkSourceEncoding list"

text \<open>
  What the tab reads from its document and the document's \<^verbatim>\<open>GtkSourceFile\<close>. The
  queries \<^verbatim>\<open>gedit_document_is_untitled\<close>, \<^verbatim>\<open>gedit_document_get_readonly\<close>,
  \<^verbatim>\<open>gtk_text_buffer_get_modified\<close> and \<^verbatim>\<open>_gedit_document_needs_saving\<close> belong to the
  document component; their answers are fields here, and no theorem constrains them.
\<close>

record Document =
  doc_is_untitled :: bool
  doc_readonly :: bool
  doc_modified :: bool
  doc_needs_saving :: bool
  doc_create :: bool
  file_location :: "GFile option"
  file_encoding :: "GtkSourceEncoding option"
  metadata_encoding :: "string option"

text \<open>The keys of \<^verbatim>\<open>org.gnome.gedit.preferences.editor\<close> the modelled functions read.\<close>

record EditorSettings =
  create_backup_copy :: bool
  highlight_current_line :: bool

text \<open>
  \<^verbatim>\<open>struct _GeditTabPrivate\<close>, with the document and the view properties the functions
  set. \<^verbatim>\<open>auto_save_timeout\<close> is the id of the installed timeout source, 0 when there is
  none; \<^verbatim>\<open>g_timeout_add_seconds\<close> returns a positive id, written here as 1, and so does
  \<^verbatim>\<open>g_idle_add\<close> for \<^verbatim>\<open>idle_scroll\<close>. \<^verbatim>\<open>auto_save_interval\<close> is a \<^verbatim>\<open>gint\<close>: its 32 bits,
  read as a signed number by \<open>sint\<close>.
\<close>

record GeditTab =
  editor :: EditorSettings
  state :: GeditTabState
  frame_visible :: bool
  info_bar :: "InfoBar option"
  info_bar_hidden :: "InfoBar option"
  print_job :: "unit option"
  print_preview :: "unit option"
  task_saver :: "SaverData option"
  save_flags :: GtkSourceFileSaverFlags
  loader :: "FileLoader option"
  cancellable :: "unit option"
  tmp_line_pos :: int
  tmp_column_pos :: int
  timer :: "unit option"
  auto_save_interval :: "32 word"
  auto_save_timeout :: nat
  idle_scroll :: nat
  editable :: bool
  auto_save :: bool
  ask_if_externally_modified :: bool
  user_requested_encoding :: bool
  view_editable :: bool
  view_cursor_visible :: bool
  view_highlight_current_line :: bool
  document :: Document
  trace :: "Effect list"

text \<open>
  The encoding functions \<^verbatim>\<open>get_candidate_encodings\<close> calls, and the setting it reads:
  \<^verbatim>\<open>g_settings_get_strv\<close> of the candidate-encodings key (\<open>None\<close> for a NULL vector),
  \<^verbatim>\<open>_gedit_utils_encoding_strv_to_list\<close> (gedit-utils.c),
  \<^verbatim>\<open>gtk_source_encoding_get_default_candidates\<close> and
  \<^verbatim>\<open>gtk_source_encoding_get_from_charset\<close> (the encoding library). They are parameters of
  the model.
\<close>

record EncodingEnv =
  settings_strv :: "string list option"
  encoding_strv_to_list :: "string list \<Rightarrow> GtkSourceEncoding list"
  get_default_candidates :: "GtkSourceEncoding list"
  get_from_charset :: "string \<Rightarrow> GtkSourceEncoding option"

subsection \<open>Functions\<close>

text \<open>
  The functions are methods of one tab, the record they take and return. The type checks
  of the source on its arguments (\<^verbatim>\<open>GEDIT_IS_TAB (tab)\<close>) hold of every record; a NULL
  argument is \<open>None\<close>. The constructors of the info bars return a widget, so the checks
  \<^verbatim>\<open>info_bar != NULL\<close> after them pass. The asynchronous operations are started and
  return; their completion callbacks (\<^verbatim>\<open>load_cb\<close>, \<^verbatim>\<open>save_cb\<close>) are calls of their own.
\<close>

definition emit :: "Effect \<Rightarrow> GeditTab \<Rightarrow> GeditTab" where
  "emit e tab = tab\<lparr>trace := trace tab @ [e]\<rparr>"

text \<open>A failed \<^verbatim>\<open>g_return_if_fail (expr)\<close>: the critical message; the caller returns.\<close>

definition return_if_fail_warning :: "string \<Rightarrow> GeditTab \<Rightarrow> GeditTab" where
  "return_if_fail_warning expr tab = emit (Log G_LOG_LEVEL_CRITICAL expr) tab"

definition g_warning :: "string \<Rightarrow> GeditTab \<Rightarrow> GeditTab" where
  "g_warning msg tab = emit (Log G_LOG_LEVEL_WARNING msg) tab"

text \<open>
  \<^verbatim>\<open>install_auto_save_timeout\<close>. The interval in seconds is the product
  \<^verbatim>\<open>auto_save_interval * 60\<close> computed in 32 bits and handed over as a \<^verbatim>\<open>guint\<close>: the
  multiplication of the words wraps around.
\<close>

definition install_auto_save_timeout :: "GeditTab \<Rightarrow> GeditTab" where
  "install_auto_save_timeout tab =
     (if auto_save_timeout tab = 0 then
        (if \<not> 0 < sint (auto_save_interval tab)
         then return_if_fail_warning ''tab->priv->auto_save_interval > 0'' tab
         else emit (TimeoutAddSeconds (auto_save_interval tab * 60)) (tab\<lparr>auto_save_timeout := 1\<rparr>))
      else tab)"

definition remove_auto_save_timeout :: "GeditTab \<Rightarrow> GeditTab" where
  "remove_auto_save_timeout tab =
     (if auto_save_timeout tab > 0
      then (emit (SourceRemove (auto_save_timeout tab)) tab)\<lparr>auto_save_timeout := 0\<rparr>
      else tab)"

definition update_auto_save_timeout :: "GeditTab \<Rightarrow> GeditTab" where
  "update_auto_save_timeout tab =
     (if state tab = GEDIT_TAB_STATE_NORMAL \<and> auto_save tab \<and>
         \<not> doc_is_untitled (document tab) \<and> \<not> doc_readonly (document tab)
      then install_auto_save_timeout tab
      else remove_auto_save_timeout tab)"

definition set_view_properties_according_to_state :: "GeditTab \<Rightarrow> GeditTabState \<Rightarrow> GeditTab" where
  "set_view_properties_according_to_state tab st =
     (let hl_current_line = highlight_current_line (editor tab) in
      tab\<lparr>view_editable := (st = GEDIT_TAB_STATE_NORMAL \<and> editable tab),
          view_cursor_visible := (st \<noteq> GEDIT_TAB_STATE_LOADING \<and> st \<noteq> GEDIT_TAB_STATE_CLOSING),
          view_highlight_current_line :=
            (st \<noteq> GEDIT_TAB_STATE_LOADING \<and> st \<noteq> GEDIT_TAB_STATE_CLOSING \<and> hl_current_line)\<rparr>)"

text \<open>\<^verbatim>\<open>gedit_tab_set_state\<close>. The pointer shape set by
  \<^verbatim>\<open>set_cursor_according_to_state\<close> is a property of the windowing system and is left out.\<close>

definition gedit_tab_set_state :: "GeditTab \<Rightarrow> GeditTabState \<Rightarrow> GeditTab" where
  "gedit_tab_set_state tab st =
     (if state tab = st then tab
      else
        let tab1 = tab\<lparr>state := st\<rparr>;
            tab2 = set_view_properties_according_to_state tab1 st;
            tab3 = (if st = GEDIT_TAB_STATE_LOADING_ERROR \<or> st = GEDIT_TAB_STATE_SHOWING_PRINT_PREVIEW
                    then tab2\<lparr>frame_visible := False\<rparr>
                    else if print_preview tab2 = None then tab2\<lparr>frame_visible := True\<rparr>
                    else tab2);
            tab4 = update_auto_save_timeout tab3
        in emit (Notify ''can-close'') (emit (Notify ''state'') tab4))"

text \<open>
  \<^verbatim>\<open>set_info_bar\<close>. The source first compares the pointers: an info bar that was just
  built is never the one installed, so the early return is taken only when both are NULL.
\<close>

definition set_info_bar :: "GeditTab \<Rightarrow> InfoBarKind option \<Rightarrow> GtkResponseType \<Rightarrow> GeditTab" where
  "set_info_bar tab new_bar default_response =
     (case new_bar of
        None \<Rightarrow>
          (if info_bar tab = None then tab
           else tab\<lparr>info_bar_hidden := map_option (\<lambda>b. b\<lparr>bar_shown := False\<rparr>) (info_bar tab),
                    info_bar := None\<rparr>)
      | Some k \<Rightarrow>
          tab\<lparr>info_bar_hidden := None,
              info_bar := Some \<lparr>bar_kind = k, bar_default_response = default_response,
                                bar_shown = True\<rparr>\<rparr>)"

text \<open>\<^verbatim>\<open>get_candidate_encodings\<close>: the settings' list or the default candidates, then the
  metadata's encoding prepended, then the file's encoding prepended.\<close>

definition get_candidate_encodings :: "EncodingEnv \<Rightarrow> GeditTab \<Rightarrow> GtkSourceEncoding list" where
  "get_candidate_encodings env tab =
     (let candidates =
            (case settings_strv env of
               Some (s # ss) \<Rightarrow> encoding_strv_to_list env (s # ss)
             | _ \<Rightarrow> get_default_candidates env);
          candidates =
            (case metadata_encoding (document tab) of
               Some metadata_charset \<Rightarrow>
                 (case get_from_charset env metadata_charset of
                    Some metadata_enc \<Rightarrow> metadata_enc # candidates
                  | None \<Rightarrow> candidates)
             | None \<Rightarrow> candidates);
          candidates =
            (case file_encoding (document tab) of
               Some enc \<Rightarrow> enc # candidates
             | None \<Rightarrow> candidates)
      in candidates)"

text \<open>\<^verbatim>\<open>load\<close>: hands the candidate encodings to the loader and starts the asynchronous
  load; \<^verbatim>\<open>load_cb\<close> runs when it completes.\<close>

definition load :: "EncodingEnv \<Rightarrow> GeditTab \<Rightarrow> GtkSourceEncoding option \<Rightarrow> int \<Rightarrow> int \<Rightarrow> GeditTab" where
  "load env tab encoding line_pos column_pos =
     (case loader tab of
        None \<Rightarrow> return_if_fail_warning ''GTK_SOURCE_IS_FILE_LOADER (tab->priv->loader)'' tab
      | Some ld \<Rightarrow>
          (let (tab1, cands) =
                 (case encoding of
                    Some e \<Rightarrow> (tab\<lparr>user_requested_encoding := True\<rparr>, [e])
                  | None \<Rightarrow> (tab\<lparr>user_requested_encoding := False\<rparr>,
                             get_candidate_encodings env tab));
               tab2 = tab1\<lparr>loader := Some (ld\<lparr>candidate_encodings := cands\<rparr>)\<rparr>;
               tab3 = tab2\<lparr>tmp_line_pos := line_pos, tmp_column_pos := column_pos\<rparr>;
               tab4 = tab3\<lparr>cancellable := Some ()\<rparr>;
               tab5 = emit (DocumentSignal ''load'') tab4
           in emit LoadAsync tab5))"

definition gedit_tab_load ::
  "EncodingEnv \<Rightarrow> GeditTab \<Rightarrow> GFile option \<Rightarrow> GtkSourceEncoding option \<Rightarrow> int \<Rightarrow> int \<Rightarrow> bool \<Rightarrow> GeditTab" where
  "gedit_tab_load env tab location encoding line_pos column_pos create =
     (if location = None then return_if_fail_warning ''G_IS_FILE (location)'' tab
      else if state tab \<noteq> GEDIT_TAB_STATE_NORMAL
      then return_if_fail_warning ''tab->priv->state == GEDIT_TAB_STATE_NORMAL'' tab
      else
        let tab1 = gedit_tab_set_state tab GEDIT_TAB_STATE_LOADING;
            tab2 = (if loader tab1 \<noteq> None
                    then g_warning ''GeditTab: file loader already exists.'' tab1
                    else tab1);
            tab3 = tab2\<lparr>document := (document tab2)\<lparr>file_location := location\<rparr>\<rparr>;
            tab4 = tab3\<lparr>loader := Some \<lparr>loader_location = location, candidate_encodings = []\<rparr>\<rparr>;
            tab5 = tab4\<lparr>document := (document tab4)\<lparr>doc_create := create\<rparr>\<rparr>
        in load env tab5 encoding line_pos column_pos)"

definition gedit_tab_revert :: "EncodingEnv \<Rightarrow> GeditTab \<Rightarrow> GeditTab" where
  "gedit_tab_revert env tab =
     (if \<not> (state tab = GEDIT_TAB_STATE_NORMAL \<or>
             state tab = GEDIT_TAB_STATE_EXTERNALLY_MODIFIED_NOTIFICATION)
      then return_if_fail_warning
             ''tab->priv->state == GEDIT_TAB_STATE_NORMAL || tab->priv->state == GEDIT_TAB_STATE_EXTERNALLY_MODIFIED_NOTIFICATION'' tab
      else
        let tab1 = (if state tab = GEDIT_TAB_STATE_EXTERNALLY_MODIFIED_NOTIFICATION
                    then set_info_bar tab None GTK_RESPONSE_NONE
                    else tab);
            location = file_location (document tab1)
        in if location = None then return_if_fail_warning ''location != NULL'' tab1
           else
             let tab2 = gedit_tab_set_state tab1 GEDIT_TAB_STATE_REVERTING;
                 tab3 = (if loader tab2 \<noteq> None
                         then g_warning ''GeditTab: file loader already exists.'' tab2
                         else tab2);
                 tab4 = tab3\<lparr>loader := Some \<lparr>loader_location = location, candidate_encodings = []\<rparr>\<rparr>
             in load env tab4 None 0 0)"

definition clear_loading :: "GeditTab \<Rightarrow> GeditTab" where
  "clear_loading tab = tab\<lparr>loader := None, cancellable := None\<rparr>"

text \<open>\<^verbatim>\<open>remove_tab\<close>: the tab asks the notebook that holds it to remove it.\<close>

definition remove_tab :: "GeditTab \<Rightarrow> GeditTab" where
  "remove_tab tab = emit RemoveTab tab"

text \<open>
  \<^verbatim>\<open>show_loading_info_bar\<close> builds the progress info bar of a load or revert, unless an
  info bar is installed already; the message of the bar is left out. Its response callback
  is \<^verbatim>\<open>load_cancelled\<close>. \<^verbatim>\<open>info_bar_set_progress\<close> updates the fraction shown by the
  progress info bar, which is the widget's own state.
\<close>

definition show_loading_info_bar :: "GeditTab \<Rightarrow> GeditTab" where
  "show_loading_info_bar tab =
     (if info_bar tab \<noteq> None then tab
      else if state tab = GEDIT_TAB_STATE_REVERTING
      then set_info_bar tab (Some (ProgressInfoBar ''document-revert'')) GTK_RESPONSE_NONE
      else set_info_bar tab (Some (ProgressInfoBar ''document-open'')) GTK_RESPONSE_NONE)"

definition info_bar_set_progress :: "GeditTab \<Rightarrow> GeditTab" where
  "info_bar_set_progress tab =
     (case info_bar tab of
        None \<Rightarrow> tab
      | Some bar \<Rightarrow>
          (case bar_kind bar of
             ProgressInfoBar icon \<Rightarrow> tab
           | _ \<Rightarrow> return_if_fail_warning
                    ''GEDIT_IS_PROGRESS_INFO_BAR (tab->priv->info_bar)'' tab))"

text \<open>
  \<^verbatim>\<open>loader_progress_cb\<close>, which the loader calls while a load is under way.
  \<open>remaining\<close> says whether the remaining time, estimated from the timer and the sizes,
  exceeds three seconds.
\<close>

definition loader_progress_cb :: "GeditTab \<Rightarrow> bool \<Rightarrow> GeditTab" where
  "loader_progress_cb tab remaining =
     (if \<not> (state tab = GEDIT_TAB_STATE_LOADING \<or> state tab = GEDIT_TAB_STATE_REVERTING)
      then return_if_fail_warning
             ''tab->priv->state == GEDIT_TAB_STATE_LOADING || tab->priv->state == GEDIT_TAB_STATE_REVERTING'' tab
      else
        let tab1 = (if timer tab = None then tab\<lparr>timer := Some ()\<rparr> else tab);
            tab2 = (if remaining then show_loading_info_bar tab1 else tab1)
        in info_bar_set_progress tab2)"

text \<open>
  \<^verbatim>\<open>load_cb\<close>, the completion callback of the asynchronous load. \<open>ld\<close> is the loader
  whose load has completed, \<open>error\<close> what \<^verbatim>\<open>gtk_source_file_loader_load_finish\<close>
  reports, \<open>encoding\<close> the encoding the loader settled on, \<open>file_scheme\<close> whether the
  loader's location has the URI scheme file, and \<open>same_location_open\<close> whether another
  document of the application has the same location. \<^verbatim>\<open>goto_line\<close> moves the cursor of
  the document and nothing of the tab. Connected response callbacks:
  loading error and conversion fallback: \<^verbatim>\<open>io_loading_error_info_bar_response\<close>;
  reverting error: \<^verbatim>\<open>unrecoverable_reverting_error_info_bar_response\<close>;
  file already open: \<^verbatim>\<open>file_already_open_warning_info_bar_response\<close>.
\<close>

definition load_cb ::
  "GeditTab \<Rightarrow> FileLoader \<Rightarrow> GError option \<Rightarrow> GtkSourceEncoding \<Rightarrow> bool \<Rightarrow> bool \<Rightarrow> GeditTab" where
  "load_cb tab ld error encoding file_scheme same_location_open =
     (let location = loader_location ld in
      if \<not> (state tab = GEDIT_TAB_STATE_LOADING \<or> state tab = GEDIT_TAB_STATE_REVERTING)
      then return_if_fail_warning
             ''tab->priv->state == GEDIT_TAB_STATE_LOADING || tab->priv->state == GEDIT_TAB_STATE_REVERTING'' tab
      else
        let tab1 = emit LoadFinish tab;
            tab2 = tab1\<lparr>timer := None\<rparr>;
            tab3 = set_info_bar tab2 None GTK_RESPONSE_NONE;
            conversion_fallback =
              (case error of
                 None \<Rightarrow> False
               | Some e \<Rightarrow> err_domain e = GTK_SOURCE_FILE_LOADER_ERROR \<and>
                           err_code e = GTK_SOURCE_FILE_LOADER_ERROR_CONVERSION_FALLBACK);
            tab4 = (if error = None \<or> conversion_fallback
                    then emit GotoLine
                           (if user_requested_encoding tab3
                            then tab3\<lparr>document := (document tab3)
                                   \<lparr>metadata_encoding :=
                                      Some (case encoding of GtkSourceEncoding charset \<Rightarrow> charset)\<rparr>\<rparr>
                            else tab3)
                    else tab3);
            create_named_new_doc =
              (doc_create (document tab4) \<and>
               (case error of
                  None \<Rightarrow> False
                | Some e \<Rightarrow> err_domain e = G_IO_ERROR \<and> err_code e = G_IO_ERROR_NOT_FOUND) \<and>
               file_scheme);
            error = (if create_named_new_doc then None else error)
        in (case (if conversion_fallback then None else error) of
              Some e \<Rightarrow>
                (let tab5 = (if state tab4 = GEDIT_TAB_STATE_LOADING
                             then gedit_tab_set_state tab4 GEDIT_TAB_STATE_LOADING_ERROR
                             else gedit_tab_set_state tab4 GEDIT_TAB_STATE_REVERTING_ERROR)
                 in if err_domain e = G_IO_ERROR \<and> err_code e = G_IO_ERROR_CANCELLED
                    then remove_tab tab5
                    else
                      let tab6 = (if location \<noteq> None then emit RecentRemoveIfLocal tab5 else tab5)
                      in if state tab6 = GEDIT_TAB_STATE_LOADING_ERROR
                         then set_info_bar tab6 (Some IoLoadingErrorInfoBar) GTK_RESPONSE_CANCEL
                         else if state tab6 \<noteq> GEDIT_TAB_STATE_REVERTING_ERROR
                         then return_if_fail_warning
                                ''tab->priv->state == GEDIT_TAB_STATE_REVERTING_ERROR'' tab6
                         else set_info_bar tab6 (Some UnrecoverableRevertingErrorInfoBar)
                                GTK_RESPONSE_CANCEL)
            | None \<Rightarrow>
                (let tab5 = (if \<not> create_named_new_doc then emit RecentAddDocument tab4 else tab4);
                     tab6 = (if error \<noteq> None
                             then set_info_bar (tab5\<lparr>editable := False\<rparr>)
                                    (Some IoLoadingErrorInfoBar) GTK_RESPONSE_CANCEL
                             else tab5);
                     tab7 = (if idle_scroll tab6 = 0
                             then (emit IdleAdd tab6)\<lparr>idle_scroll := 1\<rparr>
                             else tab6);
                     tab8 = (if \<not> doc_readonly (document tab7) \<and> location \<noteq> None \<and>
                                same_location_open
                             then set_info_bar (tab7\<lparr>editable := False\<rparr>)
                                    (Some FileAlreadyOpenWarningInfoBar) GTK_RESPONSE_CANCEL
                             else tab7);
                     tab9 = gedit_tab_set_state tab8 GEDIT_TAB_STATE_NORMAL;
                     tab10 = (if location = None
                              then tab9\<lparr>document := (document tab9)\<lparr>doc_modified := True\<rparr>\<rparr>
                              else tab9);
                     tab11 = tab10\<lparr>ask_if_externally_modified := True\<rparr>;
                     tab12 = (if error = None then clear_loading tab11 else tab11)
                 in emit (DocumentSignal ''loaded'') tab12)))"

text \<open>
  \<^verbatim>\<open>io_loading_error_info_bar_response\<close>, the response callback of the info bar that
  \<^verbatim>\<open>load_cb\<close> installs after a loading error and after a conversion fallback.
  \<open>encoding\<close> is what \<^verbatim>\<open>gedit_conversion_error_info_bar_get_encoding\<close> reads from the
  info bar. The only check of the function is that a loader exists.
\<close>

definition io_loading_error_info_bar_response ::
  "EncodingEnv \<Rightarrow> GeditTab \<Rightarrow> GtkResponseType \<Rightarrow> GtkSourceEncoding option \<Rightarrow> GeditTab" where
  "io_loading_error_info_bar_response env tab response_id encoding =
     (case loader tab of
        None \<Rightarrow> return_if_fail_warning ''tab->priv->loader != NULL'' tab
      | Some ld \<Rightarrow>
          (let location = loader_location ld in
           if response_id = GTK_RESPONSE_OK
           then
             let tab1 = set_info_bar tab None GTK_RESPONSE_NONE;
                 tab2 = gedit_tab_set_state tab1 GEDIT_TAB_STATE_LOADING
             in load env tab2 encoding (tmp_line_pos tab2) (tmp_column_pos tab2)
           else if response_id = GTK_RESPONSE_YES
           then
             let tab1 = tab\<lparr>editable := True, view_editable := True\<rparr>;
                 tab2 = set_info_bar tab1 None GTK_RESPONSE_NONE
             in clear_loading tab2
           else
             let tab1 = (if location \<noteq> None then emit RecentRemoveIfLocal tab else tab)
             in remove_tab tab1))"

definition close_printing :: "GeditTab \<Rightarrow> GeditTab" where
  "close_printing tab =
     (let tab1 = tab\<lparr>print_job := None\<rparr>;
          tab2 = tab1\<lparr>print_preview := None\<rparr>;
          tab3 = set_info_bar tab2 None GTK_RESPONSE_NONE
      in gedit_tab_set_state tab3 GEDIT_TAB_STATE_NORMAL)"

text \<open>
  \<^verbatim>\<open>save_cb\<close>, the completion callback of the asynchronous save; \<open>error\<close> is what
  \<^verbatim>\<open>gtk_source_file_saver_save_finish\<close> reports. Connected response callbacks:
  externally modified: \<^verbatim>\<open>externally_modified_error_info_bar_response\<close>;
  no backup: \<^verbatim>\<open>no_backup_error_info_bar_response\<close>;
  invalid characters: \<^verbatim>\<open>invalid_character_info_bar_response\<close>;
  unrecoverable: \<^verbatim>\<open>unrecoverable_saving_error_info_bar_response\<close>;
  conversion: \<^verbatim>\<open>recoverable_saving_error_info_bar_response\<close>.
\<close>

definition save_cb :: "GeditTab \<Rightarrow> GError option \<Rightarrow> GeditTab" where
  "save_cb tab error =
     (if state tab \<noteq> GEDIT_TAB_STATE_SAVING
      then return_if_fail_warning ''tab->priv->state == GEDIT_TAB_STATE_SAVING'' tab
      else if task_saver tab = None
      then return_if_fail_warning ''tab->priv->task_saver != NULL'' tab
      else
        let tab1 = tab\<lparr>timer := None\<rparr>;
            tab2 = set_info_bar tab1 None GTK_RESPONSE_NONE
        in (case error of
              Some e \<Rightarrow>
                (let tab3 = gedit_tab_set_state tab2 GEDIT_TAB_STATE_SAVING_ERROR in
                 if err_domain e = GTK_SOURCE_FILE_SAVER_ERROR \<and>
                    err_code e = GTK_SOURCE_FILE_SAVER_ERROR_EXTERNALLY_MODIFIED
                 then set_info_bar tab3 (Some ExternallyModifiedSavingErrorInfoBar) GTK_RESPONSE_CANCEL
                 else if err_domain e = G_IO_ERROR \<and> err_code e = G_IO_ERROR_CANT_CREATE_BACKUP
                 then set_info_bar tab3 (Some NoBackupSavingErrorInfoBar) GTK_RESPONSE_CANCEL
                 else if err_domain e = GTK_SOURCE_FILE_SAVER_ERROR \<and>
                         err_code e = GTK_SOURCE_FILE_SAVER_ERROR_INVALID_CHARS
                 then set_info_bar tab3 (Some InvalidCharacterInfoBar) GTK_RESPONSE_CANCEL
                 else if err_domain e = GTK_SOURCE_FILE_SAVER_ERROR \<or>
                         (err_domain e = G_IO_ERROR \<and>
                          err_code e \<noteq> G_IO_ERROR_INVALID_DATA \<and>
                          err_code e \<noteq> G_IO_ERROR_PARTIAL_INPUT)
                 then set_info_bar (emit RecentRemoveIfLocal tab3)
                        (Some UnrecoverableSavingErrorInfoBar) GTK_RESPONSE_CANCEL
                 else if \<not> (err_domain e = G_CONVERT_ERROR \<or> err_domain e = G_IO_ERROR)
                 then return_if_fail_warning
                        ''error->domain == G_CONVERT_ERROR || error->domain == G_IO_ERROR'' tab3
                 else set_info_bar tab3 (Some ConversionErrorWhileSavingInfoBar) GTK_RESPONSE_CANCEL)
            | None \<Rightarrow>
                (let tab3 = emit RecentAddDocument tab2;
                     tab4 = gedit_tab_set_state tab3 GEDIT_TAB_STATE_NORMAL;
                     tab5 = tab4\<lparr>ask_if_externally_modified := True\<rparr>;
                     tab6 = emit (DocumentSignal ''saved'') tab5
                 in emit (TaskReturnBoolean True) tab6)))"

text \<open>\<^verbatim>\<open>save\<close>: enters the saving state and starts the asynchronous save with the saver of
  the pending task; \<^verbatim>\<open>save_cb\<close> runs when it completes.\<close>

definition save :: "GeditTab \<Rightarrow> GeditTab" where
  "save tab =
     (case task_saver tab of
        None \<Rightarrow> return_if_fail_warning ''G_IS_TASK (tab->priv->task_saver)'' tab
      | Some data \<Rightarrow>
          (let tab1 = gedit_tab_set_state tab GEDIT_TAB_STATE_SAVING;
               tab2 = emit (DocumentSignal ''save'') tab1
           in emit (SaveAsync (saver_flags data)) tab2))"

definition get_initial_save_flags :: "GeditTab \<Rightarrow> bool \<Rightarrow> GtkSourceFileSaverFlags" where
  "get_initial_save_flags tab auto_save_op =
     (let flags = save_flags tab;
          create_backup = create_backup_copy (editor tab)
      in if create_backup \<and> \<not> auto_save_op
         then flags OR GTK_SOURCE_FILE_SAVER_FLAGS_CREATE_BACKUP
         else flags)"

definition gedit_tab_save_async :: "GeditTab \<Rightarrow> GeditTab" where
  "gedit_tab_save_async tab =
     (if \<not> (state tab = GEDIT_TAB_STATE_NORMAL \<or>
             state tab = GEDIT_TAB_STATE_EXTERNALLY_MODIFIED_NOTIFICATION \<or>
             state tab = GEDIT_TAB_STATE_SHOWING_PRINT_PREVIEW)
      then return_if_fail_warning
             ''tab->priv->state == GEDIT_TAB_STATE_NORMAL || tab->priv->state == GEDIT_TAB_STATE_EXTERNALLY_MODIFIED_NOTIFICATION || tab->priv->state == GEDIT_TAB_STATE_SHOWING_PRINT_PREVIEW'' tab
      else if task_saver tab \<noteq> None
      then g_warning ''GeditTab: file saver already exists.'' tab
      else
        let tab1 = (if state tab = GEDIT_TAB_STATE_SHOWING_PRINT_PREVIEW
                    then close_printing tab else tab)
        in if doc_is_untitled (document tab1)
           then return_if_fail_warning ''!gedit_document_is_untitled (doc)'' tab1
           else
             let flags = get_initial_save_flags tab1 False;
                 (tab2, flags) =
                   (if state tab1 = GEDIT_TAB_STATE_EXTERNALLY_MODIFIED_NOTIFICATION
                    then (set_info_bar tab1 None GTK_RESPONSE_NONE,
                          flags OR GTK_SOURCE_FILE_SAVER_FLAGS_IGNORE_MODIFICATION_TIME)
                    else (tab1, flags));
                 tab3 = tab2\<lparr>task_saver := Some \<lparr>saver_flags = flags, force_no_backup = False\<rparr>\<rparr>
             in save tab3)"

text \<open>\<^verbatim>\<open>gedit_tab_auto_save\<close>, the timeout callback. The result is
  \<^verbatim>\<open>G_SOURCE_CONTINUE\<close> (\<open>True\<close>) or \<^verbatim>\<open>G_SOURCE_REMOVE\<close> (\<open>False\<close>).\<close>

definition gedit_tab_auto_save :: "GeditTab \<Rightarrow> bool \<times> GeditTab" where
  "gedit_tab_auto_save tab =
     (if doc_is_untitled (document tab)
      then (False, return_if_fail_warning ''!gedit_document_is_untitled (doc)'' tab)
      else if doc_readonly (document tab)
      then (False, return_if_fail_warning ''!gedit_document_get_readonly (doc)'' tab)
      else if \<not> doc_modified (document tab) then (True, tab)
      else if state tab \<noteq> GEDIT_TAB_STATE_NORMAL
      then (False, emit (TimeoutAddSeconds 30) (tab\<lparr>auto_save_timeout := 1\<rparr>))
      else
        let tab1 = tab\<lparr>auto_save_timeout := 0\<rparr>
        in if task_saver tab1 \<noteq> None
           then (False, g_warning ''GeditTab: file saver already exists.'' tab1)
           else
             let flags = get_initial_save_flags tab1 True;
                 tab2 = tab1\<lparr>task_saver := Some \<lparr>saver_flags = flags, force_no_backup = False\<rparr>\<rparr>
             in (False, save tab2))"

definition add_printing_info_bar :: "GeditTab \<Rightarrow> GeditTab" where
  "add_printing_info_bar tab =
     (let tab1 = set_info_bar tab (Some (ProgressInfoBar ''document-print'')) GTK_RESPONSE_NONE
      in tab1\<lparr>info_bar := map_option (\<lambda>b. b\<lparr>bar_shown := False\<rparr>) (info_bar tab1)\<rparr>)"

text \<open>
  \<^verbatim>\<open>_gedit_tab_print\<close>. \<open>res_error\<close> says whether \<^verbatim>\<open>gedit_print_job_print\<close> returns
  \<^verbatim>\<open>GTK_PRINT_OPERATION_RESULT_ERROR\<close>.
\<close>

definition gedit_tab_print :: "GeditTab \<Rightarrow> bool \<Rightarrow> GeditTab" where
  "gedit_tab_print tab res_error =
     (let tab1 = (if state tab = GEDIT_TAB_STATE_SHOWING_PRINT_PREVIEW
                  then close_printing tab else tab)
      in if print_job tab1 \<noteq> None
         then return_if_fail_warning ''tab->priv->print_job == NULL'' tab1
         else if state tab1 \<noteq> GEDIT_TAB_STATE_NORMAL
         then return_if_fail_warning ''tab->priv->state == GEDIT_TAB_STATE_NORMAL'' tab1
         else
           let tab2 = emit PrintJobNew (tab1\<lparr>print_job := Some ()\<rparr>);
               tab3 = add_printing_info_bar tab2;
               tab4 = gedit_tab_set_state tab3 GEDIT_TAB_STATE_PRINTING;
               tab5 = emit PrintJobPrint tab4
           in if res_error
              then close_printing (g_warning ''Async print preview failed'' tab5)
              else tab5)"

definition gedit_tab_get_can_close :: "GeditTab \<Rightarrow> bool" where
  "gedit_tab_get_can_close tab =
     (if state tab = GEDIT_TAB_STATE_LOADING \<or>
         state tab = GEDIT_TAB_STATE_LOADING_ERROR \<or>
         state tab = GEDIT_TAB_STATE_REVERTING \<or>
         state tab = GEDIT_TAB_STATE_REVERTING_ERROR
      then True
      else if state tab = GEDIT_TAB_STATE_SAVING_ERROR then False
      else if doc_needs_saving (document tab) then False
      else True)"

text \<open>
  The response callbacks that write \<^verbatim>\<open>tab->priv->save_flags\<close> or end a save, and
  \<^verbatim>\<open>_gedit_tab_save_as_async\<close>. The target, encoding, newline and compression types of
  the saver are left out of \<open>SaverData\<close>, and so is the focus the callbacks hand back to
  the view.
\<close>

definition unrecoverable_saving_error_info_bar_response :: "GeditTab \<Rightarrow> GeditTab" where
  "unrecoverable_saving_error_info_bar_response tab =
     (let tab1 = gedit_tab_set_state tab GEDIT_TAB_STATE_NORMAL;
          tab2 = set_info_bar tab1 None GTK_RESPONSE_NONE
      in if task_saver tab2 = None
         then return_if_fail_warning ''tab->priv->task_saver != NULL'' tab2
         else emit (TaskReturnBoolean False) tab2)"

text \<open>\<^verbatim>\<open>response_set_save_flags\<close>; every caller has checked that the saver task exists.\<close>

definition response_set_save_flags :: "GeditTab \<Rightarrow> GtkSourceFileSaverFlags \<Rightarrow> GeditTab" where
  "response_set_save_flags tab flags =
     (case task_saver tab of
        None \<Rightarrow> tab
      | Some data \<Rightarrow>
          (let create_backup = create_backup_copy (editor tab);
               flags' = (if create_backup \<and> \<not> force_no_backup data
                         then flags OR GTK_SOURCE_FILE_SAVER_FLAGS_CREATE_BACKUP
                         else flags AND NOT GTK_SOURCE_FILE_SAVER_FLAGS_CREATE_BACKUP)
           in tab\<lparr>task_saver := Some (data\<lparr>saver_flags := flags'\<rparr>)\<rparr>))"

definition invalid_character_info_bar_response :: "GeditTab \<Rightarrow> GtkResponseType \<Rightarrow> GeditTab" where
  "invalid_character_info_bar_response tab response_id =
     (if response_id = GTK_RESPONSE_YES
      then
        let tab1 = set_info_bar tab None GTK_RESPONSE_NONE
        in (case task_saver tab1 of
              None \<Rightarrow> return_if_fail_warning ''tab->priv->task_saver != NULL'' tab1
            | Some data \<Rightarrow>
                (let tab2 = tab1\<lparr>save_flags := save_flags tab1
                                   OR GTK_SOURCE_FILE_SAVER_FLAGS_IGNORE_INVALID_CHARS\<rparr>;
                     flags = saver_flags data OR GTK_SOURCE_FILE_SAVER_FLAGS_IGNORE_INVALID_CHARS;
                     tab3 = response_set_save_flags tab2 flags
                 in save tab3))
      else unrecoverable_saving_error_info_bar_response tab)"

definition gedit_tab_save_as_async ::
  "GeditTab \<Rightarrow> GFile option \<Rightarrow> GtkSourceEncoding option \<Rightarrow> GeditTab" where
  "gedit_tab_save_as_async tab location encoding =
     (if \<not> (state tab = GEDIT_TAB_STATE_NORMAL \<or>
             state tab = GEDIT_TAB_STATE_EXTERNALLY_MODIFIED_NOTIFICATION \<or>
             state tab = GEDIT_TAB_STATE_SHOWING_PRINT_PREVIEW)
      then return_if_fail_warning
             ''tab->priv->state == GEDIT_TAB_STATE_NORMAL || tab->priv->state == GEDIT_TAB_STATE_EXTERNALLY_MODIFIED_NOTIFICATION || tab->priv->state == GEDIT_TAB_STATE_SHOWING_PRINT_PREVIEW'' tab
      else if location = None then return_if_fail_warning ''G_IS_FILE (location)'' tab
      else if encoding = None then return_if_fail_warning ''encoding != NULL'' tab
      else if task_saver tab \<noteq> None
      then g_warning ''GeditTab: file saver already exists.'' tab
      else
        let tab1 = (if state tab = GEDIT_TAB_STATE_SHOWING_PRINT_PREVIEW
                    then close_printing tab else tab);
            tab2 = tab1\<lparr>save_flags := GTK_SOURCE_FILE_SAVER_FLAGS_NONE\<rparr>;
            flags = get_initial_save_flags tab2 False;
            (tab3, flags) =
              (if state tab2 = GEDIT_TAB_STATE_EXTERNALLY_MODIFIED_NOTIFICATION
               then (set_info_bar tab2 None GTK_RESPONSE_NONE,
                     flags OR GTK_SOURCE_FILE_SAVER_FLAGS_IGNORE_MODIFICATION_TIME)
               else (tab2, flags));
            tab4 = tab3\<lparr>task_saver := Some \<lparr>saver_flags = flags, force_no_backup = False\<rparr>\<rparr>
        in save tab4)"

text \<open>
  The values \<^verbatim>\<open>tab->priv->save_flags\<close> can hold. gedit-tab.c writes the field in two
  places: \<^verbatim>\<open>invalid_character_info_bar_response\<close> sets the IGNORE_INVALID_CHARS bit, and
  \<^verbatim>\<open>_gedit_tab_save_as_async\<close> resets the field to NONE. The private structure starts
  zeroed. Lemma \<open>persisted_save_flags_kept\<close> below checks the modelled functions against
  these rules.
\<close>

inductive persisted_save_flags :: "GtkSourceFileSaverFlags \<Rightarrow> bool" where
  zeroed: "persisted_save_flags 0"
| invalid_character_response:
    "persisted_save_flags f \<Longrightarrow>
     persisted_save_flags (f OR GTK_SOURCE_FILE_SAVER_FLAGS_IGNORE_INVALID_CHARS)"
| save_as: "persisted_save_flags f \<Longrightarrow> persisted_save_flags GTK_SOURCE_FILE_SAVER_FLAGS_NONE"

text \<open>
  The loads in flight, read off the trace: the loads requested from the loader library
  less the loads whose completion the tab has collected. And the messages logged.
\<close>

fun loads_in_flight :: "Effect list \<Rightarrow> int" where
  "loads_in_flight [] = 0"
| "loads_in_flight (e # es) =
     (if e = LoadAsync then 1 else if e = LoadFinish then - 1 else 0) + loads_in_flight es"

fun logged :: "Effect list \<Rightarrow> Effect list" where
  "logged [] = []"
| "logged (Log level msg # es) = Log level msg # logged es"
| "logged (e # es) = logged es"

text \<open>A tab as \<^verbatim>\<open>gedit_tab_init\<close> leaves it, for given settings and document. The
  interval is read from the settings as an unsigned 32-bit number into the \<^verbatim>\<open>gint\<close>.\<close>

definition gedit_tab_init ::
  "EditorSettings \<Rightarrow> bool \<Rightarrow> 32 word \<Rightarrow> Document \<Rightarrow> GeditTab" where
  "gedit_tab_init settings auto_save_on interval doc =
     \<lparr>editor = settings, state = GEDIT_TAB_STATE_NORMAL, frame_visible = True,
      info_bar = None, info_bar_hidden = None, print_job = None, print_preview = None,
      task_saver = None, save_flags = 0, loader = None, cancellable = None,
      tmp_line_pos = 0, tmp_column_pos = 0, timer = None,
      auto_save_interval = interval, auto_save_timeout = 0, idle_scroll = 0,
      editable = True, auto_save = auto_save_on, ask_if_externally_modified = True,
      user_requested_encoding = False, view_editable = True, view_cursor_visible = True,
      view_highlight_current_line = False, document = doc, trace = []\<rparr>"

section \<open>The pane manager (gedit-multi-notebook.c)\<close>

subsection \<open>Data\<close>

text \<open>
  Widgets are identified by their addresses: a notebook (a pane) and a tab are numbers.
  \<^verbatim>\<open>struct _GeditMultiNotebookPrivate\<close> is the first five fields of the record below.
  \<open>pages\<close> is the toolkit's side: the children of each notebook widget in page order,
  which the manager reads with \<^verbatim>\<open>gtk_notebook_get_n_pages\<close>, \<^verbatim>\<open>gtk_notebook_page_num\<close>
  and \<^verbatim>\<open>gtk_notebook_get_nth_page\<close>. \<open>effects\<close> records, in order, the signals and
  notifications the manager emits, its warnings, and its calls into the toolkit.

  \<^verbatim>\<open>total_tabs\<close> is a \<^verbatim>\<open>gint\<close>. Every page is a live widget, so the counter of a running
  program stays far from the ends of the 32-bit range; it is an unbounded integer here.
\<close>

type_synonym notebook = nat
type_synonym tab_id = nat

datatype MultiSignal =
    NOTEBOOK_ADDED notebook
  | NOTEBOOK_REMOVED notebook
  | TAB_ADDED notebook tab_id
  | TAB_REMOVED notebook tab_id

datatype MultiEffect =
    SignalEmit MultiSignal
  | PropertyNotify string
  | GWarning string
  | WidgetDestroy notebook
  | GrabFocus notebook
  | NotebookSetCurrentPage notebook int

record GeditMultiNotebook =
  active_notebook :: notebook
  notebooks :: "notebook list"
  total_tabs :: int
  active_tab :: "tab_id option"
  removing_notebook :: bool
  pages :: "notebook \<Rightarrow> tab_id list"
  effects :: "MultiEffect list"

text \<open>Dereferencing NULL (\<^verbatim>\<open>l->data\<close>, \<^verbatim>\<open>current->next\<close> on an empty list) ends the
  program; a function that can do so returns a sum.\<close>

datatype Fault = NullPointerDereference

subsection \<open>The toolkit's queries\<close>

text \<open>\<^verbatim>\<open>gtk_notebook_page_num\<close>: the index of the child among the pages, -1 when it is
  not a page of the notebook.\<close>

fun gtk_notebook_page_num :: "tab_id list \<Rightarrow> tab_id \<Rightarrow> int" where
  "gtk_notebook_page_num [] child = -1"
| "gtk_notebook_page_num (c # cs) child =
     (if c = child then 0
      else (let n = gtk_notebook_page_num cs child in if n = -1 then -1 else n + 1))"

text \<open>\<^verbatim>\<open>gtk_notebook_get_nth_page\<close>: the page at an index, the last page for a negative
  index, NULL when there is none.\<close>

definition gtk_notebook_get_nth_page :: "tab_id list \<Rightarrow> int \<Rightarrow> tab_id option" where
  "gtk_notebook_get_nth_page cs page_num =
     (if page_num \<ge> 0
      then (if nat page_num < length cs then Some (cs ! nat page_num) else None)
      else (if cs = [] then None else Some (last cs)))"

text \<open>\<^verbatim>\<open>g_list_find\<close>: the list from the first element equal to the data on; empty (NULL)
  when there is none.\<close>

fun g_list_find :: "notebook list \<Rightarrow> notebook \<Rightarrow> notebook list" where
  "g_list_find [] d = []"
| "g_list_find (x # xs) d = (if x = d then x # xs else g_list_find xs d)"

subsection \<open>Signal handlers\<close>

definition effect :: "MultiEffect \<Rightarrow> GeditMultiNotebook \<Rightarrow> GeditMultiNotebook" where
  "effect e multi = multi\<lparr>effects := effects multi @ [e]\<rparr>"

definition notebook_page_added ::
  "notebook \<Rightarrow> tab_id \<Rightarrow> nat \<Rightarrow> GeditMultiNotebook \<Rightarrow> GeditMultiNotebook" where
  "notebook_page_added notebook child page_num multi =
     effect (SignalEmit (TAB_ADDED notebook child))
       (multi\<lparr>total_tabs := total_tabs multi + 1\<rparr>)"

definition notebook_switch_page ::
  "notebook \<Rightarrow> int \<Rightarrow> GeditMultiNotebook \<Rightarrow> GeditMultiNotebook" where
  "notebook_switch_page book page_num multi =
     (let tab = gtk_notebook_get_nth_page (pages multi book) page_num
      in if tab \<noteq> active_tab multi
         then effect (PropertyNotify ''active-tab'') (multi\<lparr>active_tab := tab\<rparr>)
         else multi)"

text \<open>\<^verbatim>\<open>notebook_set_focus\<close>; \<open>current_page\<close> is what
  \<^verbatim>\<open>gtk_notebook_get_current_page\<close> answers for the container. The handler is connected
  to notebooks only, so \<^verbatim>\<open>GEDIT_IS_NOTEBOOK (container)\<close> holds.\<close>

definition notebook_set_focus ::
  "notebook \<Rightarrow> int \<Rightarrow> GeditMultiNotebook \<Rightarrow> GeditMultiNotebook" where
  "notebook_set_focus container current_page multi =
     (if container \<noteq> active_notebook multi
      then
        let multi1 = multi\<lparr>active_notebook := container\<rparr>;
            multi2 = notebook_switch_page container current_page multi1
        in effect (PropertyNotify ''active-notebook'') multi2
      else multi)"

text \<open>
  \<^verbatim>\<open>gtk_widget_grab_focus\<close> on a notebook. Whether the toolkit answers by raising
  set-focus-child on that notebook, inside the call, is the toolkit's business: \<open>focus\<close>
  is \<open>None\<close> when it does not, and the notebook's current page when it does.
\<close>

definition gtk_widget_grab_focus ::
  "notebook \<Rightarrow> int option \<Rightarrow> GeditMultiNotebook \<Rightarrow> GeditMultiNotebook" where
  "gtk_widget_grab_focus widget focus multi =
     (let multi1 = effect (GrabFocus widget) multi
      in case focus of
           None \<Rightarrow> multi1
         | Some current_page \<Rightarrow> notebook_set_focus widget current_page multi1)"

text \<open>
  \<^verbatim>\<open>gtk_widget_destroy\<close> on a notebook destroys its pages one by one, and each removal
  raises page-removed on the notebook. \<^verbatim>\<open>remove_notebook\<close> calls it with
  \<^verbatim>\<open>removing_notebook\<close> set, so these runs of \<^verbatim>\<open>notebook_page_removed\<close> skip the
  branch that removes a notebook; \<open>page_removed_while_removing\<close> is the rest of the handler
  (lemma \<open>page_removed_plain\<close> below shows that it is the handler on such a state).
\<close>

definition page_removed_while_removing ::
  "notebook \<Rightarrow> tab_id \<Rightarrow> GeditMultiNotebook \<Rightarrow> GeditMultiNotebook" where
  "page_removed_while_removing notebook child multi =
     (let multi1 = multi\<lparr>total_tabs := total_tabs multi - 1\<rparr>;
          multi2 = (if total_tabs multi1 = 0
                    then effect (PropertyNotify ''active-tab'') (multi1\<lparr>active_tab := None\<rparr>)
                    else multi1)
      in effect (SignalEmit (TAB_REMOVED notebook child)) multi2)"

fun destroy_pages :: "notebook \<Rightarrow> tab_id list \<Rightarrow> GeditMultiNotebook \<Rightarrow> GeditMultiNotebook" where
  "destroy_pages notebook [] multi = multi"
| "destroy_pages notebook (child # rest) multi =
     destroy_pages notebook rest
       (page_removed_while_removing notebook child
          (multi\<lparr>pages := (pages multi)(notebook := rest)\<rparr>))"

definition gtk_widget_destroy :: "notebook \<Rightarrow> GeditMultiNotebook \<Rightarrow> GeditMultiNotebook" where
  "gtk_widget_destroy notebook multi =
     destroy_pages notebook (pages multi notebook) (effect (WidgetDestroy notebook) multi)"

text \<open>
  \<^verbatim>\<open>remove_notebook\<close>. \<open>parent_children\<close> is the number of children the toolkit reports
  for the notebook's parent after the notebook is destroyed (one when the parent is a
  paned). The re-parenting of that child changes only the layout and is left out, as is
  the disconnection of the handlers of the destroyed notebook.
\<close>

definition remove_notebook ::
  "notebook \<Rightarrow> int option \<Rightarrow> nat \<Rightarrow> GeditMultiNotebook \<Rightarrow> Fault + GeditMultiNotebook" where
  "remove_notebook notebook focus parent_children multi =
     (case notebooks multi of
        [] \<Rightarrow> Inl NullPointerDereference
      | [only] \<Rightarrow> Inr (effect (GWarning ''You are trying to remove the main notebook'') multi)
      | first # second # others \<Rightarrow>
          (case g_list_find (notebooks multi) notebook of
             [] \<Rightarrow> Inl NullPointerDereference
           | c # following \<Rightarrow>
               (let new_notebook = (if following \<noteq> [] then hd following else first);
                    multi1 = multi\<lparr>removing_notebook := True\<rparr>;
                    multi2 = gtk_widget_destroy notebook multi1;
                    multi3 = multi2\<lparr>notebooks := remove1 notebook (notebooks multi2)\<rparr>;
                    multi4 = multi3\<lparr>removing_notebook := False\<rparr>;
                    multi5 = gtk_widget_grab_focus new_notebook focus multi4
                in if parent_children = 0 then Inl NullPointerDereference
                   else if parent_children \<noteq> 1
                   then Inr (effect (GWarning ''The parent is not a paned'') multi5)
                   else Inr (effect (SignalEmit (NOTEBOOK_REMOVED notebook)) multi5))))"

text \<open>\<^verbatim>\<open>notebook_page_removed\<close>, run by the toolkit after the page has left the
  notebook, so that \<^verbatim>\<open>gtk_notebook_get_n_pages\<close> counts the pages that remain.\<close>

definition notebook_page_removed ::
  "notebook \<Rightarrow> tab_id \<Rightarrow> nat \<Rightarrow> int option \<Rightarrow> nat \<Rightarrow> GeditMultiNotebook
     \<Rightarrow> Fault + GeditMultiNotebook" where
  "notebook_page_removed notebook child page_num focus parent_children multi =
     (let multi1 = multi\<lparr>total_tabs := total_tabs multi - 1\<rparr>;
          num_tabs = length (pages multi1 notebook)
      in case notebooks multi1 of
           [] \<Rightarrow> Inl NullPointerDereference
         | first # others \<Rightarrow>
             (let last_notebook = (others = []);
                  multi2 = (if total_tabs multi1 = 0
                            then effect (PropertyNotify ''active-tab'') (multi1\<lparr>active_tab := None\<rparr>)
                            else multi1)
              in if num_tabs = 0 \<and> \<not> removing_notebook multi2 \<and> \<not> last_notebook
                 then (case remove_notebook notebook focus parent_children multi2 of
                         Inl fault \<Rightarrow> Inl fault
                       | Inr multi3 \<Rightarrow> Inr (effect (SignalEmit (TAB_REMOVED notebook child)) multi3))
                 else Inr (effect (SignalEmit (TAB_REMOVED notebook child)) multi2)))"

subsection \<open>Construction and the public operations\<close>

text \<open>\<^verbatim>\<open>add_notebook\<close>: packing the notebook into the box or into a new paned changes only
  the layout; the list, the signal connections and the emission are the same either way.\<close>

definition add_notebook :: "notebook \<Rightarrow> bool \<Rightarrow> GeditMultiNotebook \<Rightarrow> GeditMultiNotebook" where
  "add_notebook notebook main_container multi =
     effect (SignalEmit (NOTEBOOK_ADDED notebook))
       (multi\<lparr>notebooks := notebooks multi @ [notebook]\<rparr>)"

text \<open>\<^verbatim>\<open>gedit_multi_notebook_init\<close>, with the notebook \<^verbatim>\<open>gedit_notebook_new\<close> returns.\<close>

definition gedit_multi_notebook_init :: "notebook \<Rightarrow> GeditMultiNotebook" where
  "gedit_multi_notebook_init notebook =
     add_notebook notebook True
       \<lparr>active_notebook = notebook, notebooks = [], total_tabs = 0, active_tab = None,
        removing_notebook = False, pages = (\<lambda>n. []), effects = []\<rparr>"

text \<open>
  \<^verbatim>\<open>gedit_multi_notebook_add_new_notebook\<close>, with the new notebook and the new tab.
  \<^verbatim>\<open>gedit_notebook_add_tab\<close> appends the tab to the notebook; the focus and switch-page
  handlers are blocked meanwhile, the page-added handler is not. \<open>current_page\<close> is the
  notebook's current page when \<^verbatim>\<open>notebook_set_focus\<close> is called at the end.
\<close>

definition gedit_multi_notebook_add_new_notebook ::
  "notebook \<Rightarrow> tab_id \<Rightarrow> int \<Rightarrow> GeditMultiNotebook \<Rightarrow> GeditMultiNotebook" where
  "gedit_multi_notebook_add_new_notebook notebook tab current_page multi =
     (let multi1 = multi\<lparr>pages := (pages multi)(notebook := [])\<rparr>;
          multi2 = add_notebook notebook False multi1;
          multi3 = multi2\<lparr>pages := (pages multi2)(notebook := pages multi2 notebook @ [tab])\<rparr>;
          multi4 = notebook_page_added notebook tab 0 multi3
      in notebook_set_focus notebook current_page multi4)"

text \<open>\<^verbatim>\<open>gedit_multi_notebook_get_page_num\<close>: the loop over the notebooks, with the running
  \<^verbatim>\<open>real_page_num\<close>.\<close>

fun get_page_num_loop ::
  "(notebook \<Rightarrow> tab_id list) \<Rightarrow> tab_id \<Rightarrow> notebook list \<Rightarrow> int \<Rightarrow> int" where
  "get_page_num_loop pgs tab [] real_page_num = real_page_num"
| "get_page_num_loop pgs tab (l # ls) real_page_num =
     (let page_num = gtk_notebook_page_num (pgs l) tab
      in if page_num \<noteq> -1 then real_page_num + page_num
         else get_page_num_loop pgs tab ls (real_page_num + int (length (pgs l))))"

definition gedit_multi_notebook_get_page_num :: "GeditMultiNotebook \<Rightarrow> tab_id \<Rightarrow> int" where
  "gedit_multi_notebook_get_page_num multi tab =
     get_page_num_loop (pages multi) tab (notebooks multi) 0"

text \<open>
  \<^verbatim>\<open>gedit_multi_notebook_set_current_page\<close>: the loop, with the running \<^verbatim>\<open>pages\<close> and
  \<^verbatim>\<open>single_num\<close>, gives the notebook it stops at and the local index; \<open>None\<close> when it
  runs off the list, where the source then dereferences NULL.
\<close>

fun set_current_page_loop ::
  "(notebook \<Rightarrow> tab_id list) \<Rightarrow> int \<Rightarrow> notebook list \<Rightarrow> int \<Rightarrow> int \<Rightarrow> (notebook \<times> int) option" where
  "set_current_page_loop pgs page_num [] n_pages single_num = None"
| "set_current_page_loop pgs page_num (l # ls) n_pages single_num =
     (let p = int (length (pgs l));
          n_pages' = n_pages + p
      in if n_pages' - 1 \<ge> page_num then Some (l, single_num)
         else set_current_page_loop pgs page_num ls n_pages' (single_num - p))"

text \<open>\<open>switch\<close> is the page number of the switch-page signal that
  \<^verbatim>\<open>gtk_notebook_set_current_page\<close> raises, \<open>None\<close> when it raises none.\<close>

definition gedit_multi_notebook_set_current_page ::
  "GeditMultiNotebook \<Rightarrow> int \<Rightarrow> int option \<Rightarrow> int option \<Rightarrow> Fault + GeditMultiNotebook" where
  "gedit_multi_notebook_set_current_page multi page_num focus switch =
     (case set_current_page_loop (pages multi) page_num (notebooks multi) 0 page_num of
        None \<Rightarrow> Inl NullPointerDereference
      | Some (l, single_num) \<Rightarrow>
          (let multi1 = (if l \<noteq> active_notebook multi
                         then gtk_widget_grab_focus l focus multi else multi);
               multi2 = effect (NotebookSetCurrentPage l single_num) multi1
           in Inr (case switch of
                     None \<Rightarrow> multi2
                   | Some n \<Rightarrow> notebook_switch_page l n multi2)))"

subsection \<open>The toolkit's events\<close>

text \<open>
  What reaches the manager from outside: a page added to or removed from a notebook, a
  switch of page, a change of focus child, and the request for a new notebook. The
  handlers are connected to the notebooks of the list, so \<open>occurs\<close> asks for one of them;
  a page that is removed was a page; a new notebook is a new widget. \<open>deliver\<close> is the
  toolkit's own change followed by the handler.
\<close>

datatype Event =
    PageAdded notebook tab_id nat
  | PageRemoved notebook tab_id "int option" nat
  | SwitchPage notebook int
  | SetFocusChild notebook int
  | AddNewNotebook notebook tab_id int

fun occurs :: "Event \<Rightarrow> GeditMultiNotebook \<Rightarrow> bool" where
  "occurs (PageAdded notebook child position) multi = (notebook \<in> set (notebooks multi))"
| "occurs (PageRemoved notebook child focus parent_children) multi =
     (notebook \<in> set (notebooks multi) \<and> child \<in> set (pages multi notebook))"
| "occurs (SwitchPage notebook page_num) multi = (notebook \<in> set (notebooks multi))"
| "occurs (SetFocusChild notebook current_page) multi = (notebook \<in> set (notebooks multi))"
| "occurs (AddNewNotebook notebook tab current_page) multi = (notebook \<notin> set (notebooks multi))"

fun deliver :: "Event \<Rightarrow> GeditMultiNotebook \<Rightarrow> Fault + GeditMultiNotebook" where
  "deliver (PageAdded notebook child position) multi =
     Inr (notebook_page_added notebook child (min position (length (pages multi notebook)))
            (multi\<lparr>pages := (pages multi)
               (notebook := take position (pages multi notebook) @ [child]
                            @ drop position (pages multi notebook))\<rparr>))"
| "deliver (PageRemoved notebook child focus parent_children) multi =
     notebook_page_removed notebook child (nat (gtk_notebook_page_num (pages multi notebook) child))
       focus parent_children
       (multi\<lparr>pages := (pages multi)(notebook := remove1 child (pages multi notebook))\<rparr>)"
| "deliver (SwitchPage notebook page_num) multi = Inr (notebook_switch_page notebook page_num multi)"
| "deliver (SetFocusChild notebook current_page) multi =
     Inr (notebook_set_focus notebook current_page multi)"
| "deliver (AddNewNotebook notebook tab current_page) multi =
     Inr (gedit_multi_notebook_add_new_notebook notebook tab current_page multi)"

inductive reachable :: "GeditMultiNotebook \<Rightarrow> bool" where
  init: "reachable (gedit_multi_notebook_init notebook)"
| step: "reachable multi \<Longrightarrow> occurs e multi \<Longrightarrow> deliver e multi = Inr multi' \<Longrightarrow>
         reachable multi'"

text \<open>The sum of the tab counts of the panes of the list.\<close>

definition sum_tabs :: "GeditMultiNotebook \<Rightarrow> int" where
  "sum_tabs multi = (\<Sum>n \<leftarrow> notebooks multi. int (length (pages multi n)))"

text \<open>What holds of the manager between two events: there is a pane, no pane is listed
  twice, the counter is the sum of the panes' tab counts, and no pane is being removed.\<close>

definition pane_inv :: "GeditMultiNotebook \<Rightarrow> bool" where
  "pane_inv multi \<longleftrightarrow>
     notebooks multi \<noteq> [] \<and> distinct (notebooks multi) \<and>
     total_tabs multi = sum_tabs multi \<and> \<not> removing_notebook multi"

text \<open>
  The one event that takes the first pane from the list: the removal of a page of the
  first pane that leaves it without pages, while the list holds another pane.
\<close>

fun first_pane_emptied :: "Event \<Rightarrow> GeditMultiNotebook \<Rightarrow> bool" where
  "first_pane_emptied (PageRemoved notebook child focus parent_children) multi =
     (notebook = hd (notebooks multi) \<and> remove1 child (pages multi notebook) = [] \<and>
      tl (notebooks multi) \<noteq> [])"
| "first_pane_emptied e multi = False"

section \<open>Example values\<close>

subsection \<open>Tabs\<close>

definition example_document :: Document where
  "example_document =
     \<lparr>doc_is_untitled = False, doc_readonly = False, doc_modified = True,
      doc_needs_saving = True, doc_create = False,
      file_location = Some (GFile ''file:///tmp/a.txt''), file_encoding = None,
      metadata_encoding = Some ''ISO-8859-1''\<rparr>"

definition example_tab :: GeditTab where
  "example_tab =
     gedit_tab_init \<lparr>create_backup_copy = True, highlight_current_line = False\<rparr>
       True 10 example_document"

definition example_env :: EncodingEnv where
  "example_env =
     \<lparr>settings_strv = Some [],
      encoding_strv_to_list = map GtkSourceEncoding,
      get_default_candidates = [GtkSourceEncoding ''UTF-8'', GtkSourceEncoding ''ISO-8859-15''],
      get_from_charset = (\<lambda>c. Some (GtkSourceEncoding c))\<rparr>"

definition loading_tab :: GeditTab where
  "loading_tab =
     example_tab\<lparr>state := GEDIT_TAB_STATE_LOADING,
                 loader := Some \<lparr>loader_location = Some (GFile ''file:///tmp/a.txt''),
                                 candidate_encodings = []\<rparr>\<rparr>"

definition saving_tab :: GeditTab where
  "saving_tab =
     example_tab\<lparr>state := GEDIT_TAB_STATE_SAVING,
                 task_saver := Some \<lparr>saver_flags = 4, force_no_backup = False\<rparr>\<rparr>"


definition preview_tab :: GeditTab where
  "preview_tab =
     example_tab\<lparr>state := GEDIT_TAB_STATE_SHOWING_PRINT_PREVIEW,
                 print_job := Some (), print_preview := Some ()\<rparr>"

text \<open>
  A tab with the IGNORE_INVALID_CHARS bit among its persisted flags, as
  \<^verbatim>\<open>invalid_character_info_bar_response\<close> leaves them.
\<close>

definition flagged_tab :: GeditTab where
  "flagged_tab = example_tab\<lparr>save_flags := 1\<rparr>"

text \<open>
  A load that ends with a conversion fallback; a revert requested afterwards; a progress
  report of that revert with more than three seconds remaining; and the retry response of
  the info bar that the load left, arriving while the revert is in flight.
\<close>

definition example_loader :: FileLoader where
  "example_loader =
     \<lparr>loader_location = Some (GFile ''file:///tmp/a.txt''),
      candidate_encodings =
        [GtkSourceEncoding ''ISO-8859-1'', GtkSourceEncoding ''UTF-8'',
         GtkSourceEncoding ''ISO-8859-15'']\<rparr>"

definition fallback_loading :: GeditTab where
  "fallback_loading =
     gedit_tab_load example_env example_tab (Some (GFile ''file:///tmp/a.txt'')) None 0 0 False"

definition fallback_loaded :: GeditTab where
  "fallback_loaded =
     load_cb fallback_loading example_loader
       (Some \<lparr>err_domain = GTK_SOURCE_FILE_LOADER_ERROR, err_code = 2\<rparr>)
       (GtkSourceEncoding ''UTF-8'') True False"

definition revert_in_flight :: GeditTab where
  "revert_in_flight = gedit_tab_revert example_env fallback_loaded"

definition revert_progress :: GeditTab where
  "revert_progress = loader_progress_cb revert_in_flight True"

definition retry_pressed :: GeditTab where
  "retry_pressed =
     io_loading_error_info_bar_response example_env revert_progress GTK_RESPONSE_OK
       (Some (GtkSourceEncoding ''ISO-8859-15''))"

subsection \<open>Pane arrangements\<close>

text \<open>
  The main notebook 0 split once into notebooks 0 and 7, the new one
  holding tab 10; then tab 11 added to notebook 0. A single notebook 0 holding tab 10; and
  the same after that tab has been removed.
\<close>

definition pane_example1 :: GeditMultiNotebook where
  "pane_example1 = gedit_multi_notebook_add_new_notebook 7 10 0 (gedit_multi_notebook_init 0)"

definition pane_example2 :: GeditMultiNotebook where
  "pane_example2 =
     notebook_page_added 0 11 0 (pane_example1\<lparr>pages := (pages pane_example1)(0 := [11])\<rparr>)"

definition sole_pane_example :: GeditMultiNotebook where
  "sole_pane_example =
     notebook_page_added 0 10 0
       ((gedit_multi_notebook_init 0)\<lparr>pages := (pages (gedit_multi_notebook_init 0))(0 := [10])\<rparr>)"

definition sole_pane_emptied :: GeditMultiNotebook where
  "sole_pane_emptied =
     sole_pane_example\<lparr>total_tabs := 0, active_tab := None,
        pages := (pages sole_pane_example)(0 := []),
        effects := effects sole_pane_example @
          [PropertyNotify ''active-tab'', SignalEmit (TAB_REMOVED 0 10)]\<rparr>"

section \<open>Properties of the tab controller\<close>

subsection \<open>Auxiliary facts\<close>

lemmas tab_aux_defs = emit_def return_if_fail_warning_def g_warning_def
  install_auto_save_timeout_def remove_auto_save_timeout_def update_auto_save_timeout_def
  set_view_properties_according_to_state_def

lemma set_state_fields [simp]:
  "state (gedit_tab_set_state tab st) = st"
  "info_bar (gedit_tab_set_state tab st) = info_bar tab"
  "info_bar_hidden (gedit_tab_set_state tab st) = info_bar_hidden tab"
  "task_saver (gedit_tab_set_state tab st) = task_saver tab"
  "print_job (gedit_tab_set_state tab st) = print_job tab"
  "print_preview (gedit_tab_set_state tab st) = print_preview tab"
  "loader (gedit_tab_set_state tab st) = loader tab"
  "save_flags (gedit_tab_set_state tab st) = save_flags tab"
  "editor (gedit_tab_set_state tab st) = editor tab"
  "document (gedit_tab_set_state tab st) = document tab"
  by (simp_all add: gedit_tab_set_state_def tab_aux_defs Let_def)

lemma set_info_bar_fields [simp]:
  "state (set_info_bar tab b r) = state tab"
  "task_saver (set_info_bar tab b r) = task_saver tab"
  "print_job (set_info_bar tab b r) = print_job tab"
  "print_preview (set_info_bar tab b r) = print_preview tab"
  "loader (set_info_bar tab b r) = loader tab"
  "save_flags (set_info_bar tab b r) = save_flags tab"
  "editor (set_info_bar tab b r) = editor tab"
  "document (set_info_bar tab b r) = document tab"
  "trace (set_info_bar tab b r) = trace tab"
  by (simp_all add: set_info_bar_def split: option.splits)

lemma set_info_bar_info_bar [simp]:
  "info_bar (set_info_bar tab None r) = None"
  "info_bar (set_info_bar tab (Some k) r) =
     Some \<lparr>bar_kind = k, bar_default_response = r, bar_shown = True\<rparr>"
  by (simp_all add: set_info_bar_def)

lemma emit_fields [simp]:
  "state (emit e tab) = state tab"
  "info_bar (emit e tab) = info_bar tab"
  "task_saver (emit e tab) = task_saver tab"
  "print_job (emit e tab) = print_job tab"
  "print_preview (emit e tab) = print_preview tab"
  "loader (emit e tab) = loader tab"
  "save_flags (emit e tab) = save_flags tab"
  "editor (emit e tab) = editor tab"
  "document (emit e tab) = document tab"
  "trace (emit e tab) = trace tab @ [e]"
  by (simp_all add: emit_def)

lemma load_state: "state (load env tab enc l c) = state tab"
  by (simp add: load_def return_if_fail_warning_def Let_def split: option.splits prod.splits)


lemma persisted_no_backup:
  "persisted_save_flags f \<Longrightarrow> f AND GTK_SOURCE_FILE_SAVER_FLAGS_CREATE_BACKUP = 0"
  by (induction rule: persisted_save_flags.induct)
     (simp_all add: GTK_SOURCE_FILE_SAVER_FLAGS_CREATE_BACKUP_def
        GTK_SOURCE_FILE_SAVER_FLAGS_IGNORE_INVALID_CHARS_def
        GTK_SOURCE_FILE_SAVER_FLAGS_NONE_def bit.conj_disj_distrib2)

lemma save_fields [simp]:
  "save_flags (save tab) = save_flags tab"
  "task_saver (save tab) = task_saver tab"
  by (simp_all add: save_def return_if_fail_warning_def Let_def split: option.splits)

lemma load_fields [simp]:
  "save_flags (load env tab enc l c) = save_flags tab"
  by (simp add: load_def return_if_fail_warning_def Let_def split: option.splits prod.splits)

lemma close_printing_save_flags [simp]:
  "save_flags (close_printing tab) = save_flags tab"
  "task_saver (close_printing tab) = task_saver tab"
  by (simp_all add: close_printing_def Let_def)

lemma response_set_save_flags_fields [simp]:
  "save_flags (response_set_save_flags tab f) = save_flags tab"
  by (simp add: response_set_save_flags_def Let_def split: option.splits)

lemma clear_loading_fields [simp]:
  "save_flags (clear_loading tab) = save_flags tab"
  "state (clear_loading tab) = state tab"
  by (simp_all add: clear_loading_def)

lemma remove_tab_fields [simp]:
  "save_flags (remove_tab tab) = save_flags tab"
  by (simp add: remove_tab_def)

lemma save_flags_if:
  "save_flags (if c then a else b) = (if c then save_flags a else save_flags b)"
  by simp

lemma save_flags_case:
  "save_flags (case x of None \<Rightarrow> a | Some e \<Rightarrow> f e)
     = (case x of None \<Rightarrow> save_flags a | Some e \<Rightarrow> save_flags (f e))"
  by (cases x) simp_all

lemma case_option_same: "(case y of None \<Rightarrow> a | Some e \<Rightarrow> a) = a"
  by (cases y) simp_all

lemma save_flags_unchanged:
  "save_flags (gedit_tab_load env tab location encoding l c create) = save_flags tab"
  "save_flags (gedit_tab_revert env tab) = save_flags tab"
  "save_flags (gedit_tab_save_async tab) = save_flags tab"
  "save_flags (snd (gedit_tab_auto_save tab)) = save_flags tab"
  "save_flags (save_cb tab error) = save_flags tab"
  "save_flags (gedit_tab_print tab res_error) = save_flags tab"
  "save_flags (unrecoverable_saving_error_info_bar_response tab) = save_flags tab"
  "save_flags (load_cb tab ld error enc file_scheme same_location_open) = save_flags tab"
  "save_flags (io_loading_error_info_bar_response env tab response_id encoding) = save_flags tab"
  "save_flags (loader_progress_cb tab remaining) = save_flags tab"
proof -
  show "save_flags (gedit_tab_load env tab location encoding l c create) = save_flags tab"
    by (simp add: gedit_tab_load_def return_if_fail_warning_def g_warning_def Let_def)
  show "save_flags (gedit_tab_revert env tab) = save_flags tab"
    by (simp add: gedit_tab_revert_def return_if_fail_warning_def g_warning_def Let_def)
  show "save_flags (gedit_tab_save_async tab) = save_flags tab"
    by (simp add: gedit_tab_save_async_def return_if_fail_warning_def g_warning_def Let_def
          split: prod.splits)
  show "save_flags (snd (gedit_tab_auto_save tab)) = save_flags tab"
    by (simp add: gedit_tab_auto_save_def return_if_fail_warning_def g_warning_def Let_def)
  show "save_flags (save_cb tab error) = save_flags tab"
    by (simp add: save_cb_def return_if_fail_warning_def Let_def split: option.splits)
  show "save_flags (gedit_tab_print tab res_error) = save_flags tab"
    by (simp add: gedit_tab_print_def return_if_fail_warning_def g_warning_def Let_def
          add_printing_info_bar_def)
  show "save_flags (unrecoverable_saving_error_info_bar_response tab) = save_flags tab"
    by (simp add: unrecoverable_saving_error_info_bar_response_def return_if_fail_warning_def
          Let_def)
  show "save_flags (load_cb tab ld error enc file_scheme same_location_open) = save_flags tab"
    unfolding load_cb_def Let_def
    by (simp add: return_if_fail_warning_def save_flags_if save_flags_case case_option_same
          split del: if_split cong: if_cong option.case_cong)
  show "save_flags (io_loading_error_info_bar_response env tab response_id encoding)
          = save_flags tab"
    by (simp add: io_loading_error_info_bar_response_def return_if_fail_warning_def
          Let_def split: option.splits)
  show "save_flags (loader_progress_cb tab remaining) = save_flags tab"
    by (simp add: loader_progress_cb_def show_loading_info_bar_def info_bar_set_progress_def
          return_if_fail_warning_def Let_def split: option.splits InfoBarKind.splits)
qed

lemma save_flags_written:
  "save_flags (invalid_character_info_bar_response tab response_id) = save_flags tab
   \<or> save_flags (invalid_character_info_bar_response tab response_id)
       = save_flags tab OR GTK_SOURCE_FILE_SAVER_FLAGS_IGNORE_INVALID_CHARS"
  "save_flags (gedit_tab_save_as_async tab location encoding) = save_flags tab
   \<or> save_flags (gedit_tab_save_as_async tab location encoding) = GTK_SOURCE_FILE_SAVER_FLAGS_NONE"
proof -
  show "save_flags (invalid_character_info_bar_response tab response_id) = save_flags tab
   \<or> save_flags (invalid_character_info_bar_response tab response_id)
       = save_flags tab OR GTK_SOURCE_FILE_SAVER_FLAGS_IGNORE_INVALID_CHARS"
    by (simp add: invalid_character_info_bar_response_def return_if_fail_warning_def Let_def
          save_flags_unchanged split: option.splits)
  show "save_flags (gedit_tab_save_as_async tab location encoding) = save_flags tab
   \<or> save_flags (gedit_tab_save_as_async tab location encoding) = GTK_SOURCE_FILE_SAVER_FLAGS_NONE"
    by (simp add: gedit_tab_save_as_async_def return_if_fail_warning_def g_warning_def Let_def
          split: prod.splits)
qed

text \<open>The modelled operations keep the persisted flags within \<open>persisted_save_flags\<close>.\<close>

lemma persisted_save_flags_kept:
  assumes "persisted_save_flags (save_flags tab)"
  shows "persisted_save_flags (save_flags (gedit_tab_load env tab location encoding l c create))"
    and "persisted_save_flags (save_flags (gedit_tab_revert env tab))"
    and "persisted_save_flags (save_flags (gedit_tab_save_async tab))"
    and "persisted_save_flags (save_flags (snd (gedit_tab_auto_save tab)))"
    and "persisted_save_flags (save_flags (save_cb tab error))"
    and "persisted_save_flags (save_flags (gedit_tab_print tab res_error))"
    and "persisted_save_flags (save_flags (unrecoverable_saving_error_info_bar_response tab))"
    and "persisted_save_flags
           (save_flags (load_cb tab ld error enc file_scheme same_location_open))"
    and "persisted_save_flags
           (save_flags (io_loading_error_info_bar_response env tab response_id enc'))"
    and "persisted_save_flags (save_flags (loader_progress_cb tab remaining))"
    and "persisted_save_flags (save_flags (invalid_character_info_bar_response tab response_id))"
    and "persisted_save_flags (save_flags (gedit_tab_save_as_async tab location encoding))"
proof -
  show "persisted_save_flags (save_flags (invalid_character_info_bar_response tab response_id))"
    using save_flags_written(1) [of tab response_id] assms
      persisted_save_flags.invalid_character_response [OF assms]
    by auto
  show "persisted_save_flags (save_flags (gedit_tab_save_as_async tab location encoding))"
    using save_flags_written(2) [of tab location encoding] assms
      persisted_save_flags.save_as [OF assms]
    by auto
qed (simp_all add: save_flags_unchanged assms)

lemma gedit_tab_init_persisted: "persisted_save_flags (save_flags (gedit_tab_init s a i d))"
  by (simp add: gedit_tab_init_def persisted_save_flags.zeroed)

text \<open>The interval of the auto-save timeout is computed in 32 bits: 100000000 minutes
  are 1705032704 seconds.\<close>

lemma install_auto_save_timeout_wraps:
  "trace (install_auto_save_timeout
            (tab\<lparr>auto_save_timeout := 0, auto_save_interval := 100000000\<rparr>))
     = trace tab @ [TimeoutAddSeconds 1705032704]"
proof -
  have "(6000000000 :: 32 word) = 1705032704" by simp
  then show ?thesis by (simp add: install_auto_save_timeout_def)
qed

lemma example_tab_fields [simp]:
  "state example_tab = GEDIT_TAB_STATE_NORMAL"
  "task_saver example_tab = None"
  "print_job example_tab = None"
  "loader example_tab = None"
  "save_flags example_tab = 0"
  "trace example_tab = []"
  "document example_tab = example_document"
  "editor example_tab = \<lparr>create_backup_copy = True, highlight_current_line = False\<rparr>"
  by (simp_all add: example_tab_def gedit_tab_init_def)

text \<open>
  C10. The can-close query is true in the Loading, LoadingError, Reverting and
  RevertingError states whatever the document says, false in the SavingError state
  whatever the document says, and in every other state false exactly when the
  document needs saving.
\<close>

theorem can_close_by_state:
  "(state tab \<in> {GEDIT_TAB_STATE_LOADING, GEDIT_TAB_STATE_LOADING_ERROR,
                  GEDIT_TAB_STATE_REVERTING, GEDIT_TAB_STATE_REVERTING_ERROR}
      \<longrightarrow> gedit_tab_get_can_close tab)
   \<and> (state tab = GEDIT_TAB_STATE_SAVING_ERROR \<longrightarrow> \<not> gedit_tab_get_can_close tab)
   \<and> (state tab \<notin> {GEDIT_TAB_STATE_LOADING, GEDIT_TAB_STATE_LOADING_ERROR,
                    GEDIT_TAB_STATE_REVERTING, GEDIT_TAB_STATE_REVERTING_ERROR,
                    GEDIT_TAB_STATE_SAVING_ERROR}
      \<longrightarrow> (\<not> gedit_tab_get_can_close tab) = doc_needs_saving (document tab))"
  by (simp add: gedit_tab_get_can_close_def)

theorem can_close_by_state_witness:
  "gedit_tab_get_can_close (example_tab\<lparr>state := GEDIT_TAB_STATE_LOADING\<rparr>)
   \<and> \<not> gedit_tab_get_can_close (example_tab\<lparr>state := GEDIT_TAB_STATE_SAVING_ERROR\<rparr>)
   \<and> \<not> gedit_tab_get_can_close example_tab"
  using can_close_by_state [of "example_tab\<lparr>state := GEDIT_TAB_STATE_LOADING\<rparr>"]
        can_close_by_state [of "example_tab\<lparr>state := GEDIT_TAB_STATE_SAVING_ERROR\<rparr>"]
        can_close_by_state [of example_tab]
  by (simp add: example_document_def)



text \<open>
  C5. The candidate encodings are the settings' list (the default candidates when the
  settings' list is empty), with the encoding of the metadata's charset in front of it
  when the charset resolves, and the file's previously negotiated encoding in front of
  everything when there is one. With empty settings, the metadata charset ISO-8859-1 and no
  file encoding, the result is the ISO-8859-1 encoding followed by the default candidates.
  Nothing removes duplicates: when the file's encoding is also the metadata's, the result
  starts with it twice.
\<close>

theorem candidate_encodings_resolution:
  "get_candidate_encodings env tab =
     (case file_encoding (document tab) of None \<Rightarrow> [] | Some enc \<Rightarrow> [enc])
     @ (case metadata_encoding (document tab) of
          None \<Rightarrow> []
        | Some charset \<Rightarrow> (case get_from_charset env charset of None \<Rightarrow> [] | Some enc \<Rightarrow> [enc]))
     @ (case settings_strv env of
          None \<Rightarrow> get_default_candidates env
        | Some strv \<Rightarrow> if strv = [] then get_default_candidates env
                       else encoding_strv_to_list env strv)
   \<and> (settings_strv env = Some [] \<and> metadata_encoding (document tab) = Some ''ISO-8859-1'' \<and>
      file_encoding (document tab) = None \<and> get_from_charset env ''ISO-8859-1'' = Some latin1
      \<longrightarrow> get_candidate_encodings env tab = latin1 # get_default_candidates env)
   \<and> (file_encoding (document tab) = Some enc \<and> metadata_encoding (document tab) = Some charset \<and>
      get_from_charset env charset = Some enc
      \<longrightarrow> take 2 (get_candidate_encodings env tab) = [enc, enc])"
  by (auto simp add: get_candidate_encodings_def split: option.splits list.splits)

theorem candidate_encodings_resolution_witness:
  "get_candidate_encodings example_env example_tab =
     [GtkSourceEncoding ''ISO-8859-1'', GtkSourceEncoding ''UTF-8'', GtkSourceEncoding ''ISO-8859-15'']
   \<and> take 2 (get_candidate_encodings example_env
        (example_tab\<lparr>document := example_document\<lparr>file_encoding := Some (GtkSourceEncoding ''ISO-8859-1'')\<rparr>\<rparr>))
       = [GtkSourceEncoding ''ISO-8859-1'', GtkSourceEncoding ''ISO-8859-1'']"
  using candidate_encodings_resolution
          [of example_env example_tab "GtkSourceEncoding ''ISO-8859-1''"]
        candidate_encodings_resolution
          [of example_env
              "example_tab\<lparr>document := example_document\<lparr>file_encoding := Some (GtkSourceEncoding ''ISO-8859-1'')\<rparr>\<rparr>"
              _ "GtkSourceEncoding ''ISO-8859-1''" "''ISO-8859-1''"]
  by (simp add: example_env_def example_document_def)

lemma load_refused:
  "state tab \<noteq> GEDIT_TAB_STATE_NORMAL \<Longrightarrow>
   \<exists>msg. gedit_tab_load env tab location encoding line_pos column_pos create
           = tab\<lparr>trace := trace tab @ [Log G_LOG_LEVEL_CRITICAL msg]\<rparr>"
  by (auto simp add: gedit_tab_load_def return_if_fail_warning_def emit_def)

lemma revert_refused:
  "state tab \<noteq> GEDIT_TAB_STATE_NORMAL \<Longrightarrow>
   state tab \<noteq> GEDIT_TAB_STATE_EXTERNALLY_MODIFIED_NOTIFICATION \<Longrightarrow>
   \<exists>msg. gedit_tab_revert env tab = tab\<lparr>trace := trace tab @ [Log G_LOG_LEVEL_CRITICAL msg]\<rparr>"
  by (auto simp add: gedit_tab_revert_def return_if_fail_warning_def emit_def)

lemma save_refused_state:
  "state tab \<noteq> GEDIT_TAB_STATE_NORMAL \<Longrightarrow>
   state tab \<noteq> GEDIT_TAB_STATE_EXTERNALLY_MODIFIED_NOTIFICATION \<Longrightarrow>
   state tab \<noteq> GEDIT_TAB_STATE_SHOWING_PRINT_PREVIEW \<Longrightarrow>
   \<exists>msg. gedit_tab_save_async tab = tab\<lparr>trace := trace tab @ [Log G_LOG_LEVEL_CRITICAL msg]\<rparr>"
  by (auto simp add: gedit_tab_save_async_def return_if_fail_warning_def emit_def)

lemma save_refused_task:
  "task_saver tab \<noteq> None \<Longrightarrow>
   \<exists>level msg. gedit_tab_save_async tab = tab\<lparr>trace := trace tab @ [Log level msg]\<rparr>"
  by (auto simp add: gedit_tab_save_async_def return_if_fail_warning_def g_warning_def emit_def)

text \<open>
  The entry points \<^verbatim>\<open>_gedit_tab_load\<close>, \<^verbatim>\<open>_gedit_tab_revert\<close> and
  \<^verbatim>\<open>_gedit_tab_save_async\<close> check the state: while a load or revert is in flight (state
  Loading or Reverting) or a save is in flight (state Saving), a call of any of them has one
  effect, a logged message, so the state, the loader and the pending saver task stay as they
  were. A save request is refused in the same way whenever a saver task is still pending.
\<close>

lemma entry_points_refuse:
  "(state tab = GEDIT_TAB_STATE_LOADING \<or> state tab = GEDIT_TAB_STATE_REVERTING \<or>
    state tab = GEDIT_TAB_STATE_SAVING
      \<longrightarrow> (\<exists>msg. gedit_tab_load env tab location encoding line_pos column_pos create
                   = tab\<lparr>trace := trace tab @ [Log G_LOG_LEVEL_CRITICAL msg]\<rparr>)
        \<and> (\<exists>msg. gedit_tab_revert env tab
                   = tab\<lparr>trace := trace tab @ [Log G_LOG_LEVEL_CRITICAL msg]\<rparr>)
        \<and> (\<exists>msg. gedit_tab_save_async tab
                   = tab\<lparr>trace := trace tab @ [Log G_LOG_LEVEL_CRITICAL msg]\<rparr>))
   \<and> (task_saver tab \<noteq> None
      \<longrightarrow> (\<exists>level msg. gedit_tab_save_async tab
                   = tab\<lparr>trace := trace tab @ [Log level msg]\<rparr>))"
  using load_refused [of tab env location encoding line_pos column_pos create]
        revert_refused [of tab env] save_refused_state [of tab] save_refused_task [of tab]
  by auto

lemma entry_points_refuse_example:
  "(\<exists>msg. gedit_tab_load example_env loading_tab (Some (GFile ''file:///tmp/b.txt'')) None 0 0 False
            = loading_tab\<lparr>trace := trace loading_tab @ [Log G_LOG_LEVEL_CRITICAL msg]\<rparr>)
   \<and> (\<exists>msg. gedit_tab_revert example_env loading_tab
            = loading_tab\<lparr>trace := trace loading_tab @ [Log G_LOG_LEVEL_CRITICAL msg]\<rparr>)
   \<and> (\<exists>level msg. gedit_tab_save_async saving_tab
            = saving_tab\<lparr>trace := trace saving_tab @ [Log level msg]\<rparr>)
   \<and> state (gedit_tab_save_async saving_tab) = GEDIT_TAB_STATE_SAVING
   \<and> task_saver (gedit_tab_save_async saving_tab) = Some \<lparr>saver_flags = 4, force_no_backup = False\<rparr>"
proof -
  have l: "state loading_tab = GEDIT_TAB_STATE_LOADING"
    by (simp add: loading_tab_def)
  have s: "task_saver saving_tab \<noteq> None" "state saving_tab = GEDIT_TAB_STATE_SAVING"
          "task_saver saving_tab = Some \<lparr>saver_flags = 4, force_no_backup = False\<rparr>"
    by (simp_all add: saving_tab_def)
  from entry_points_refuse
         [of loading_tab example_env "Some (GFile ''file:///tmp/b.txt'')" None 0 0 False] l
  have a: "(\<exists>msg. gedit_tab_load example_env loading_tab (Some (GFile ''file:///tmp/b.txt'')) None 0 0 False
            = loading_tab\<lparr>trace := trace loading_tab @ [Log G_LOG_LEVEL_CRITICAL msg]\<rparr>)
      \<and> (\<exists>msg. gedit_tab_revert example_env loading_tab
            = loading_tab\<lparr>trace := trace loading_tab @ [Log G_LOG_LEVEL_CRITICAL msg]\<rparr>)"
    by simp
  from entry_points_refuse [of saving_tab example_env None None 0 0 False] s
  have b: "\<exists>level msg. gedit_tab_save_async saving_tab
            = saving_tab\<lparr>trace := trace saving_tab @ [Log level msg]\<rparr>"
    by simp
  from b s have c: "state (gedit_tab_save_async saving_tab) = GEDIT_TAB_STATE_SAVING"
    "task_saver (gedit_tab_save_async saving_tab) = Some \<lparr>saver_flags = 4, force_no_backup = False\<rparr>"
    by auto
  from a b c show ?thesis by simp
qed

text \<open>
  The response callback of the loading-error info bar starts a load whenever a loader
  exists. It is the one path to \<^verbatim>\<open>load\<close> that does not look at the state.
\<close>

lemma loads_in_flight_append:
  "loads_in_flight (xs @ ys) = loads_in_flight xs + loads_in_flight ys"
  by (induction xs) simp_all

lemma logged_append: "logged (xs @ ys) = logged xs @ logged ys"
  by (induction xs rule: logged.induct) simp_all

lemma set_state_trace_busy:
  assumes "st \<noteq> GEDIT_TAB_STATE_NORMAL"
  shows "loads_in_flight (trace (gedit_tab_set_state tab st)) = loads_in_flight (trace tab)"
    and "logged (trace (gedit_tab_set_state tab st)) = logged (trace tab)"
  using assms
  by (simp_all add: gedit_tab_set_state_def tab_aux_defs Let_def loads_in_flight_append
        logged_append)

lemma load_trace:
  "loader tab \<noteq> None \<Longrightarrow>
   trace (load env tab enc l c) = trace tab @ [DocumentSignal ''load'', LoadAsync]"
  by (auto simp add: load_def emit_def Let_def split: option.splits prod.splits)

lemma set_state_tmp_pos [simp]:
  "tmp_line_pos (gedit_tab_set_state tab st) = tmp_line_pos tab"
  "tmp_column_pos (gedit_tab_set_state tab st) = tmp_column_pos tab"
  by (simp_all add: gedit_tab_set_state_def tab_aux_defs Let_def)

lemma retry_response_load:
  "loader tab = Some ld \<Longrightarrow>
   io_loading_error_info_bar_response env tab GTK_RESPONSE_OK encoding =
     load env (gedit_tab_set_state (set_info_bar tab None GTK_RESPONSE_NONE) GEDIT_TAB_STATE_LOADING)
       encoding (tmp_line_pos (set_info_bar tab None GTK_RESPONSE_NONE))
       (tmp_column_pos (set_info_bar tab None GTK_RESPONSE_NONE))"
  by (simp add: io_loading_error_info_bar_response_def Let_def)

lemmas trace_eval_defs = fallback_loading_def fallback_loaded_def revert_in_flight_def
  revert_progress_def loader_progress_cb_def show_loading_info_bar_def
  info_bar_set_progress_def example_loader_def gedit_tab_load_def load_cb_def gedit_tab_revert_def
  load_def get_candidate_encodings_def gedit_tab_set_state_def set_info_bar_def
  clear_loading_def remove_tab_def tab_aux_defs example_tab_def gedit_tab_init_def
  example_env_def example_document_def GTK_SOURCE_FILE_LOADER_ERROR_CONVERSION_FALLBACK_def
  G_IO_ERROR_NOT_FOUND_def G_IO_ERROR_CANCELLED_def Let_def

lemma fallback_loading_fields:
  "state fallback_loading = GEDIT_TAB_STATE_LOADING"
  "loader fallback_loading = Some example_loader"
  "loads_in_flight (trace fallback_loading) = 1"
  by (simp_all add: trace_eval_defs)

lemma fallback_loaded_fields:
  "state fallback_loaded = GEDIT_TAB_STATE_NORMAL"
  "loader fallback_loaded = Some example_loader"
  "info_bar fallback_loaded =
     Some \<lparr>bar_kind = IoLoadingErrorInfoBar, bar_default_response = GTK_RESPONSE_CANCEL,
           bar_shown = True\<rparr>"
  "loads_in_flight (trace fallback_loaded) = 0"
  by (simp_all add: trace_eval_defs)

lemma revert_in_flight_fields:
  "state revert_in_flight = GEDIT_TAB_STATE_REVERTING"
  "loader revert_in_flight \<noteq> None"
  "info_bar revert_in_flight =
     Some \<lparr>bar_kind = IoLoadingErrorInfoBar, bar_default_response = GTK_RESPONSE_CANCEL,
           bar_shown = True\<rparr>"
  "loads_in_flight (trace revert_in_flight) = 1"
  by (simp_all add: trace_eval_defs)

lemma revert_progress_fields:
  "state revert_progress = GEDIT_TAB_STATE_REVERTING"
  "loader revert_progress \<noteq> None"
  "info_bar revert_progress =
     Some \<lparr>bar_kind = IoLoadingErrorInfoBar, bar_default_response = GTK_RESPONSE_CANCEL,
           bar_shown = True\<rparr>"
  "loads_in_flight (trace revert_progress) = 1"
  by (simp_all add: trace_eval_defs)

text \<open>
  C6 (where the code departs from it). The claim holds of the three entry points (lemma
  \<open>entry_points_refuse\<close>), and it fails at \<^verbatim>\<open>io_loading_error_info_bar_response\<close>:
  in every state of a tab that has a loader, so also in Loading and Reverting, the retry
  response moves the tab to Loading and asks the loader for one more asynchronous load, and
  nothing is logged. The info bar that carries this response is live in the Normal state
  after a load that ended with a conversion fallback, \<^verbatim>\<open>_gedit_tab_revert\<close> from Normal
  leaves it in place, and \<^verbatim>\<open>show_loading_info_bar\<close> does not replace an installed info
  bar: arriving while that revert is in flight, the response changes the state from
  Reverting to Loading and requests a second load before the first has completed.
\<close>

theorem retry_response_unguarded:
  "loader tab \<noteq> None \<longrightarrow>
     state (io_loading_error_info_bar_response env tab GTK_RESPONSE_OK encoding)
       = GEDIT_TAB_STATE_LOADING
   \<and> loads_in_flight (trace (io_loading_error_info_bar_response env tab GTK_RESPONSE_OK encoding))
       = loads_in_flight (trace tab) + 1
   \<and> last (trace (io_loading_error_info_bar_response env tab GTK_RESPONSE_OK encoding)) = LoadAsync
   \<and> logged (trace (io_loading_error_info_bar_response env tab GTK_RESPONSE_OK encoding))
       = logged (trace tab)"
proof
  assume "loader tab \<noteq> None"
  then obtain ld where ld: "loader tab = Some ld" by auto
  let ?t = "gedit_tab_set_state (set_info_bar tab None GTK_RESPONSE_NONE) GEDIT_TAB_STATE_LOADING"
  have l: "loader ?t \<noteq> None" using ld by simp
  have tr: "trace (io_loading_error_info_bar_response env tab GTK_RESPONSE_OK encoding)
              = trace ?t @ [DocumentSignal ''load'', LoadAsync]"
    unfolding retry_response_load [OF ld] by (rule load_trace [OF l])
  have st: "state (io_loading_error_info_bar_response env tab GTK_RESPONSE_OK encoding)
              = GEDIT_TAB_STATE_LOADING"
    unfolding retry_response_load [OF ld] by (simp add: load_state)
  have a: "loads_in_flight (trace ?t) = loads_in_flight (trace tab)"
    "logged (trace ?t) = logged (trace tab)"
    by (simp_all add: set_state_trace_busy)
  show "state (io_loading_error_info_bar_response env tab GTK_RESPONSE_OK encoding)
       = GEDIT_TAB_STATE_LOADING
   \<and> loads_in_flight (trace (io_loading_error_info_bar_response env tab GTK_RESPONSE_OK encoding))
       = loads_in_flight (trace tab) + 1
   \<and> last (trace (io_loading_error_info_bar_response env tab GTK_RESPONSE_OK encoding)) = LoadAsync
   \<and> logged (trace (io_loading_error_info_bar_response env tab GTK_RESPONSE_OK encoding))
       = logged (trace tab)"
    using st a by (simp add: tr loads_in_flight_append logged_append)
qed

theorem retry_response_unguarded_witness:
  "state fallback_loading = GEDIT_TAB_STATE_LOADING
   \<and> loads_in_flight (trace fallback_loading) = 1
   \<and> state fallback_loaded = GEDIT_TAB_STATE_NORMAL
   \<and> loads_in_flight (trace fallback_loaded) = 0
   \<and> state revert_in_flight = GEDIT_TAB_STATE_REVERTING
   \<and> info_bar revert_in_flight =
       Some \<lparr>bar_kind = IoLoadingErrorInfoBar, bar_default_response = GTK_RESPONSE_CANCEL,
             bar_shown = True\<rparr>
   \<and> loads_in_flight (trace revert_in_flight) = 1
   \<and> state revert_progress = GEDIT_TAB_STATE_REVERTING
   \<and> info_bar revert_progress =
       Some \<lparr>bar_kind = IoLoadingErrorInfoBar, bar_default_response = GTK_RESPONSE_CANCEL,
             bar_shown = True\<rparr>
   \<and> loads_in_flight (trace revert_progress) = 1
   \<and> state retry_pressed = GEDIT_TAB_STATE_LOADING
   \<and> loads_in_flight (trace retry_pressed) = 2
   \<and> last (trace retry_pressed) = LoadAsync
   \<and> logged (trace retry_pressed) = logged (trace revert_progress)"
proof -
  from retry_response_unguarded
         [of revert_progress example_env "Some (GtkSourceEncoding ''ISO-8859-15'')"]
       revert_progress_fields(2)
  have "state retry_pressed = GEDIT_TAB_STATE_LOADING
   \<and> loads_in_flight (trace retry_pressed) = loads_in_flight (trace revert_progress) + 1
   \<and> last (trace retry_pressed) = LoadAsync
   \<and> logged (trace retry_pressed) = logged (trace revert_progress)"
    unfolding retry_pressed_def by blast
  then show ?thesis
    by (simp add: fallback_loading_fields fallback_loaded_fields revert_in_flight_fields
          revert_progress_fields)
qed

lemmas saver_flag_defs = GTK_SOURCE_FILE_SAVER_FLAGS_NONE_def
  GTK_SOURCE_FILE_SAVER_FLAGS_IGNORE_INVALID_CHARS_def
  GTK_SOURCE_FILE_SAVER_FLAGS_IGNORE_MODIFICATION_TIME_def
  GTK_SOURCE_FILE_SAVER_FLAGS_CREATE_BACKUP_def

lemma auto_save_launch_flags:
  assumes "\<not> doc_is_untitled (document tab)" "\<not> doc_readonly (document tab)"
    "doc_modified (document tab)" "state tab = GEDIT_TAB_STATE_NORMAL" "task_saver tab = None"
  shows "task_saver (snd (gedit_tab_auto_save tab)) =
           Some \<lparr>saver_flags = get_initial_save_flags tab True, force_no_backup = False\<rparr>"
    and "last (trace (snd (gedit_tab_auto_save tab))) = SaveAsync (get_initial_save_flags tab True)"
  using assms
  by (simp_all add: gedit_tab_auto_save_def get_initial_save_flags_def save_def Let_def)

lemma save_async_launch_flags:
  assumes "state tab = GEDIT_TAB_STATE_NORMAL \<or>
           state tab = GEDIT_TAB_STATE_EXTERNALLY_MODIFIED_NOTIFICATION \<or>
           state tab = GEDIT_TAB_STATE_SHOWING_PRINT_PREVIEW"
    and "task_saver tab = None" and "\<not> doc_is_untitled (document tab)"
  shows "task_saver (gedit_tab_save_async tab) =
           Some \<lparr>saver_flags =
                   (if state tab = GEDIT_TAB_STATE_EXTERNALLY_MODIFIED_NOTIFICATION
                    then get_initial_save_flags tab False
                           OR GTK_SOURCE_FILE_SAVER_FLAGS_IGNORE_MODIFICATION_TIME
                    else get_initial_save_flags tab False),
                 force_no_backup = False\<rparr>"
    and "last (trace (gedit_tab_save_async tab)) =
           SaveAsync (if state tab = GEDIT_TAB_STATE_EXTERNALLY_MODIFIED_NOTIFICATION
                      then get_initial_save_flags tab False
                             OR GTK_SOURCE_FILE_SAVER_FLAGS_IGNORE_MODIFICATION_TIME
                      else get_initial_save_flags tab False)"
  using assms
  by (auto simp add: gedit_tab_save_async_def get_initial_save_flags_def save_def Let_def
        close_printing_def)

lemma save_as_async_launch_flags:
  assumes "state tab = GEDIT_TAB_STATE_NORMAL \<or>
           state tab = GEDIT_TAB_STATE_EXTERNALLY_MODIFIED_NOTIFICATION \<or>
           state tab = GEDIT_TAB_STATE_SHOWING_PRINT_PREVIEW"
    and "task_saver tab = None"
  shows "task_saver (gedit_tab_save_as_async tab (Some location) (Some encoding)) =
           Some \<lparr>saver_flags =
                   (if state tab = GEDIT_TAB_STATE_EXTERNALLY_MODIFIED_NOTIFICATION
                    then get_initial_save_flags (tab\<lparr>save_flags := GTK_SOURCE_FILE_SAVER_FLAGS_NONE\<rparr>) False
                           OR GTK_SOURCE_FILE_SAVER_FLAGS_IGNORE_MODIFICATION_TIME
                    else get_initial_save_flags (tab\<lparr>save_flags := GTK_SOURCE_FILE_SAVER_FLAGS_NONE\<rparr>) False),
                 force_no_backup = False\<rparr>"
    and "last (trace (gedit_tab_save_as_async tab (Some location) (Some encoding))) =
           SaveAsync (if state tab = GEDIT_TAB_STATE_EXTERNALLY_MODIFIED_NOTIFICATION
                      then get_initial_save_flags (tab\<lparr>save_flags := GTK_SOURCE_FILE_SAVER_FLAGS_NONE\<rparr>) False
                             OR GTK_SOURCE_FILE_SAVER_FLAGS_IGNORE_MODIFICATION_TIME
                      else get_initial_save_flags (tab\<lparr>save_flags := GTK_SOURCE_FILE_SAVER_FLAGS_NONE\<rparr>) False)"
    and "save_flags (gedit_tab_save_as_async tab (Some location) (Some encoding))
           = GTK_SOURCE_FILE_SAVER_FLAGS_NONE"
  using assms
  by (auto simp add: gedit_tab_save_as_async_def get_initial_save_flags_def save_def Let_def
        close_printing_def)

text \<open>
  C7. The initial save flags, computed by \<^verbatim>\<open>get_initial_save_flags\<close>, are the persisted
  flags of the tab with the CREATE_BACKUP bit added exactly when the create-backup setting
  is on and the save is not an auto-save; the persisted flags never hold that bit
  themselves, so the other bits of the result are the persisted flags. Every launch of a
  save hands the saver this value: \<^verbatim>\<open>gedit_tab_auto_save\<close> the value for an auto-save,
  which is the persisted flags and is without CREATE_BACKUP whatever the setting;
  \<^verbatim>\<open>_gedit_tab_save_async\<close> the value for a manual save; and
  \<^verbatim>\<open>_gedit_tab_save_as_async\<close> the value for a manual save computed after it has reset
  the persisted flags to NONE. A manual launch from the ExternallyModifiedNotification
  state adds the IGNORE_MODIFICATION_TIME bit to the value for this attempt; the bit is
  not written to the persisted flags.
\<close>

theorem initial_save_flags:
  assumes "persisted_save_flags (save_flags tab)"
  shows "get_initial_save_flags tab auto_save_op =
           (if create_backup_copy (editor tab) \<and> \<not> auto_save_op
            then save_flags tab OR GTK_SOURCE_FILE_SAVER_FLAGS_CREATE_BACKUP
            else save_flags tab)
         \<and> (get_initial_save_flags tab auto_save_op AND GTK_SOURCE_FILE_SAVER_FLAGS_CREATE_BACKUP \<noteq> 0)
             = (create_backup_copy (editor tab) \<and> \<not> auto_save_op)
         \<and> get_initial_save_flags tab auto_save_op AND NOT GTK_SOURCE_FILE_SAVER_FLAGS_CREATE_BACKUP
             = save_flags tab
         \<and> (\<not> doc_is_untitled (document tab) \<and> \<not> doc_readonly (document tab) \<and>
            doc_modified (document tab) \<and> state tab = GEDIT_TAB_STATE_NORMAL \<and>
            task_saver tab = None
            \<longrightarrow> task_saver (snd (gedit_tab_auto_save tab)) =
                  Some \<lparr>saver_flags = get_initial_save_flags tab True, force_no_backup = False\<rparr>
              \<and> last (trace (snd (gedit_tab_auto_save tab)))
                  = SaveAsync (get_initial_save_flags tab True)
              \<and> get_initial_save_flags tab True = save_flags tab
              \<and> get_initial_save_flags tab True AND GTK_SOURCE_FILE_SAVER_FLAGS_CREATE_BACKUP = 0)
         \<and> ((state tab = GEDIT_TAB_STATE_NORMAL \<or>
              state tab = GEDIT_TAB_STATE_EXTERNALLY_MODIFIED_NOTIFICATION \<or>
              state tab = GEDIT_TAB_STATE_SHOWING_PRINT_PREVIEW) \<and>
             task_saver tab = None \<and> \<not> doc_is_untitled (document tab)
            \<longrightarrow> task_saver (gedit_tab_save_async tab) =
                  Some \<lparr>saver_flags =
                          (if state tab = GEDIT_TAB_STATE_EXTERNALLY_MODIFIED_NOTIFICATION
                           then get_initial_save_flags tab False
                                  OR GTK_SOURCE_FILE_SAVER_FLAGS_IGNORE_MODIFICATION_TIME
                           else get_initial_save_flags tab False),
                        force_no_backup = False\<rparr>
              \<and> last (trace (gedit_tab_save_async tab)) =
                  SaveAsync (if state tab = GEDIT_TAB_STATE_EXTERNALLY_MODIFIED_NOTIFICATION
                             then get_initial_save_flags tab False
                                    OR GTK_SOURCE_FILE_SAVER_FLAGS_IGNORE_MODIFICATION_TIME
                             else get_initial_save_flags tab False))
         \<and> ((state tab = GEDIT_TAB_STATE_NORMAL \<or>
              state tab = GEDIT_TAB_STATE_EXTERNALLY_MODIFIED_NOTIFICATION \<or>
              state tab = GEDIT_TAB_STATE_SHOWING_PRINT_PREVIEW) \<and>
             task_saver tab = None
            \<longrightarrow> save_flags (gedit_tab_save_as_async tab (Some location) (Some encoding))
                  = GTK_SOURCE_FILE_SAVER_FLAGS_NONE
              \<and> task_saver (gedit_tab_save_as_async tab (Some location) (Some encoding)) =
                  Some \<lparr>saver_flags =
                          (if state tab = GEDIT_TAB_STATE_EXTERNALLY_MODIFIED_NOTIFICATION
                           then get_initial_save_flags
                                  (tab\<lparr>save_flags := GTK_SOURCE_FILE_SAVER_FLAGS_NONE\<rparr>) False
                                  OR GTK_SOURCE_FILE_SAVER_FLAGS_IGNORE_MODIFICATION_TIME
                           else get_initial_save_flags
                                  (tab\<lparr>save_flags := GTK_SOURCE_FILE_SAVER_FLAGS_NONE\<rparr>) False),
                        force_no_backup = False\<rparr>
              \<and> last (trace (gedit_tab_save_as_async tab (Some location) (Some encoding))) =
                  SaveAsync (if state tab = GEDIT_TAB_STATE_EXTERNALLY_MODIFIED_NOTIFICATION
                             then get_initial_save_flags
                                    (tab\<lparr>save_flags := GTK_SOURCE_FILE_SAVER_FLAGS_NONE\<rparr>) False
                                    OR GTK_SOURCE_FILE_SAVER_FLAGS_IGNORE_MODIFICATION_TIME
                             else get_initial_save_flags
                                    (tab\<lparr>save_flags := GTK_SOURCE_FILE_SAVER_FLAGS_NONE\<rparr>) False))"
proof -
  let ?cb = "GTK_SOURCE_FILE_SAVER_FLAGS_CREATE_BACKUP"
  have nb: "save_flags tab AND ?cb = 0"
    using assms by (rule persisted_no_backup)
  have cb: "?cb \<noteq> 0"
    by (simp add: GTK_SOURCE_FILE_SAVER_FLAGS_CREATE_BACKUP_def)
  have c1: "get_initial_save_flags tab auto_save_op =
           (if create_backup_copy (editor tab) \<and> \<not> auto_save_op
            then save_flags tab OR ?cb
            else save_flags tab)"
    by (simp add: get_initial_save_flags_def Let_def)
  have c2: "(get_initial_save_flags tab auto_save_op AND ?cb \<noteq> 0)
             = (create_backup_copy (editor tab) \<and> \<not> auto_save_op)"
    using nb cb by (simp add: c1 bit.conj_disj_distrib2)
  have "save_flags tab = save_flags tab AND (?cb OR NOT ?cb)" by simp
  also have "\<dots> = (save_flags tab AND ?cb) OR (save_flags tab AND NOT ?cb)"
    by (simp only: bit.conj_disj_distrib)
  also have "\<dots> = save_flags tab AND NOT ?cb" by (simp add: nb)
  finally have keep: "save_flags tab AND NOT ?cb = save_flags tab" by simp
  have c3: "get_initial_save_flags tab auto_save_op AND NOT ?cb = save_flags tab"
    using keep by (simp add: c1 bit.conj_disj_distrib2)
  have t: "get_initial_save_flags tab True = save_flags tab"
    by (simp add: get_initial_save_flags_def)
  have c4: "\<not> doc_is_untitled (document tab) \<and> \<not> doc_readonly (document tab) \<and>
            doc_modified (document tab) \<and> state tab = GEDIT_TAB_STATE_NORMAL \<and>
            task_saver tab = None
            \<longrightarrow> task_saver (snd (gedit_tab_auto_save tab)) =
                  Some \<lparr>saver_flags = get_initial_save_flags tab True, force_no_backup = False\<rparr>
              \<and> last (trace (snd (gedit_tab_auto_save tab)))
                  = SaveAsync (get_initial_save_flags tab True)
              \<and> get_initial_save_flags tab True = save_flags tab
              \<and> get_initial_save_flags tab True AND ?cb = 0"
    using auto_save_launch_flags [of tab] t nb by simp
  have c5: "(state tab = GEDIT_TAB_STATE_NORMAL \<or>
              state tab = GEDIT_TAB_STATE_EXTERNALLY_MODIFIED_NOTIFICATION \<or>
              state tab = GEDIT_TAB_STATE_SHOWING_PRINT_PREVIEW) \<and>
             task_saver tab = None \<and> \<not> doc_is_untitled (document tab)
            \<longrightarrow> task_saver (gedit_tab_save_async tab) =
                  Some \<lparr>saver_flags =
                          (if state tab = GEDIT_TAB_STATE_EXTERNALLY_MODIFIED_NOTIFICATION
                           then get_initial_save_flags tab False
                                  OR GTK_SOURCE_FILE_SAVER_FLAGS_IGNORE_MODIFICATION_TIME
                           else get_initial_save_flags tab False),
                        force_no_backup = False\<rparr>
              \<and> last (trace (gedit_tab_save_async tab)) =
                  SaveAsync (if state tab = GEDIT_TAB_STATE_EXTERNALLY_MODIFIED_NOTIFICATION
                             then get_initial_save_flags tab False
                                    OR GTK_SOURCE_FILE_SAVER_FLAGS_IGNORE_MODIFICATION_TIME
                             else get_initial_save_flags tab False)"
    using save_async_launch_flags [of tab] by blast
  have c6: "(state tab = GEDIT_TAB_STATE_NORMAL \<or>
              state tab = GEDIT_TAB_STATE_EXTERNALLY_MODIFIED_NOTIFICATION \<or>
              state tab = GEDIT_TAB_STATE_SHOWING_PRINT_PREVIEW) \<and>
             task_saver tab = None
            \<longrightarrow> save_flags (gedit_tab_save_as_async tab (Some location) (Some encoding))
                  = GTK_SOURCE_FILE_SAVER_FLAGS_NONE
              \<and> task_saver (gedit_tab_save_as_async tab (Some location) (Some encoding)) =
                  Some \<lparr>saver_flags =
                          (if state tab = GEDIT_TAB_STATE_EXTERNALLY_MODIFIED_NOTIFICATION
                           then get_initial_save_flags
                                  (tab\<lparr>save_flags := GTK_SOURCE_FILE_SAVER_FLAGS_NONE\<rparr>) False
                                  OR GTK_SOURCE_FILE_SAVER_FLAGS_IGNORE_MODIFICATION_TIME
                           else get_initial_save_flags
                                  (tab\<lparr>save_flags := GTK_SOURCE_FILE_SAVER_FLAGS_NONE\<rparr>) False),
                        force_no_backup = False\<rparr>
              \<and> last (trace (gedit_tab_save_as_async tab (Some location) (Some encoding))) =
                  SaveAsync (if state tab = GEDIT_TAB_STATE_EXTERNALLY_MODIFIED_NOTIFICATION
                             then get_initial_save_flags
                                    (tab\<lparr>save_flags := GTK_SOURCE_FILE_SAVER_FLAGS_NONE\<rparr>) False
                                    OR GTK_SOURCE_FILE_SAVER_FLAGS_IGNORE_MODIFICATION_TIME
                             else get_initial_save_flags
                                    (tab\<lparr>save_flags := GTK_SOURCE_FILE_SAVER_FLAGS_NONE\<rparr>) False)"
    using save_as_async_launch_flags [of tab location encoding] by blast
  show ?thesis by (intro conjI c1 c2 c3 c4 c5 c6)
qed

theorem initial_save_flags_witness:
  "persisted_save_flags (save_flags flagged_tab)
   \<and> save_flags flagged_tab = 1
   \<and> get_initial_save_flags flagged_tab False = 5
   \<and> get_initial_save_flags flagged_tab True = 1
   \<and> task_saver (snd (gedit_tab_auto_save flagged_tab))
       = Some \<lparr>saver_flags = 1, force_no_backup = False\<rparr>
   \<and> last (trace (snd (gedit_tab_auto_save flagged_tab))) = SaveAsync 1
   \<and> last (trace (gedit_tab_save_async flagged_tab)) = SaveAsync 5
   \<and> last (trace (gedit_tab_save_async
                      (flagged_tab\<lparr>state := GEDIT_TAB_STATE_EXTERNALLY_MODIFIED_NOTIFICATION\<rparr>)))
       = SaveAsync 7
   \<and> last (trace (gedit_tab_save_as_async flagged_tab (Some (GFile ''file:///tmp/b.txt''))
                      (Some (GtkSourceEncoding ''UTF-8'')))) = SaveAsync 4"
proof -
  let ?em = "flagged_tab\<lparr>state := GEDIT_TAB_STATE_EXTERNALLY_MODIFIED_NOTIFICATION\<rparr>"
  have f: "save_flags flagged_tab = 1" "save_flags ?em = 1"
    "state flagged_tab = GEDIT_TAB_STATE_NORMAL" "task_saver flagged_tab = None"
    "state ?em = GEDIT_TAB_STATE_EXTERNALLY_MODIFIED_NOTIFICATION" "task_saver ?em = None"
    "document flagged_tab = example_document" "document ?em = example_document"
    "create_backup_copy (editor flagged_tab)" "create_backup_copy (editor ?em)"
    by (simp_all add: flagged_tab_def)
  have d: "\<not> doc_is_untitled example_document" "\<not> doc_readonly example_document"
    "doc_modified example_document"
    by (simp_all add: example_document_def)
  have "persisted_save_flags (0 OR GTK_SOURCE_FILE_SAVER_FLAGS_IGNORE_INVALID_CHARS)"
    by (intro persisted_save_flags.invalid_character_response persisted_save_flags.zeroed)
  then have p1: "persisted_save_flags 1"
    by (simp add: GTK_SOURCE_FILE_SAVER_FLAGS_IGNORE_INVALID_CHARS_def)
  have p: "persisted_save_flags (save_flags flagged_tab)" "persisted_save_flags (save_flags ?em)"
    using p1 f by simp_all
  note a = initial_save_flags [OF p(1), of False "GFile ''file:///tmp/b.txt''" "GtkSourceEncoding ''UTF-8''"]
  note b = initial_save_flags [OF p(1), of True "GFile ''file:///tmp/b.txt''" "GtkSourceEncoding ''UTF-8''"]
  note c = initial_save_flags [OF p(2), of False "GFile ''file:///tmp/b.txt''" "GtkSourceEncoding ''UTF-8''"]
  have i5: "get_initial_save_flags flagged_tab False = 5"
    using a f by (simp add: saver_flag_defs)
  have i1: "get_initial_save_flags flagged_tab True = 1"
    using b f by simp
  have i5': "get_initial_save_flags ?em False = 5"
    using c f by (simp add: saver_flag_defs)
  have i4: "get_initial_save_flags (flagged_tab\<lparr>save_flags := GTK_SOURCE_FILE_SAVER_FLAGS_NONE\<rparr>) False = 4"
    using f by (simp add: get_initial_save_flags_def saver_flag_defs)
  from a f d i1
  have w1: "task_saver (snd (gedit_tab_auto_save flagged_tab))
       = Some \<lparr>saver_flags = 1, force_no_backup = False\<rparr>"
    "last (trace (snd (gedit_tab_auto_save flagged_tab))) = SaveAsync 1"
    by simp_all
  from a f d i5
  have w2: "last (trace (gedit_tab_save_async flagged_tab)) = SaveAsync 5"
    by simp
  from c f d i5'
  have w3: "last (trace (gedit_tab_save_async ?em)) = SaveAsync 7"
    by (simp add: saver_flag_defs)
  from a f i4
  have w4: "last (trace (gedit_tab_save_as_async flagged_tab (Some (GFile ''file:///tmp/b.txt''))
                      (Some (GtkSourceEncoding ''UTF-8'')))) = SaveAsync 4"
    by simp
  from p(1) f(1) i5 i1 w1 w2 w3 w4 show ?thesis by simp
qed


lemma close_printing_fields [simp]:
  "state (close_printing tab) = GEDIT_TAB_STATE_NORMAL"
  "print_job (close_printing tab) = None"
  "print_preview (close_printing tab) = None"
  by (simp_all add: close_printing_def Let_def)

lemma add_printing_info_bar_fields [simp]:
  "state (add_printing_info_bar tab) = state tab"
  "print_job (add_printing_info_bar tab) = print_job tab"
  "trace (add_printing_info_bar tab) = trace tab"
  by (simp_all add: add_printing_info_bar_def Let_def)

lemma trace_set_state:
  "set (trace tab) \<subseteq> set (trace (gedit_tab_set_state tab st))"
  by (auto simp add: gedit_tab_set_state_def tab_aux_defs Let_def)

lemma print_accepted:
  assumes "state tab = GEDIT_TAB_STATE_NORMAL" "print_job tab = None"
  shows "state (gedit_tab_print tab False) = GEDIT_TAB_STATE_PRINTING"
    and "print_job (gedit_tab_print tab False) = Some ()"
    and "PrintJobNew \<in> set (trace (gedit_tab_print tab False))"
proof -
  show "state (gedit_tab_print tab False) = GEDIT_TAB_STATE_PRINTING"
    "print_job (gedit_tab_print tab False) = Some ()"
    using assms by (simp_all add: gedit_tab_print_def Let_def)
  have "PrintJobNew \<in> set (trace (add_printing_info_bar (emit PrintJobNew (tab\<lparr>print_job := Some ()\<rparr>))))"
    by simp
  then have "PrintJobNew \<in> set (trace (gedit_tab_set_state
       (add_printing_info_bar (emit PrintJobNew (tab\<lparr>print_job := Some ()\<rparr>))) GEDIT_TAB_STATE_PRINTING))"
    using trace_set_state by blast
  then show "PrintJobNew \<in> set (trace (gedit_tab_print tab False))"
    using assms by (simp add: gedit_tab_print_def Let_def)
qed

text \<open>
  C9 (as the code has it). From the Normal state a load request for a file location moves
  the tab to Loading. A print request is refused, with one logged message, no print job and
  no change of state, in every state other than Normal and ShowingPrintPreview. In
  ShowingPrintPreview the request first closes the preview, which returns the tab to
  Normal and drops the old job, and then proceeds as from Normal: a new print job is
  created and the tab enters Printing.
\<close>

theorem load_and_print_acceptance:
  "(state tab = GEDIT_TAB_STATE_NORMAL
      \<longrightarrow> state (gedit_tab_load env tab (Some location) encoding line_pos column_pos create)
            = GEDIT_TAB_STATE_LOADING)
   \<and> (state tab \<noteq> GEDIT_TAB_STATE_NORMAL \<and> state tab \<noteq> GEDIT_TAB_STATE_SHOWING_PRINT_PREVIEW
      \<longrightarrow> (\<exists>msg. gedit_tab_print tab res_error
                   = tab\<lparr>trace := trace tab @ [Log G_LOG_LEVEL_CRITICAL msg]\<rparr>))
   \<and> (state tab = GEDIT_TAB_STATE_SHOWING_PRINT_PREVIEW
      \<longrightarrow> gedit_tab_print tab res_error = gedit_tab_print (close_printing tab) res_error
        \<and> state (close_printing tab) = GEDIT_TAB_STATE_NORMAL
        \<and> print_job (close_printing tab) = None
        \<and> state (gedit_tab_print tab False) = GEDIT_TAB_STATE_PRINTING
        \<and> PrintJobNew \<in> set (trace (gedit_tab_print tab False)))
   \<and> (state tab = GEDIT_TAB_STATE_NORMAL \<and> print_job tab = None
      \<longrightarrow> state (gedit_tab_print tab False) = GEDIT_TAB_STATE_PRINTING
        \<and> PrintJobNew \<in> set (trace (gedit_tab_print tab False)))"
proof (intro conjI impI)
  assume "state tab = GEDIT_TAB_STATE_NORMAL"
  then show "state (gedit_tab_load env tab (Some location) encoding line_pos column_pos create)
            = GEDIT_TAB_STATE_LOADING"
    by (simp add: gedit_tab_load_def Let_def load_state g_warning_def)
next
  assume "state tab \<noteq> GEDIT_TAB_STATE_NORMAL \<and> state tab \<noteq> GEDIT_TAB_STATE_SHOWING_PRINT_PREVIEW"
  then show "\<exists>msg. gedit_tab_print tab res_error
                   = tab\<lparr>trace := trace tab @ [Log G_LOG_LEVEL_CRITICAL msg]\<rparr>"
    by (auto simp add: gedit_tab_print_def return_if_fail_warning_def emit_def)
next
  assume pp: "state tab = GEDIT_TAB_STATE_SHOWING_PRINT_PREVIEW"
  show eq: "gedit_tab_print tab res_error = gedit_tab_print (close_printing tab) res_error"
    using pp by (simp add: gedit_tab_print_def)
  show "state (close_printing tab) = GEDIT_TAB_STATE_NORMAL" "print_job (close_printing tab) = None"
    by simp_all
  have eq': "gedit_tab_print tab False = gedit_tab_print (close_printing tab) False"
    using pp by (simp add: gedit_tab_print_def)
  show "state (gedit_tab_print tab False) = GEDIT_TAB_STATE_PRINTING"
    "PrintJobNew \<in> set (trace (gedit_tab_print tab False))"
    unfolding eq' by (simp_all add: print_accepted)
next
  assume "state tab = GEDIT_TAB_STATE_NORMAL \<and> print_job tab = None"
  then show "state (gedit_tab_print tab False) = GEDIT_TAB_STATE_PRINTING"
    "PrintJobNew \<in> set (trace (gedit_tab_print tab False))"
    by (simp_all add: print_accepted)
qed

text \<open>
  C9 as stated would have the print request refused in ShowingPrintPreview; there it is
  accepted, the state changes and a print job is created.
\<close>

theorem print_from_preview_counterexample:
  "state preview_tab \<noteq> GEDIT_TAB_STATE_NORMAL
   \<and> state (gedit_tab_print preview_tab False) \<noteq> state preview_tab
   \<and> state (gedit_tab_print preview_tab False) = GEDIT_TAB_STATE_PRINTING
   \<and> PrintJobNew \<in> set (trace (gedit_tab_print preview_tab False))"
proof -
  have s: "state preview_tab = GEDIT_TAB_STATE_SHOWING_PRINT_PREVIEW"
    by (simp add: preview_tab_def)
  have "gedit_tab_print preview_tab False = gedit_tab_print (close_printing preview_tab) False"
    using s by (simp add: gedit_tab_print_def)
  then show ?thesis using s by (simp add: print_accepted)
qed

theorem load_and_print_acceptance_witness:
  "state (gedit_tab_load example_env example_tab (Some (GFile ''file:///tmp/b.txt'')) None 0 0 False)
     = GEDIT_TAB_STATE_LOADING
   \<and> (\<exists>msg. gedit_tab_print loading_tab False
            = loading_tab\<lparr>trace := trace loading_tab @ [Log G_LOG_LEVEL_CRITICAL msg]\<rparr>)
   \<and> state (gedit_tab_print preview_tab False) = GEDIT_TAB_STATE_PRINTING
   \<and> state (gedit_tab_print example_tab False) = GEDIT_TAB_STATE_PRINTING"
proof -
  have l: "state loading_tab = GEDIT_TAB_STATE_LOADING"
    by (simp add: loading_tab_def)
  have p: "state preview_tab = GEDIT_TAB_STATE_SHOWING_PRINT_PREVIEW"
    by (simp add: preview_tab_def)
  have n: "state example_tab = GEDIT_TAB_STATE_NORMAL" "print_job example_tab = None"
    by simp_all
  from load_and_print_acceptance
         [of example_tab example_env "GFile ''file:///tmp/b.txt''" None 0 0 False False] n
  have a: "state (gedit_tab_load example_env example_tab (Some (GFile ''file:///tmp/b.txt'')) None 0 0 False)
     = GEDIT_TAB_STATE_LOADING"
    "state (gedit_tab_print example_tab False) = GEDIT_TAB_STATE_PRINTING"
    by simp_all
  from load_and_print_acceptance
         [of loading_tab example_env "GFile ''file:///tmp/b.txt''" None 0 0 False False] l
  have b: "\<exists>msg. gedit_tab_print loading_tab False
            = loading_tab\<lparr>trace := trace loading_tab @ [Log G_LOG_LEVEL_CRITICAL msg]\<rparr>"
    by simp
  from load_and_print_acceptance
         [of preview_tab example_env "GFile ''file:///tmp/b.txt''" None 0 0 False False] p
  have c: "state (gedit_tab_print preview_tab False) = GEDIT_TAB_STATE_PRINTING"
    by blast
  from a b c show ?thesis by simp
qed

section \<open>Properties of the pane manager\<close>

subsection \<open>Auxiliary facts\<close>

lemma effect_fields [simp]:
  "notebooks (effect e m) = notebooks m"
  "total_tabs (effect e m) = total_tabs m"
  "pages (effect e m) = pages m"
  "removing_notebook (effect e m) = removing_notebook m"
  "active_tab (effect e m) = active_tab m"
  "active_notebook (effect e m) = active_notebook m"
  "effects (effect e m) = effects m @ [e]"
  by (simp_all add: effect_def)

lemma switch_page_fields [simp]:
  "notebooks (notebook_switch_page b n m) = notebooks m"
  "total_tabs (notebook_switch_page b n m) = total_tabs m"
  "pages (notebook_switch_page b n m) = pages m"
  "removing_notebook (notebook_switch_page b n m) = removing_notebook m"
  by (simp_all add: notebook_switch_page_def Let_def)

lemma set_focus_fields [simp]:
  "notebooks (notebook_set_focus c n m) = notebooks m"
  "total_tabs (notebook_set_focus c n m) = total_tabs m"
  "pages (notebook_set_focus c n m) = pages m"
  "removing_notebook (notebook_set_focus c n m) = removing_notebook m"
  by (simp_all add: notebook_set_focus_def Let_def)

lemma grab_focus_fields [simp]:
  "notebooks (gtk_widget_grab_focus w f m) = notebooks m"
  "total_tabs (gtk_widget_grab_focus w f m) = total_tabs m"
  "pages (gtk_widget_grab_focus w f m) = pages m"
  "removing_notebook (gtk_widget_grab_focus w f m) = removing_notebook m"
  by (simp_all add: gtk_widget_grab_focus_def Let_def split: option.splits)

lemma page_added_fields [simp]:
  "notebooks (notebook_page_added b c n m) = notebooks m"
  "total_tabs (notebook_page_added b c n m) = total_tabs m + 1"
  "pages (notebook_page_added b c n m) = pages m"
  "removing_notebook (notebook_page_added b c n m) = removing_notebook m"
  by (simp_all add: notebook_page_added_def)

lemma add_notebook_fields [simp]:
  "notebooks (add_notebook b mc m) = notebooks m @ [b]"
  "total_tabs (add_notebook b mc m) = total_tabs m"
  "pages (add_notebook b mc m) = pages m"
  "removing_notebook (add_notebook b mc m) = removing_notebook m"
  by (simp_all add: add_notebook_def)

lemma get_nth_page_nil [simp]: "gtk_notebook_get_nth_page [] n = None"
  by (simp add: gtk_notebook_get_nth_page_def)

lemma switch_page_active_tab_empty:
  "pages m b = [] \<Longrightarrow> active_tab m = None \<Longrightarrow> notebook_switch_page b n m = m"
  by (simp add: notebook_switch_page_def)

lemma set_focus_active_tab_empty:
  "pages m c = [] \<Longrightarrow> active_tab m = None \<Longrightarrow> active_tab (notebook_set_focus c n m) = None"
  by (simp add: notebook_set_focus_def notebook_switch_page_def Let_def)

lemma grab_focus_active_tab_empty:
  "pages m w = [] \<Longrightarrow> active_tab m = None \<Longrightarrow> active_tab (gtk_widget_grab_focus w f m) = None"
  by (simp add: gtk_widget_grab_focus_def Let_def set_focus_active_tab_empty split: option.splits)

lemma switch_page_effects: "\<exists>es. effects (notebook_switch_page b n m) = effects m @ es"
  by (simp add: notebook_switch_page_def Let_def)

lemma set_focus_effects: "\<exists>es. effects (notebook_set_focus c n m) = effects m @ es"
proof (cases "c = active_notebook m")
  case True
  then show ?thesis by (simp add: notebook_set_focus_def)
next
  case False
  obtain es where "effects (notebook_switch_page c n (m\<lparr>active_notebook := c\<rparr>)) = effects m @ es"
    using switch_page_effects [of c n "m\<lparr>active_notebook := c\<rparr>"] by auto
  with False show ?thesis by (simp add: notebook_set_focus_def Let_def)
qed

lemma grab_focus_effects:
  "\<exists>es. effects (gtk_widget_grab_focus w f m) = effects m @ GrabFocus w # es"
proof (cases f)
  case None
  then show ?thesis by (simp add: gtk_widget_grab_focus_def)
next
  case (Some n)
  obtain es where "effects (notebook_set_focus w n (effect (GrabFocus w) m)) = effects (effect (GrabFocus w) m) @ es"
    using set_focus_effects by blast
  with Some show ?thesis by (simp add: gtk_widget_grab_focus_def)
qed

lemma gtk_widget_destroy_empty:
  "pages m b = [] \<Longrightarrow> gtk_widget_destroy b m = effect (WidgetDestroy b) m"
  by (simp add: gtk_widget_destroy_def)

lemma g_list_find_Nil: "g_list_find xs d = [] \<longleftrightarrow> d \<notin> set xs"
  by (induction xs) auto

lemma g_list_find_Cons:
  "g_list_find xs d = c # following \<Longrightarrow>
   c = d \<and> set following \<subseteq> set xs \<and> (distinct xs \<longrightarrow> d \<notin> set following)"
  by (induction xs) (auto split: if_splits)

text \<open>What remove_notebook does to a notebook without pages, among two or more.\<close>

lemma remove_notebook_empty:
  assumes two: "notebooks m = a # b # rest"
    and mem: "nb \<in> set (notebooks m)"
    and empty: "pages m nb = []"
    and pc: "parent_children \<ge> 1"
  shows "\<exists>m' es. remove_notebook nb focus parent_children m = Inr m'
           \<and> notebooks m' = remove1 nb (notebooks m)
           \<and> total_tabs m' = total_tabs m
           \<and> pages m' = pages m
           \<and> \<not> removing_notebook m'
           \<and> effects m' = effects m @ WidgetDestroy nb
               # GrabFocus (case tl (g_list_find (notebooks m) nb) of [] \<Rightarrow> hd (notebooks m) | n # ns \<Rightarrow> n)
               # es
           \<and> (parent_children = 1 \<longrightarrow> last (effects m') = SignalEmit (NOTEBOOK_REMOVED nb))"
proof -
  from mem obtain c following where f: "g_list_find (notebooks m) nb = c # following"
    using g_list_find_Nil [of "notebooks m" nb] by (cases "g_list_find (notebooks m) nb") auto
  let ?new = "if following \<noteq> [] then hd following else a"
  let ?m4 = "(gtk_widget_destroy nb (m\<lparr>removing_notebook := True\<rparr>))
               \<lparr>notebooks := remove1 nb (notebooks m), removing_notebook := False\<rparr>"
  have d: "gtk_widget_destroy nb (m\<lparr>removing_notebook := True\<rparr>)
             = effect (WidgetDestroy nb) (m\<lparr>removing_notebook := True\<rparr>)"
    using empty by (simp add: gtk_widget_destroy_empty)
  obtain es where es: "effects (gtk_widget_grab_focus ?new focus ?m4) = effects ?m4 @ GrabFocus ?new # es"
    using grab_focus_effects by blast
  have new: "?new = (case tl (g_list_find (notebooks m) nb) of [] \<Rightarrow> hd (notebooks m) | n # ns \<Rightarrow> n)"
    using f two by (cases following) simp_all
  show ?thesis
    using two f pc es d new
    by (cases "parent_children = 1")
       (auto simp add: remove_notebook_def Let_def)
qed

lemma sum_pages_upd_other:
  "n \<notin> set xs \<Longrightarrow>
   (\<Sum>x \<leftarrow> xs. int (length ((f(n := ys)) x))) = (\<Sum>x \<leftarrow> xs. int (length (f x)))"
  by (induction xs) auto

lemma sum_pages_upd:
  "distinct xs \<Longrightarrow> n \<in> set xs \<Longrightarrow>
   (\<Sum>x \<leftarrow> xs. int (length ((f(n := ys)) x)))
     = (\<Sum>x \<leftarrow> xs. int (length (f x))) - int (length (f n)) + int (length ys)"
proof (induction xs)
  case Nil
  then show ?case by simp
next
  case (Cons a xs)
  show ?case
  proof (cases "a = n")
    case True
    with Cons.prems have "n \<notin> set xs" by simp
    then have "(\<Sum>x \<leftarrow> xs. int (length ((f(n := ys)) x))) = (\<Sum>x \<leftarrow> xs. int (length (f x)))"
      by (rule sum_pages_upd_other)
    with True show ?thesis by simp
  next
    case False
    with Cons.prems have "n \<in> set xs" "distinct xs" by simp_all
    with Cons.IH False show ?thesis by simp
  qed
qed

lemma sum_pages_remove1:
  "n \<in> set xs \<Longrightarrow>
   (\<Sum>x \<leftarrow> remove1 n xs. int (length (f x)))
     = (\<Sum>x \<leftarrow> xs. int (length (f x))) - int (length (f n))"
  using sum_list_map_remove1 [of n xs "\<lambda>x. int (length (f x))"] by simp

lemma sum_pages_nonneg: "0 \<le> (\<Sum>x \<leftarrow> xs. int (length (f x)))"
  by (induction xs) auto

lemma sum_pages_zero:
  "(\<Sum>x \<leftarrow> xs. int (length (f x))) = 0 \<Longrightarrow> n \<in> set xs \<Longrightarrow> f n = []"
proof (induction xs)
  case Nil
  then show ?case by simp
next
  case (Cons a xs)
  have nn: "0 \<le> (\<Sum>x \<leftarrow> xs. int (length (f x)))" by (rule sum_pages_nonneg)
  from Cons.prems(1) have "int (length (f a)) + (\<Sum>x \<leftarrow> xs. int (length (f x))) = 0" by simp
  with nn have z: "length (f a) = 0" "(\<Sum>x \<leftarrow> xs. int (length (f x))) = 0" by linarith+
  show ?case
  proof (cases "n = a")
    case True
    with z show ?thesis by simp
  next
    case False
    with Cons.prems(2) have "n \<in> set xs" by simp
    with z Cons.IH show ?thesis by simp
  qed
qed

lemma length_remove1_int:
  "c \<in> set xs \<Longrightarrow> int (length (remove1 c xs)) = int (length xs) - 1"
proof -
  assume c: "c \<in> set xs"
  then have "0 < length xs" by (rule length_pos_if_in_set)
  then have "int (length xs - 1) = int (length xs) - 1" by linarith
  with c show ?thesis by (simp add: length_remove1)
qed

lemma pane_inv_init: "pane_inv (gedit_multi_notebook_init nb)"
  by (simp add: pane_inv_def gedit_multi_notebook_init_def sum_tabs_def)

text \<open>The handler on a notebook that still has pages, or that is the only one, or while a
  notebook is being removed: no notebook is removed.\<close>

lemma page_removed_plain:
  assumes "notebooks m \<noteq> []"
    and "pages m nb \<noteq> [] \<or> removing_notebook m \<or> tl (notebooks m) = []"
  shows "notebook_page_removed nb child pn focus pc m = Inr (page_removed_while_removing nb child m)"
  using assms
  by (cases "notebooks m")
     (auto simp add: notebook_page_removed_def page_removed_while_removing_def Let_def)

lemma page_removed_while_removing_fields [simp]:
  "notebooks (page_removed_while_removing nb c m) = notebooks m"
  "total_tabs (page_removed_while_removing nb c m) = total_tabs m - 1"
  "pages (page_removed_while_removing nb c m) = pages m"
  "removing_notebook (page_removed_while_removing nb c m) = removing_notebook m"
  by (simp_all add: page_removed_while_removing_def Let_def)

lemma page_removed_while_removing_zero:
  "total_tabs m = 1 \<Longrightarrow>
   active_tab (page_removed_while_removing nb c m) = None
   \<and> effects (page_removed_while_removing nb c m)
       = effects m @ [PropertyNotify ''active-tab'', SignalEmit (TAB_REMOVED nb c)]"
  by (simp add: page_removed_while_removing_def Let_def)

text \<open>The handler on the last page of a notebook among two or more.\<close>

lemma page_removed_last_page:
  assumes two: "notebooks m = a # b # rest"
    and mem: "nb \<in> set (notebooks m)"
    and empty: "pages m nb = []"
    and nr: "\<not> removing_notebook m"
    and pc: "pc \<ge> 1"
  shows "\<exists>m2 m3 es. 
           m2 = (if total_tabs m - 1 = 0
                 then effect (PropertyNotify ''active-tab'') (m\<lparr>total_tabs := total_tabs m - 1, active_tab := None\<rparr>)
                 else m\<lparr>total_tabs := total_tabs m - 1\<rparr>)
         \<and> remove_notebook nb focus pc m2 = Inr m3
         \<and> notebook_page_removed nb child pn focus pc m = Inr (effect (SignalEmit (TAB_REMOVED nb child)) m3)
         \<and> notebooks m3 = remove1 nb (notebooks m)
         \<and> total_tabs m3 = total_tabs m - 1
         \<and> pages m3 = pages m
         \<and> \<not> removing_notebook m3
         \<and> effects m3 = effects m2 @ WidgetDestroy nb
               # GrabFocus (case tl (g_list_find (notebooks m) nb) of [] \<Rightarrow> hd (notebooks m) | n # ns \<Rightarrow> n)
               # es
         \<and> (pc = 1 \<longrightarrow> last (effects m3) = SignalEmit (NOTEBOOK_REMOVED nb))"
proof -
  let ?m2 = "(if total_tabs m - 1 = 0
                 then effect (PropertyNotify ''active-tab'') (m\<lparr>total_tabs := total_tabs m - 1, active_tab := None\<rparr>)
                 else m\<lparr>total_tabs := total_tabs m - 1\<rparr>)"
  have f: "notebooks ?m2 = a # b # rest" "nb \<in> set (notebooks ?m2)" "pages ?m2 nb = []"
    "notebooks ?m2 = notebooks m" "total_tabs ?m2 = total_tabs m - 1" "pages ?m2 = pages m"
    "\<not> removing_notebook ?m2"
    using two mem empty nr by simp_all
  from remove_notebook_empty [OF f(1) f(2) f(3) pc, of focus]
  obtain m3 es where r: "remove_notebook nb focus pc ?m2 = Inr m3"
    "notebooks m3 = remove1 nb (notebooks ?m2)" "total_tabs m3 = total_tabs ?m2"
    "pages m3 = pages ?m2" "\<not> removing_notebook m3"
    "effects m3 = effects ?m2 @ WidgetDestroy nb
               # GrabFocus (case tl (g_list_find (notebooks ?m2) nb) of [] \<Rightarrow> hd (notebooks ?m2) | n # ns \<Rightarrow> n)
               # es"
    "pc = 1 \<longrightarrow> last (effects m3) = SignalEmit (NOTEBOOK_REMOVED nb)"
    by blast
  have h: "notebook_page_removed nb child pn focus pc m = Inr (effect (SignalEmit (TAB_REMOVED nb child)) m3)"
    using two empty nr r(1) by (simp add: notebook_page_removed_def Let_def)
  show ?thesis
    using r h unfolding f(4) f(5) f(6) by blast
qed

lemma pane_inv_step:
  assumes inv: "pane_inv m" and occ: "occurs e m" and del: "deliver e m = Inr m'"
  shows "pane_inv m'"
proof (cases e)
  case (PageAdded nb child pos)
  with inv occ del show ?thesis
    by (auto simp add: pane_inv_def sum_tabs_def sum_pages_upd simp del: fun_upd_apply)
next
  case (PageRemoved nb child focus pc)
  let ?m = "m\<lparr>pages := (pages m)(nb := remove1 child (pages m nb))\<rparr>"
  from occ PageRemoved have mem: "nb \<in> set (notebooks m)" and ch: "child \<in> set (pages m nb)"
    by simp_all
  from inv have ne: "notebooks m \<noteq> []" and di: "distinct (notebooks m)"
    and tot: "total_tabs m = sum_tabs m" and nr: "\<not> removing_notebook m"
    by (simp_all add: pane_inv_def)
  have sum: "sum_tabs ?m = sum_tabs m - 1"
    using di mem ch by (simp add: sum_tabs_def sum_pages_upd length_remove1_int del: fun_upd_apply)
  from del PageRemoved
  have del': "notebook_page_removed nb child (nat (gtk_notebook_page_num (pages m nb) child)) focus pc ?m = Inr m'"
    by simp
  show ?thesis
  proof (cases "pages ?m nb \<noteq> [] \<or> tl (notebooks ?m) = []")
    case True
    then have "notebook_page_removed nb child (nat (gtk_notebook_page_num (pages m nb) child)) focus pc ?m
                 = Inr (page_removed_while_removing nb child ?m)"
      using ne by (intro page_removed_plain) auto
    with del' have "m' = page_removed_while_removing nb child ?m" by simp
    then show ?thesis using ne di tot nr sum by (simp add: pane_inv_def sum_tabs_def)
  next
    case False
    then obtain a b rest where two: "notebooks ?m = a # b # rest"
      by (cases "notebooks m"; cases "tl (notebooks m)") auto
    from False have empty: "pages ?m nb = []" by simp
    show ?thesis
    proof (cases "pc = 0")
      case True
      with two empty nr del' mem have False
        using g_list_find_Nil [of "notebooks m" nb]
        by (auto simp add: notebook_page_removed_def remove_notebook_def Let_def
              split: list.splits if_splits sum.splits)
      then show ?thesis ..
    next
      case pcpos: False
      then have pc: "pc \<ge> 1" by simp
      from page_removed_last_page [OF two _ empty _ pc, where child = child
             and pn = "nat (gtk_notebook_page_num (pages m nb) child)" and focus = focus]
        mem nr
      obtain m3 where r:
        "notebook_page_removed nb child (nat (gtk_notebook_page_num (pages m nb) child)) focus pc ?m
           = Inr (effect (SignalEmit (TAB_REMOVED nb child)) m3)"
        "notebooks m3 = remove1 nb (notebooks ?m)" "total_tabs m3 = total_tabs ?m - 1"
        "pages m3 = pages ?m" "\<not> removing_notebook m3"
        by auto
      from r(1) del' have m': "m' = effect (SignalEmit (TAB_REMOVED nb child)) m3" by simp
      have "sum_tabs m3 = sum_tabs ?m"
        using r(2) r(4) mem empty
        by (simp add: sum_tabs_def sum_pages_remove1 del: fun_upd_apply) 
      moreover have "notebooks m3 \<noteq> []"
        using r(2) two by (auto split: if_splits)
      ultimately show ?thesis
        using m' r di tot sum by (simp add: pane_inv_def sum_tabs_def)
    qed
  qed
next
  case (SwitchPage nb n)
  with inv del show ?thesis by (auto simp add: pane_inv_def sum_tabs_def)
next
  case (SetFocusChild nb n)
  with inv del show ?thesis by (auto simp add: pane_inv_def sum_tabs_def)
next
  case (AddNewNotebook nb tab cur)
  with inv occ del show ?thesis
    by (auto simp add: pane_inv_def sum_tabs_def gedit_multi_notebook_add_new_notebook_def
          Let_def sum_pages_upd_other fun_upd_same simp del: fun_upd_apply)
qed

lemma reachable_inv: "reachable m \<Longrightarrow> pane_inv m"
  by (induction rule: reachable.induct) (auto intro: pane_inv_init pane_inv_step)

lemmas pane_eval_defs = gedit_multi_notebook_init_def gedit_multi_notebook_add_new_notebook_def
  add_notebook_def notebook_page_added_def notebook_set_focus_def notebook_switch_page_def
  gtk_notebook_get_nth_page_def effect_def Let_def

lemma pane_example1_fields:
  "notebooks pane_example1 = [0, 7]" "total_tabs pane_example1 = 1"
  "pages pane_example1 0 = []" "pages pane_example1 7 = [10]"
  "active_tab pane_example1 = Some 10" "active_notebook pane_example1 = 7"
  "removing_notebook pane_example1 = False"
  by (simp_all add: pane_example1_def pane_eval_defs)

lemma pane_example2_fields:
  "notebooks pane_example2 = [0, 7]" "total_tabs pane_example2 = 2"
  "pages pane_example2 0 = [11]" "pages pane_example2 7 = [10]"
  "active_tab pane_example2 = Some 10" "active_notebook pane_example2 = 7"
  "removing_notebook pane_example2 = False"
  by (simp_all add: pane_example2_def pane_example1_fields pane_eval_defs)

lemma reachable_example1: "reachable pane_example1"
proof -
  have "reachable (gedit_multi_notebook_init 0)" by (rule reachable.init)
  moreover have "occurs (AddNewNotebook 7 10 0) (gedit_multi_notebook_init 0)"
    by (simp add: gedit_multi_notebook_init_def add_notebook_def effect_def)
  moreover have "deliver (AddNewNotebook 7 10 0) (gedit_multi_notebook_init 0) = Inr pane_example1"
    by (simp add: pane_example1_def)
  ultimately show ?thesis by (rule reachable.step)
qed

lemma reachable_example2: "reachable pane_example2"
proof -
  have "occurs (PageAdded 0 11 0) pane_example1"
    by (simp add: pane_example1_fields)
  moreover have "deliver (PageAdded 0 11 0) pane_example1 = Inr pane_example2"
    by (simp add: pane_example2_def pane_example1_fields)
  ultimately show ?thesis using reachable_example1 by (rule reachable.step [rotated])
qed

lemma remove_notebook_unfold:
  assumes "notebooks m = a # b # rest" and "g_list_find (notebooks m) nb = c # following"
    and "pages m nb = []"
  shows "remove_notebook nb focus pc m =
     (if pc = 0 then Inl NullPointerDereference
      else if pc \<noteq> 1
      then Inr (effect (GWarning ''The parent is not a paned'')
             (gtk_widget_grab_focus (if following \<noteq> [] then hd following else a) focus
                ((effect (WidgetDestroy nb) (m\<lparr>removing_notebook := True\<rparr>))
                   \<lparr>notebooks := remove1 nb (notebooks m), removing_notebook := False\<rparr>)))
      else Inr (effect (SignalEmit (NOTEBOOK_REMOVED nb))
             (gtk_widget_grab_focus (if following \<noteq> [] then hd following else a) focus
                ((effect (WidgetDestroy nb) (m\<lparr>removing_notebook := True\<rparr>))
                   \<lparr>notebooks := remove1 nb (notebooks m), removing_notebook := False\<rparr>))))"
  using assms by (simp add: remove_notebook_def Let_def gtk_widget_destroy_empty)

lemma remove_notebook_total:
  assumes e: "pages m nb = []" and r: "remove_notebook nb focus pc m = Inr m'"
  shows "total_tabs m' = total_tabs m"
proof (cases "notebooks m")
  case Nil
  with r show ?thesis by (simp add: remove_notebook_def)
next
  case (Cons a rest)
  show ?thesis
  proof (cases rest)
    case Nil
    with Cons r show ?thesis by (auto simp add: remove_notebook_def)
  next
    case (Cons b rest')
    with \<open>notebooks m = a # rest\<close> have two: "notebooks m = a # b # rest'" by simp
    show ?thesis
    proof (cases "g_list_find (notebooks m) nb")
      case Nil
      with two r show ?thesis by (simp add: remove_notebook_def)
    next
      case (Cons c following)
      from r show ?thesis
        unfolding remove_notebook_unfold [OF two Cons e]
        by (auto split: if_splits)
    qed
  qed
qed

lemma page_removed_unfold:
  assumes "notebooks m = a # b # rest" and "pages m nb = []" and "\<not> removing_notebook m"
  shows "notebook_page_removed nb child pn focus pc m =
     (case remove_notebook nb focus pc
             (if total_tabs m - 1 = 0
              then effect (PropertyNotify ''active-tab'')
                     (m\<lparr>total_tabs := total_tabs m - 1, active_tab := None\<rparr>)
              else m\<lparr>total_tabs := total_tabs m - 1\<rparr>) of
        Inl fault \<Rightarrow> Inl fault
      | Inr m3 \<Rightarrow> Inr (effect (SignalEmit (TAB_REMOVED nb child)) m3))"
  using assms by (simp add: notebook_page_removed_def Let_def)

lemma page_removed_total:
  assumes "notebook_page_removed nb child pn focus pc m = Inr m'"
  shows "total_tabs m' = total_tabs m - 1"
proof (cases "notebooks m")
  case Nil
  with assms show ?thesis by (simp add: notebook_page_removed_def)
next
  case (Cons a rest)
  show ?thesis
  proof (cases "pages m nb \<noteq> [] \<or> removing_notebook m \<or> tl (notebooks m) = []")
    case True
    with Cons have "notebook_page_removed nb child pn focus pc m
                      = Inr (page_removed_while_removing nb child m)"
      by (intro page_removed_plain) auto
    with assms show ?thesis by auto
  next
    case False
    with Cons obtain b rest' where two: "notebooks m = a # b # rest'"
      by (cases rest) auto
    let ?m2 = "(if total_tabs m - 1 = 0
                 then effect (PropertyNotify ''active-tab'') (m\<lparr>total_tabs := total_tabs m - 1, active_tab := None\<rparr>)
                 else m\<lparr>total_tabs := total_tabs m - 1\<rparr>)"
    from False have e: "pages m nb = []" and nr: "\<not> removing_notebook m" by simp_all
    from assms obtain m3 where
      r: "remove_notebook nb focus pc ?m2 = Inr m3"
      and m': "m' = effect (SignalEmit (TAB_REMOVED nb child)) m3"
      unfolding page_removed_unfold [OF two e nr]
      by (cases "remove_notebook nb focus pc ?m2") auto
    have "pages ?m2 nb = []" using e by simp
    from remove_notebook_total [OF this r] have "total_tabs m3 = total_tabs m - 1" by simp
    with m' show ?thesis by simp
  qed
qed

lemma remove_notebook_active_tab:
  assumes two: "notebooks m = a # b # rest"
    and allempty: "\<forall>n \<in> set (notebooks m). pages m n = []"
    and none: "active_tab m = None"
    and r: "remove_notebook nb focus pc m = Inr m'"
  shows "active_tab m' = None"
proof -
  from two r obtain c following where f: "g_list_find (notebooks m) nb = c # following"
    by (cases "g_list_find (notebooks m) nb") (auto simp add: remove_notebook_def)
  let ?new = "if following \<noteq> [] then hd following else a"
  let ?m4 = "(effect (WidgetDestroy nb) (m\<lparr>removing_notebook := True\<rparr>))
               \<lparr>notebooks := remove1 nb (notebooks m), removing_notebook := False\<rparr>"
  from g_list_find_Cons [OF f] have "set following \<subseteq> set (notebooks m)" by simp
  then have "?new \<in> set (notebooks m)" using two by (cases following) auto
  with allempty have e: "pages m ?new = []" by blast
  have "nb \<in> set (notebooks m)"
    using f g_list_find_Nil [of "notebooks m" nb] by auto
  with allempty have en: "pages m nb = []" by blast
  have g: "active_tab (gtk_widget_grab_focus ?new focus ?m4) = None"
    using e none by (intro grab_focus_active_tab_empty) simp_all
  from r show ?thesis
    unfolding remove_notebook_unfold [OF two f en]
    using g by (auto split: if_splits)
qed

lemma deliver_page_removed_zero:
  assumes re: "reachable m"
    and occ: "occurs (PageRemoved nb child focus pc) m"
    and del: "deliver (PageRemoved nb child focus pc) m = Inr m'"
    and zero: "total_tabs m' = 0"
  shows "active_tab m' = None \<and> (\<exists>rest. effects m' = effects m @ PropertyNotify ''active-tab'' # rest)"
proof -
  let ?m = "m\<lparr>pages := (pages m)(nb := remove1 child (pages m nb))\<rparr>"
  let ?pn = "nat (gtk_notebook_page_num (pages m nb) child)"
  from reachable_inv [OF re] have ne: "notebooks m \<noteq> []" and di: "distinct (notebooks m)"
    and tot: "total_tabs m = sum_tabs m" and nr: "\<not> removing_notebook m"
    by (simp_all add: pane_inv_def)
  from occ have mem: "nb \<in> set (notebooks m)" and ch: "child \<in> set (pages m nb)" by simp_all
  from del have del': "notebook_page_removed nb child ?pn focus pc ?m = Inr m'" by simp
  from page_removed_total [OF del'] zero have one: "total_tabs m = 1" by simp
  have sum: "sum_tabs ?m = sum_tabs m - 1"
    using di mem ch by (simp add: sum_tabs_def sum_pages_upd length_remove1_int del: fun_upd_apply)
  with tot one have z: "sum_tabs ?m = 0" by simp
  have allempty: "\<forall>n \<in> set (notebooks ?m). pages ?m n = []"
  proof
    fix n assume n: "n \<in> set (notebooks ?m)"
    from z have "(\<Sum>x \<leftarrow> notebooks ?m. int (length (pages ?m x))) = 0"
      by (simp only: sum_tabs_def)
    from sum_pages_zero [where xs = "notebooks ?m" and f = "pages ?m" and n = n, OF this n]
    show "pages ?m n = []" .
  qed
  show ?thesis
  proof (cases "pages ?m nb \<noteq> [] \<or> tl (notebooks ?m) = []")
    case True
    then have "notebook_page_removed nb child ?pn focus pc ?m
                 = Inr (page_removed_while_removing nb child ?m)"
      using ne by (intro page_removed_plain) auto
    with del' have "m' = page_removed_while_removing nb child ?m" by simp
    with one page_removed_while_removing_zero [of ?m nb child] show ?thesis by simp
  next
    case False
    then obtain a b rest where two: "notebooks ?m = a # b # rest"
      by (cases "notebooks m"; cases "tl (notebooks m)") auto
    let ?m2 = "effect (PropertyNotify ''active-tab'') (?m\<lparr>total_tabs := total_tabs ?m - 1, active_tab := None\<rparr>)"
    from False have e: "pages ?m nb = []" by simp
    have nr': "\<not> removing_notebook ?m" using nr by simp
    from del' one obtain m3 where
      r: "remove_notebook nb focus pc ?m2 = Inr m3"
      and m': "m' = effect (SignalEmit (TAB_REMOVED nb child)) m3"
      unfolding page_removed_unfold [OF two e nr']
      by (cases "remove_notebook nb focus pc ?m2") auto
    have two2: "notebooks ?m2 = a # b # rest" using two by simp
    have all2: "\<forall>n \<in> set (notebooks ?m2). pages ?m2 n = []" using allempty by simp
    have none2: "active_tab ?m2 = None" by simp
    have "active_tab m3 = None"
      by (rule remove_notebook_active_tab [OF two2 all2 none2 r])
    moreover
    have empty2: "pages ?m2 nb = []" using e by simp
    have mem2: "nb \<in> set (notebooks ?m2)" using mem by simp
    from mem2 obtain c following where f: "g_list_find (notebooks ?m2) nb = c # following"
      using g_list_find_Nil [of "notebooks ?m2" nb] by (cases "g_list_find (notebooks ?m2) nb") auto
    have pc: "pc \<ge> 1"
      using r unfolding remove_notebook_unfold [OF two2 f empty2] by (cases "pc = 0") auto
    from remove_notebook_empty [OF two2 mem2 empty2 pc, of focus] r
    obtain es where "effects m3 = effects ?m2 @ es" by auto
    then have "effects m' = effects m @ PropertyNotify ''active-tab'' # (es @ [SignalEmit (TAB_REMOVED nb child)])"
      using m' by simp
    ultimately show ?thesis using m' by auto
  qed
qed

text \<open>An event the toolkit can raise on a reachable state is handled without a fault,
  as long as the parent of a removed notebook still has a child.\<close>

lemma deliver_no_fault:
  assumes re: "reachable m" and occ: "occurs e m"
    and pc: "\<And>nb child focus. e \<noteq> PageRemoved nb child focus 0"
  shows "\<exists>m'. deliver e m = Inr m'"
proof (cases e)
  case (PageRemoved nb child focus parent_children)
  let ?m = "m\<lparr>pages := (pages m)(nb := remove1 child (pages m nb))\<rparr>"
  let ?pn = "nat (gtk_notebook_page_num (pages m nb) child)"
  from reachable_inv [OF re] have ne: "notebooks ?m \<noteq> []" and nr: "\<not> removing_notebook ?m"
    by (simp_all add: pane_inv_def)
  from occ PageRemoved have mem: "nb \<in> set (notebooks ?m)" by simp
  from pc PageRemoved have p1: "1 \<le> parent_children" by (cases parent_children) auto
  show ?thesis
  proof (cases "pages ?m nb \<noteq> [] \<or> tl (notebooks ?m) = []")
    case True
    then have "notebook_page_removed nb child ?pn focus parent_children ?m
                 = Inr (page_removed_while_removing nb child ?m)"
      using ne by (intro page_removed_plain) auto
    with PageRemoved show ?thesis by simp
  next
    case False
    then obtain a b rest where two: "notebooks ?m = a # b # rest"
      by (cases "notebooks m"; cases "tl (notebooks m)") auto
    from False have empty: "pages ?m nb = []" by simp
    from page_removed_last_page [OF two mem empty nr p1, where child = child and pn = ?pn
           and focus = focus]
    obtain m3 where "notebook_page_removed nb child ?pn focus parent_children ?m
           = Inr (effect (SignalEmit (TAB_REMOVED nb child)) m3)"
      by blast
    with PageRemoved show ?thesis by simp
  qed
qed simp_all

text \<open>
  C1. In every state the manager can reach by tabs being added and removed, pages being
  switched, focus moving and panes being split off, the counter \<^verbatim>\<open>total_tabs\<close> is the sum
  of the tab counts of the panes of the list. The page-added handler adds exactly one to
  it and the page-removed handler takes exactly one from it, whichever pane raised the
  signal. When a page removal brings the counter to zero, the active tab is cleared and the
  change of the active-tab property is the first thing the handler notifies.
\<close>

theorem total_tabs_invariant:
  "(reachable multi \<longrightarrow> total_tabs multi = sum_tabs multi)
   \<and> total_tabs (notebook_page_added notebook child page_num multi) = total_tabs multi + 1
   \<and> (notebook_page_removed notebook child page_num focus parent_children multi = Inr multi'
      \<longrightarrow> total_tabs multi' = total_tabs multi - 1)
   \<and> (reachable multi \<and> occurs (PageRemoved notebook child focus parent_children) multi \<and>
      deliver (PageRemoved notebook child focus parent_children) multi = Inr multi' \<and>
      total_tabs multi' = 0
      \<longrightarrow> active_tab multi' = None
        \<and> (\<exists>rest. effects multi' = effects multi @ PropertyNotify ''active-tab'' # rest))"
proof (intro conjI impI)
  assume "reachable multi"
  then show "total_tabs multi = sum_tabs multi"
    using reachable_inv by (simp add: pane_inv_def)
next
  show "total_tabs (notebook_page_added notebook child page_num multi) = total_tabs multi + 1"
    by simp
next
  assume "notebook_page_removed notebook child page_num focus parent_children multi = Inr multi'"
  then show "total_tabs multi' = total_tabs multi - 1" by (rule page_removed_total)
next
  assume a: "reachable multi \<and> occurs (PageRemoved notebook child focus parent_children) multi \<and>
      deliver (PageRemoved notebook child focus parent_children) multi = Inr multi' \<and>
      total_tabs multi' = 0"
  then have r: "reachable multi"
    and o: "occurs (PageRemoved notebook child focus parent_children) multi"
    and d: "deliver (PageRemoved notebook child focus parent_children) multi = Inr multi'"
    and z: "total_tabs multi' = 0"
    by blast+
  have "active_tab multi' = None
        \<and> (\<exists>rest. effects multi' = effects multi @ PropertyNotify ''active-tab'' # rest)"
    by (rule deliver_page_removed_zero [OF r o d z])
  then show "active_tab multi' = None"
    "\<exists>rest. effects multi' = effects multi @ PropertyNotify ''active-tab'' # rest"
    by simp_all
qed

lemma sole_pane_example_fields:
  "notebooks sole_pane_example = [0]" "total_tabs sole_pane_example = 1"
  "pages sole_pane_example 0 = [10]" "removing_notebook sole_pane_example = False"
  "effects sole_pane_example = [SignalEmit (NOTEBOOK_ADDED 0), SignalEmit (TAB_ADDED 0 10)]"
  by (simp_all add: sole_pane_example_def pane_eval_defs)

lemma reachable_sole_pane_example: "reachable sole_pane_example"
proof -
  have "reachable (gedit_multi_notebook_init 0)" by (rule reachable.init)
  moreover have "occurs (PageAdded 0 10 0) (gedit_multi_notebook_init 0)"
    by (simp add: gedit_multi_notebook_init_def add_notebook_def effect_def)
  moreover have "deliver (PageAdded 0 10 0) (gedit_multi_notebook_init 0) = Inr sole_pane_example"
    by (simp add: sole_pane_example_def pane_eval_defs)
  ultimately show ?thesis by (rule reachable.step)
qed

lemma example2_remove_main:
  "deliver (PageRemoved 0 11 None 1) pane_example2 =
     Inr (pane_example2\<lparr>notebooks := [7], total_tabs := 1,
            pages := (pages pane_example2)(0 := []),
            effects := effects pane_example2 @
              [WidgetDestroy 0, GrabFocus 7, SignalEmit (NOTEBOOK_REMOVED 0),
               SignalEmit (TAB_REMOVED 0 11)]\<rparr>)"
  by (simp add: notebook_page_removed_def remove_notebook_def gtk_widget_destroy_def
        gtk_widget_grab_focus_def effect_def Let_def pane_example2_fields)

lemma sole_pane_remove_last:
  "deliver (PageRemoved 0 10 None 1) sole_pane_example =
     Inr (sole_pane_example\<lparr>total_tabs := 0, active_tab := None,
            pages := (pages sole_pane_example)(0 := []),
            effects := effects sole_pane_example @
              [PropertyNotify ''active-tab'', SignalEmit (TAB_REMOVED 0 10)]\<rparr>)"
  by (simp add: notebook_page_removed_def effect_def Let_def sole_pane_example_fields)

theorem total_tabs_invariant_witness:
  "total_tabs pane_example2 = sum_tabs pane_example2
   \<and> total_tabs pane_example2 = 2
   \<and> deliver (PageRemoved 0 10 None 1) sole_pane_example = Inr sole_pane_emptied
   \<and> total_tabs sole_pane_emptied = 0
   \<and> active_tab sole_pane_emptied = None
   \<and> (\<exists>rest. effects sole_pane_emptied
                = effects sole_pane_example @ PropertyNotify ''active-tab'' # rest)"
proof -
  from total_tabs_invariant [where multi = pane_example2] reachable_example2
  have a: "total_tabs pane_example2 = sum_tabs pane_example2" by blast
  have o: "occurs (PageRemoved 0 10 None 1) sole_pane_example"
    by (simp add: sole_pane_example_fields)
  have d: "deliver (PageRemoved 0 10 None 1) sole_pane_example = Inr sole_pane_emptied"
    unfolding sole_pane_emptied_def by (rule sole_pane_remove_last)
  have z: "total_tabs sole_pane_emptied = 0" by (simp add: sole_pane_emptied_def)
  from total_tabs_invariant [where multi = sole_pane_example and notebook = 0 and child = 10
         and focus = None and parent_children = 1 and multi' = sole_pane_emptied]
       reachable_sole_pane_example o d z
  have b: "active_tab sole_pane_emptied = None
   \<and> (\<exists>rest. effects sole_pane_emptied
                = effects sole_pane_example @ PropertyNotify ''active-tab'' # rest)"
    by blast
  from a b d z show ?thesis by (simp add: pane_example2_fields)
qed

text \<open>
  C2. When the last tab of a pane is removed while the list holds two panes or more, the
  handler runs \<^verbatim>\<open>remove_notebook\<close> on that pane: the pane is destroyed and leaves the
  list, focus is requested for the next pane of the list (the first one after the last),
  the guard flag is clear again afterwards and, the parent being a paned, notebook-removed
  is emitted; tab-removed follows. This holds of every pane of the list, so of every pane
  other than the first. When the last tab of the only pane is removed, the pane stays in
  the list and the active tab is cleared. While a pane removal is in progress (the guard
  flag is set), the handler removes no pane.
\<close>

theorem last_tab_removal:
  "(reachable multi \<and> notebook \<in> set (notebooks multi) \<and> pages multi notebook = [child] \<and>
    2 \<le> length (notebooks multi) \<and> 1 \<le> parent_children
     \<longrightarrow> (\<exists>before after rest.
            notebooks before = notebooks multi
          \<and> remove_notebook notebook focus parent_children before = Inr after
          \<and> deliver (PageRemoved notebook child focus parent_children) multi
               = Inr (effect (SignalEmit (TAB_REMOVED notebook child)) after)
          \<and> notebooks after = remove1 notebook (notebooks multi)
          \<and> \<not> removing_notebook after
          \<and> effects after = effects before @ WidgetDestroy notebook
               # GrabFocus (case tl (g_list_find (notebooks multi) notebook) of
                              [] \<Rightarrow> hd (notebooks multi) | n # ns \<Rightarrow> n)
               # rest
          \<and> (parent_children = 1 \<longrightarrow> last (effects after) = SignalEmit (NOTEBOOK_REMOVED notebook))))
   \<and> (reachable multi \<and> notebooks multi = [notebook] \<and> pages multi notebook = [child]
     \<longrightarrow> (\<exists>multi'. deliver (PageRemoved notebook child focus parent_children) multi = Inr multi'
          \<and> notebooks multi' = [notebook] \<and> pages multi' notebook = []
          \<and> active_tab multi' = None))
   \<and> (removing_notebook multi \<and> notebooks multi \<noteq> []
     \<longrightarrow> (\<exists>multi'. notebook_page_removed notebook child page_num focus parent_children multi
                      = Inr multi'
          \<and> notebooks multi' = notebooks multi))"
proof (intro conjI impI)
  assume a: "reachable multi \<and> notebook \<in> set (notebooks multi) \<and> pages multi notebook = [child] \<and>
    2 \<le> length (notebooks multi) \<and> 1 \<le> parent_children"
  let ?m = "multi\<lparr>pages := (pages multi)(notebook := remove1 child (pages multi notebook))\<rparr>"
  let ?pn = "nat (gtk_notebook_page_num (pages multi notebook) child)"
  from a have re: "reachable multi" and mem: "notebook \<in> set (notebooks ?m)"
    and one: "pages multi notebook = [child]" and len: "2 \<le> length (notebooks multi)"
    and pc: "1 \<le> parent_children" by simp_all
  from reachable_inv [OF re] have nr: "\<not> removing_notebook ?m" by (simp add: pane_inv_def)
  from len obtain a b rest where two: "notebooks ?m = a # b # rest"
    by (cases "notebooks multi"; cases "tl (notebooks multi)") auto
  from one have empty: "pages ?m notebook = []" by simp
  from page_removed_last_page [OF two mem empty nr pc, where child = child and pn = ?pn and focus = focus]
  obtain m2 m3 es where r:
    "m2 = (if total_tabs ?m - 1 = 0
           then effect (PropertyNotify ''active-tab'') (?m\<lparr>total_tabs := total_tabs ?m - 1, active_tab := None\<rparr>)
           else ?m\<lparr>total_tabs := total_tabs ?m - 1\<rparr>)"
    "remove_notebook notebook focus parent_children m2 = Inr m3"
    "notebook_page_removed notebook child ?pn focus parent_children ?m
       = Inr (effect (SignalEmit (TAB_REMOVED notebook child)) m3)"
    "notebooks m3 = remove1 notebook (notebooks ?m)"
    "\<not> removing_notebook m3"
    "effects m3 = effects m2 @ WidgetDestroy notebook
               # GrabFocus (case tl (g_list_find (notebooks ?m) notebook) of
                              [] \<Rightarrow> hd (notebooks ?m) | n # ns \<Rightarrow> n)
               # es"
    "parent_children = 1 \<longrightarrow> last (effects m3) = SignalEmit (NOTEBOOK_REMOVED notebook)"
    by blast
  from r(1) have nb2: "notebooks m2 = notebooks multi" by simp
  have d: "deliver (PageRemoved notebook child focus parent_children) multi
               = Inr (effect (SignalEmit (TAB_REMOVED notebook child)) m3)"
    using r(3) by simp
  have nbm: "notebooks ?m = notebooks multi" by simp
  have r4: "notebooks m3 = remove1 notebook (notebooks multi)"
    using r(4) unfolding nbm .
  have r6: "effects m3 = effects m2 @ WidgetDestroy notebook
               # GrabFocus (case tl (g_list_find (notebooks multi) notebook) of
                              [] \<Rightarrow> hd (notebooks multi) | n # ns \<Rightarrow> n)
               # es"
    using r(6) unfolding nbm .
  from nb2 r(2) d r4 r(5) r6 r(7)
  show "\<exists>before after rest.
            notebooks before = notebooks multi
          \<and> remove_notebook notebook focus parent_children before = Inr after
          \<and> deliver (PageRemoved notebook child focus parent_children) multi
               = Inr (effect (SignalEmit (TAB_REMOVED notebook child)) after)
          \<and> notebooks after = remove1 notebook (notebooks multi)
          \<and> \<not> removing_notebook after
          \<and> effects after = effects before @ WidgetDestroy notebook
               # GrabFocus (case tl (g_list_find (notebooks multi) notebook) of
                              [] \<Rightarrow> hd (notebooks multi) | n # ns \<Rightarrow> n)
               # rest
          \<and> (parent_children = 1 \<longrightarrow> last (effects after) = SignalEmit (NOTEBOOK_REMOVED notebook))"
    by blast
next
  assume a: "reachable multi \<and> notebooks multi = [notebook] \<and> pages multi notebook = [child]"
  let ?m = "multi\<lparr>pages := (pages multi)(notebook := remove1 child (pages multi notebook))\<rparr>"
  let ?pn = "nat (gtk_notebook_page_num (pages multi notebook) child)"
  from a have re: "reachable multi" and sole: "notebooks multi = [notebook]"
    and one: "pages multi notebook = [child]" by simp_all
  from reachable_inv [OF re] sole one have tot: "total_tabs ?m = 1"
    by (simp add: pane_inv_def sum_tabs_def)
  have "notebook_page_removed notebook child ?pn focus parent_children ?m
          = Inr (page_removed_while_removing notebook child ?m)"
    using sole by (intro page_removed_plain) simp_all
  then have d: "deliver (PageRemoved notebook child focus parent_children) multi
          = Inr (page_removed_while_removing notebook child ?m)" by simp
  from page_removed_while_removing_zero [OF tot, of notebook child]
  have "active_tab (page_removed_while_removing notebook child ?m) = None" by simp
  with d sole one
  show "\<exists>multi'. deliver (PageRemoved notebook child focus parent_children) multi = Inr multi'
          \<and> notebooks multi' = [notebook] \<and> pages multi' notebook = []
          \<and> active_tab multi' = None"
    by (intro exI [of _ "page_removed_while_removing notebook child ?m"]) simp
next
  assume a: "removing_notebook multi \<and> notebooks multi \<noteq> []"
  then have "notebook_page_removed notebook child page_num focus parent_children multi
               = Inr (page_removed_while_removing notebook child multi)"
    by (intro page_removed_plain) simp_all
  then show "\<exists>multi'. notebook_page_removed notebook child page_num focus parent_children multi
                      = Inr multi'
          \<and> notebooks multi' = notebooks multi"
    by simp
qed

theorem last_tab_removal_witness:
  "(\<exists>before after rest.
       notebooks before = [0, 7]
     \<and> remove_notebook 7 None 1 before = Inr after
     \<and> deliver (PageRemoved 7 10 None 1) pane_example2
          = Inr (effect (SignalEmit (TAB_REMOVED 7 10)) after)
     \<and> notebooks after = [0]
     \<and> \<not> removing_notebook after
     \<and> effects after = effects before @ WidgetDestroy 7 # GrabFocus 0 # rest
     \<and> last (effects after) = SignalEmit (NOTEBOOK_REMOVED 7))
   \<and> (\<exists>multi'. deliver (PageRemoved 0 10 None 1) sole_pane_example = Inr multi'
          \<and> notebooks multi' = [0] \<and> pages multi' 0 = [] \<and> active_tab multi' = None)"
proof -
  have h1: "reachable pane_example2 \<and> 7 \<in> set (notebooks pane_example2) \<and>
     pages pane_example2 7 = [10] \<and> 2 \<le> length (notebooks pane_example2) \<and> (1::nat) \<le> 1"
    using reachable_example2 by (simp add: pane_example2_fields)
  have h2: "reachable sole_pane_example \<and> notebooks sole_pane_example = [0] \<and>
     pages sole_pane_example 0 = [10]"
    using reachable_sole_pane_example by (simp add: sole_pane_example_fields)
  from last_tab_removal [where multi = pane_example2 and notebook = 7 and child = 10
         and focus = None and parent_children = 1] h1
  have a: "\<exists>before after rest.
       notebooks before = notebooks pane_example2
     \<and> remove_notebook 7 None 1 before = Inr after
     \<and> deliver (PageRemoved 7 10 None 1) pane_example2
          = Inr (effect (SignalEmit (TAB_REMOVED 7 10)) after)
     \<and> notebooks after = remove1 7 (notebooks pane_example2)
     \<and> \<not> removing_notebook after
     \<and> effects after = effects before @ WidgetDestroy 7
          # GrabFocus (case tl (g_list_find (notebooks pane_example2) 7) of
                         [] \<Rightarrow> hd (notebooks pane_example2) | n # ns \<Rightarrow> n)
          # rest
     \<and> ((1::nat) = 1 \<longrightarrow> last (effects after) = SignalEmit (NOTEBOOK_REMOVED 7))"
    by blast
  from last_tab_removal [where multi = sole_pane_example and notebook = 0 and child = 10
         and focus = None and parent_children = 1] h2
  have b: "\<exists>multi'. deliver (PageRemoved 0 10 None 1) sole_pane_example = Inr multi'
          \<and> notebooks multi' = [0] \<and> pages multi' 0 = [] \<and> active_tab multi' = None"
    by blast
  from a b show ?thesis by (simp add: pane_example2_fields del: deliver.simps)
qed

text \<open>What the handler leaves of the list when it removes a pane.\<close>

lemma deliver_page_removed_notebooks:
  assumes re: "reachable m"
    and del: "deliver (PageRemoved nb child focus pc) m = Inr m'"
  shows "notebooks m' =
           (if remove1 child (pages m nb) = [] \<and> tl (notebooks m) \<noteq> []
            then remove1 nb (notebooks m) else notebooks m)"
proof -
  let ?m = "m\<lparr>pages := (pages m)(nb := remove1 child (pages m nb))\<rparr>"
  let ?pn = "nat (gtk_notebook_page_num (pages m nb) child)"
  from reachable_inv [OF re] have ne: "notebooks ?m \<noteq> []" and nr: "\<not> removing_notebook ?m"
    by (simp_all add: pane_inv_def)
  from del have del': "notebook_page_removed nb child ?pn focus pc ?m = Inr m'" by simp
  show ?thesis
  proof (cases "pages ?m nb \<noteq> [] \<or> tl (notebooks ?m) = []")
    case True
    then have "notebook_page_removed nb child ?pn focus pc ?m
                 = Inr (page_removed_while_removing nb child ?m)"
      using ne by (intro page_removed_plain) auto
    with del' have "m' = page_removed_while_removing nb child ?m" by simp
    with True show ?thesis by auto
  next
    case False
    then obtain a b rest where two: "notebooks ?m = a # b # rest"
      by (cases "notebooks m"; cases "tl (notebooks m)") auto
    from False have empty: "pages ?m nb = []" by simp
    let ?m2 = "(if total_tabs ?m - 1 = 0
                 then effect (PropertyNotify ''active-tab'')
                        (?m\<lparr>total_tabs := total_tabs ?m - 1, active_tab := None\<rparr>)
                 else ?m\<lparr>total_tabs := total_tabs ?m - 1\<rparr>)"
    from del' obtain m3 where
      r: "remove_notebook nb focus pc ?m2 = Inr m3"
      and m': "m' = effect (SignalEmit (TAB_REMOVED nb child)) m3"
      unfolding page_removed_unfold [OF two empty nr]
      by (cases "remove_notebook nb focus pc ?m2") auto
    have two2: "notebooks ?m2 = a # b # rest" using two by simp
    have empty2: "pages ?m2 nb = []" using empty by simp
    from two2 r obtain c following where f: "g_list_find (notebooks ?m2) nb = c # following"
      by (cases "g_list_find (notebooks ?m2) nb") (auto simp add: remove_notebook_def)
    have "notebooks m3 = remove1 nb (notebooks ?m2)"
      using r unfolding remove_notebook_unfold [OF two2 f empty2]
      by (auto split: if_splits)
    with m' False show ?thesis by auto
  qed
qed

lemma first_pane_kept:
  assumes re: "reachable m" and del: "deliver e m = Inr m'"
    and ne: "\<not> first_pane_emptied e m"
  shows "hd (notebooks m') = hd (notebooks m)"
proof (cases e)
  case (PageAdded nb child pos)
  with del show ?thesis by auto
next
  case (PageRemoved nb child focus pc)
  from reachable_inv [OF re] obtain a rest where l: "notebooks m = a # rest"
    by (cases "notebooks m") (auto simp add: pane_inv_def)
  from del PageRemoved
  have n: "notebooks m' =
           (if remove1 child (pages m nb) = [] \<and> tl (notebooks m) \<noteq> []
            then remove1 nb (notebooks m) else notebooks m)"
    using deliver_page_removed_notebooks [OF re] by blast
  from ne PageRemoved l
  have "nb \<noteq> a \<or> remove1 child (pages m nb) \<noteq> [] \<or> rest = []" by auto
  with n l show ?thesis by auto
next
  case (SwitchPage nb n)
  with del show ?thesis by auto
next
  case (SetFocusChild nb n)
  with del show ?thesis by auto
next
  case (AddNewNotebook nb tab cur)
  from reachable_inv [OF re] have "notebooks m \<noteq> []" by (simp add: pane_inv_def)
  with del AddNewNotebook show ?thesis
    by (auto simp add: gedit_multi_notebook_add_new_notebook_def Let_def)
qed

lemma first_pane_removed:
  assumes re: "reachable m" and del: "deliver e m = Inr m'"
    and fe: "first_pane_emptied e m"
  shows "notebooks m' = tl (notebooks m)"
proof (cases e)
  case (PageRemoved nb child focus pc)
  from reachable_inv [OF re] obtain a rest where l: "notebooks m = a # rest"
    by (cases "notebooks m") (auto simp add: pane_inv_def)
  from del PageRemoved
  have n: "notebooks m' =
           (if remove1 child (pages m nb) = [] \<and> tl (notebooks m) \<noteq> []
            then remove1 nb (notebooks m) else notebooks m)"
    using deliver_page_removed_notebooks [OF re] by blast
  from fe PageRemoved l
  have "nb = a" "remove1 child (pages m nb) = []" "rest \<noteq> []" by auto
  with n l show ?thesis by auto
qed (use fe in simp_all)

lemma first_pane_removal_succeeds:
  assumes re: "reachable m" and l: "notebooks m = first # second # rest"
    and p: "pages m first = [child]" and pc: "1 \<le> pc"
  shows "\<exists>m'. deliver (PageRemoved first child focus pc) m = Inr m'
               \<and> notebooks m' = second # rest"
proof -
  have occ: "occurs (PageRemoved first child focus pc) m" using l p by simp
  have "\<And>nb c f. PageRemoved first child focus pc \<noteq> PageRemoved nb c f 0"
    using pc by auto
  from deliver_no_fault [OF re occ this]
  obtain m' where d: "deliver (PageRemoved first child focus pc) m = Inr m'" by blast
  have fe: "first_pane_emptied (PageRemoved first child focus pc) m" using l p by simp
  from first_pane_removed [OF re d fe] l d show ?thesis by simp
qed

text \<open>
  C3 (as the code has it). \<^verbatim>\<open>remove_notebook\<close> on a list of one pane logs a warning
  and changes nothing else, whatever the pane holds, and the list of a reachable state is
  never empty. The first pane of the list stays the first pane under every event but one:
  no page added, no page removed from another pane, no page removed from the first pane
  that leaves it a page, no switch of page, no change of focus and no new pane changes the
  head of the list. The exception is the removal of the last page of the first pane while
  the list holds another pane: the handler then removes the first pane like any other, and
  the second pane becomes the first. With a parent that still has a child, that removal is
  carried out without a fault.
\<close>

theorem main_pane_removal:
  "(notebooks multi = [only]
      \<longrightarrow> remove_notebook notebook focus parent_children multi
            = Inr (multi\<lparr>effects := effects multi
                     @ [GWarning ''You are trying to remove the main notebook'']\<rparr>))
   \<and> (reachable multi \<longrightarrow> notebooks multi \<noteq> [])
   \<and> (reachable multi \<and> deliver e multi = Inr multi' \<and> \<not> first_pane_emptied e multi
      \<longrightarrow> hd (notebooks multi') = hd (notebooks multi))
   \<and> (reachable multi \<and> deliver e multi = Inr multi' \<and> first_pane_emptied e multi
      \<longrightarrow> notebooks multi' = tl (notebooks multi) \<and> notebooks multi' \<noteq> [])
   \<and> (reachable multi \<and> notebooks multi = first # second # rest \<and>
      pages multi first = [child] \<and> 1 \<le> parent_children
      \<longrightarrow> (\<exists>after. deliver (PageRemoved first child focus parent_children) multi = Inr after
                   \<and> notebooks after = second # rest))"
proof (intro conjI impI)
  assume "notebooks multi = [only]"
  then show "remove_notebook notebook focus parent_children multi
            = Inr (multi\<lparr>effects := effects multi
                     @ [GWarning ''You are trying to remove the main notebook'']\<rparr>)"
    by (simp add: remove_notebook_def effect_def)
next
  assume "reachable multi"
  then show "notebooks multi \<noteq> []" using reachable_inv by (simp add: pane_inv_def)
next
  assume "reachable multi \<and> deliver e multi = Inr multi' \<and> \<not> first_pane_emptied e multi"
  then show "hd (notebooks multi') = hd (notebooks multi)" using first_pane_kept by blast
next
  assume a: "reachable multi \<and> deliver e multi = Inr multi' \<and> first_pane_emptied e multi"
  then have n: "notebooks multi' = tl (notebooks multi)" using first_pane_removed by blast
  from a have "tl (notebooks multi) \<noteq> []" by (cases e) simp_all
  with n show "notebooks multi' = tl (notebooks multi)" "notebooks multi' \<noteq> []" by simp_all
next
  assume "reachable multi \<and> notebooks multi = first # second # rest \<and>
      pages multi first = [child] \<and> 1 \<le> parent_children"
  then show "\<exists>after. deliver (PageRemoved first child focus parent_children) multi = Inr after
                   \<and> notebooks after = second # rest"
    using first_pane_removal_succeeds by blast
qed

theorem main_pane_removal_witness:
  "remove_notebook 0 None 1 sole_pane_example
     = Inr (sole_pane_example\<lparr>effects := effects sole_pane_example
              @ [GWarning ''You are trying to remove the main notebook'']\<rparr>)
   \<and> notebooks pane_example2 = [0, 7]
   \<and> \<not> first_pane_emptied (PageRemoved 7 10 None 1) pane_example2
   \<and> map_sum id (\<lambda>multi. hd (notebooks multi)) (deliver (PageRemoved 7 10 None 1) pane_example2)
       = Inr 0
   \<and> \<not> first_pane_emptied (PageAdded 0 12 0) pane_example2
   \<and> map_sum id (\<lambda>multi. hd (notebooks multi)) (deliver (PageAdded 0 12 0) pane_example2)
       = Inr 0
   \<and> first_pane_emptied (PageRemoved 0 11 None 1) pane_example2
   \<and> map_sum id notebooks (deliver (PageRemoved 0 11 None 1) pane_example2) = Inr [7]"
proof -
  note f = pane_example2_fields
  have n: "notebooks sole_pane_example = [0]" by (simp add: sole_pane_example_fields)
  have re: "reachable pane_example2" by (rule reachable_example2)
  have k: "\<not> first_pane_emptied (PageRemoved 7 10 None 1) pane_example2"
    "\<not> first_pane_emptied (PageAdded 0 12 0) pane_example2"
    "first_pane_emptied (PageRemoved 0 11 None 1) pane_example2"
    by (simp_all add: f)
  have "occurs (PageRemoved 7 10 None 1) pane_example2" by (simp add: f)
  from deliver_no_fault [OF re this]
  obtain m7 where d7: "deliver (PageRemoved 7 10 None 1) pane_example2 = Inr m7" by auto
  obtain ma where da: "deliver (PageAdded 0 12 0) pane_example2 = Inr ma" by simp
  obtain m0 where d0: "deliver (PageRemoved 0 11 None 1) pane_example2 = Inr m0"
    using example2_remove_main by simp
  from main_pane_removal [where multi = sole_pane_example and only = 0 and notebook = 0
         and focus = None and parent_children = 1] n
  have a: "remove_notebook 0 None 1 sole_pane_example
     = Inr (sole_pane_example\<lparr>effects := effects sole_pane_example
              @ [GWarning ''You are trying to remove the main notebook'']\<rparr>)"
    by blast
  from main_pane_removal [where multi = pane_example2 and e = "PageRemoved 7 10 None 1"
         and multi' = m7] re d7 k(1)
  have b: "hd (notebooks m7) = 0" by (simp add: f del: deliver.simps)
  from main_pane_removal [where multi = pane_example2 and e = "PageAdded 0 12 0"
         and multi' = ma] re da k(2)
  have c: "hd (notebooks ma) = 0" by (simp add: f del: deliver.simps)
  from main_pane_removal [where multi = pane_example2 and e = "PageRemoved 0 11 None 1"
         and multi' = m0] re d0 k(3)
  have d: "notebooks m0 = [7]" by (simp add: f del: deliver.simps)
  from main_pane_removal [where multi = pane_example2 and first = 0 and second = 7
         and rest = "[]" and child = 11 and parent_children = 1 and focus = None] re
  have g: "\<exists>after. deliver (PageRemoved 0 11 None 1) pane_example2 = Inr after
                   \<and> notebooks after = [7]"
    by (simp add: f del: deliver.simps)
  from a b c d g k d7 da d0 show ?thesis
    by (simp add: f del: deliver.simps)
qed


text \<open>
  C3 as stated protects the first pane of the list. With two panes, removing the last tab
  of the first pane removes it: the other pane becomes the first.
\<close>

theorem first_pane_removed_counterexample:
  "reachable pane_example2
   \<and> hd (notebooks pane_example2) = 0
   \<and> occurs (PageRemoved 0 11 None 1) pane_example2
   \<and> map_sum id notebooks (deliver (PageRemoved 0 11 None 1) pane_example2) = Inr [7]"
  using reachable_example2 example2_remove_main
  by (simp add: pane_example2_fields del: deliver.simps)

lemma page_num_ge: "- 1 \<le> gtk_notebook_page_num cs child"
  by (induction cs) (auto simp add: Let_def)

lemma page_num_absent: "child \<notin> set cs \<Longrightarrow> gtk_notebook_page_num cs child = -1"
  by (induction cs) (auto simp add: Let_def)

lemma page_num_index:
  "distinct cs \<Longrightarrow> i < length cs \<Longrightarrow> gtk_notebook_page_num cs (cs ! i) = int i"
proof (induction cs arbitrary: i)
  case Nil
  then show ?case by simp
next
  case (Cons c cs)
  show ?case
  proof (cases i)
    case 0
    then show ?thesis by simp
  next
    case (Suc j)
    with Cons.prems have j: "j < length cs" and d: "distinct cs" and ne: "c \<noteq> cs ! j"
      by auto
    from Cons.IH [OF d j] have "gtk_notebook_page_num cs (cs ! j) = int j" .
    with Suc ne show ?thesis by (simp add: Let_def)
  qed
qed

lemma get_page_num_loop_found:
  assumes "\<forall>p \<in> set pre. tab \<notin> set (pgs p)"
    and "distinct (pgs nb)" and "i < length (pgs nb)" and "pgs nb ! i = tab"
  shows "get_page_num_loop pgs tab (pre @ nb # post) acc
           = acc + (\<Sum>p \<leftarrow> pre. int (length (pgs p))) + int i"
  using assms(1)
proof (induction pre arbitrary: acc)
  case Nil
  from page_num_index [OF assms(2) assms(3)] assms(4)
  have "gtk_notebook_page_num (pgs nb) tab = int i" by simp
  then show ?case by (simp add: Let_def)
next
  case (Cons p pre)
  then have "gtk_notebook_page_num (pgs p) tab = -1" by (simp add: page_num_absent)
  with Cons show ?case by (simp add: Let_def)
qed

lemma set_current_page_loop_found:
  assumes "i < length (pgs nb)"
  shows "set_current_page_loop pgs (acc + (\<Sum>p \<leftarrow> pre. int (length (pgs p))) + int i)
           (pre @ nb # post) acc single
           = Some (nb, single - (\<Sum>p \<leftarrow> pre. int (length (pgs p))))"
proof (induction pre arbitrary: acc single)
  case Nil
  from assms show ?case by (simp add: Let_def)
next
  case (Cons p pre)
  have nn: "0 \<le> (\<Sum>p \<leftarrow> pre. int (length (pgs p)))" by (rule sum_pages_nonneg)
  have "set_current_page_loop pgs
          ((acc + int (length (pgs p))) + (\<Sum>p \<leftarrow> pre. int (length (pgs p))) + int i)
          (pre @ nb # post) (acc + int (length (pgs p))) (single - int (length (pgs p)))
        = Some (nb, single - int (length (pgs p)) - (\<Sum>p \<leftarrow> pre. int (length (pgs p))))"
    by (rule Cons.IH)
  moreover have "acc + (\<Sum>p \<leftarrow> p # pre. int (length (pgs p))) + int i
                   = (acc + int (length (pgs p))) + (\<Sum>p \<leftarrow> pre. int (length (pgs p))) + int i"
    by simp
  ultimately show ?case using nn by (simp add: Let_def add.assoc diff_diff_eq)
qed

text \<open>
  C4. For a tab at local index \<open>i\<close> of a pane, not a page of any earlier pane, the
  global index \<^verbatim>\<open>gedit_multi_notebook_get_page_num\<close> computes is the sum of the tab counts
  of the earlier panes plus \<open>i\<close>, and the loop of
  \<^verbatim>\<open>gedit_multi_notebook_set_current_page\<close> maps that global index back to the same pane
  and the same local index, which is the page the function then makes current.
\<close>

theorem global_index_round_trip:
  assumes "notebooks multi = pre @ notebook # post"
    and "\<forall>p \<in> set pre. tab \<notin> set (pages multi p)"
    and "distinct (pages multi notebook)"
    and "i < length (pages multi notebook)"
    and "pages multi notebook ! i = tab"
  shows "gedit_multi_notebook_get_page_num multi tab
           = (\<Sum>p \<leftarrow> pre. int (length (pages multi p))) + int i
         \<and> set_current_page_loop (pages multi) (gedit_multi_notebook_get_page_num multi tab)
             (notebooks multi) 0 (gedit_multi_notebook_get_page_num multi tab)
           = Some (notebook, int i)
         \<and> (\<exists>multi'. gedit_multi_notebook_set_current_page multi
                        (gedit_multi_notebook_get_page_num multi tab) focus switch = Inr multi'
              \<and> NotebookSetCurrentPage notebook (int i) \<in> set (effects multi'))"
proof -
  let ?g = "(\<Sum>p \<leftarrow> pre. int (length (pages multi p))) + int i"
  have g: "gedit_multi_notebook_get_page_num multi tab = ?g"
    unfolding gedit_multi_notebook_get_page_num_def assms(1)
    using get_page_num_loop_found [where pgs = "pages multi" and nb = notebook and i = i
            and tab = tab and acc = 0 and pre = pre and post = post]
          assms(2) assms(3) assms(4) assms(5)
    by simp
  have l: "set_current_page_loop (pages multi) ?g (notebooks multi) 0 ?g = Some (notebook, int i)"
    unfolding assms(1)
    using set_current_page_loop_found [where pgs = "pages multi" and nb = notebook and i = i
            and acc = 0 and pre = pre and post = post and single = ?g] assms(4)
    by simp
  have e: "\<exists>multi'. gedit_multi_notebook_set_current_page multi ?g focus switch = Inr multi'
              \<and> NotebookSetCurrentPage notebook (int i) \<in> set (effects multi')"
  proof (cases switch)
    case None
    then show ?thesis
      by (simp add: gedit_multi_notebook_set_current_page_def l Let_def)
  next
    case (Some n)
    obtain es where "effects (notebook_switch_page notebook n
        (effect (NotebookSetCurrentPage notebook (int i))
           (if notebook \<noteq> active_notebook multi then gtk_widget_grab_focus notebook focus multi else multi)))
       = effects (effect (NotebookSetCurrentPage notebook (int i))
           (if notebook \<noteq> active_notebook multi then gtk_widget_grab_focus notebook focus multi else multi)) @ es"
      using switch_page_effects by blast
    with Some show ?thesis
      by (simp add: gedit_multi_notebook_set_current_page_def l Let_def)
  qed
  from g l e show ?thesis by simp
qed

theorem global_index_round_trip_witness:
  "gedit_multi_notebook_get_page_num pane_example2 10 = 1
   \<and> set_current_page_loop (pages pane_example2) 1 (notebooks pane_example2) 0 1 = Some (7, 0)
   \<and> gedit_multi_notebook_get_page_num pane_example2 11 = 0
   \<and> set_current_page_loop (pages pane_example2) 0 (notebooks pane_example2) 0 0 = Some (0, 0)"
proof -
  have n: "notebooks pane_example2 = [0] @ 7 # []" by (simp add: pane_example2_fields)
  have p: "\<forall>p \<in> set [0]. 10 \<notin> set (pages pane_example2 p)" by (simp add: pane_example2_fields)
  have d: "distinct (pages pane_example2 7)" "0 < length (pages pane_example2 7)"
    "pages pane_example2 7 ! 0 = 10"
    by (simp_all add: pane_example2_fields)
  have n': "notebooks pane_example2 = [] @ 0 # [7]" by (simp add: pane_example2_fields)
  have p': "\<forall>p \<in> set []. 11 \<notin> set (pages pane_example2 p)" by simp
  have d': "distinct (pages pane_example2 0)" "0 < length (pages pane_example2 0)"
    "pages pane_example2 0 ! 0 = 11"
    by (simp_all add: pane_example2_fields)
  from global_index_round_trip [OF n p d, of None None]
  have a: "gedit_multi_notebook_get_page_num pane_example2 10 = 1"
    "set_current_page_loop (pages pane_example2) (gedit_multi_notebook_get_page_num pane_example2 10)
       (notebooks pane_example2) 0 (gedit_multi_notebook_get_page_num pane_example2 10) = Some (7, 0)"
    by (simp_all add: pane_example2_fields)
  from global_index_round_trip [OF n' p' d', of None None]
  have b: "gedit_multi_notebook_get_page_num pane_example2 11 = 0"
    "set_current_page_loop (pages pane_example2) (gedit_multi_notebook_get_page_num pane_example2 11)
       (notebooks pane_example2) 0 (gedit_multi_notebook_get_page_num pane_example2 11) = Some (0, 0)"
    by (simp_all add: pane_example2_fields)
  from a b show ?thesis by simp
qed

end
